theory Spec2Isabelle
  imports Main "HOL-Library.Word"
begin

unbundle bit_operations_syntax

section \<open>Scope stack (scope.c)\<close>

text \<open>
  \<^verbatim>\<open>scope_t\<close> is one array of pointer-sized slots: saved base indices, values and keys
  are interleaved. A slot is read as a natural number; \<^verbatim>\<open>cap\<close>, \<^verbatim>\<open>len\<close> and \<^verbatim>\<open>base\<close>
  are \<^verbatim>\<open>u32\<close>. A \<^verbatim>\<open>memalloc_t\<close> says whether a request for \<open>n\<close> slots is granted.
  \<^verbatim>\<open>None\<close> is the \<^verbatim>\<open>false\<close> the C functions return when \<^verbatim>\<open>scope_grow\<close> fails; a write
  that would land outside the array (undefined behaviour in C) is \<^verbatim>\<open>None\<close> as well.
\<close>

type_synonym u32 = "32 word"
type_synonym u64 = "64 word"
type_synonym memalloc_t = "nat \<Rightarrow> bool"

record scope_t =
  ptr :: "nat list"
  cap :: u32
  len :: u32
  base :: u32

definition scope_clear :: "scope_t \<Rightarrow> scope_t" where
  "scope_clear s = s\<lparr>len := 0, base := 0\<rparr>"

definition scope_grow :: "memalloc_t \<Rightarrow> scope_t \<Rightarrow> scope_t option" where
  "scope_grow ma s =
     (let initcap = (4::u32);
          newcap = (cap s + (initcap div 2) * (if cap s = 0 then 1 else 0)) * 2
      in if ma (unat newcap)
         then Some (s\<lparr>ptr := take (unat newcap) (ptr s) @
                            replicate (unat newcap - length (ptr s)) 0,
                     cap := newcap\<rparr>)
         else None)"

definition scope_push :: "memalloc_t \<Rightarrow> scope_t \<Rightarrow> scope_t option" where
  "scope_push ma s =
     (case (if cap s \<le> len s then scope_grow ma s else Some s) of
        None \<Rightarrow> None
      | Some s1 \<Rightarrow>
          if unat (len s1) < length (ptr s1)
          then Some (s1\<lparr>ptr := (ptr s1)[unat (len s1) := unat (base s1)],
                        base := len s1,
                        len := len s1 + 1\<rparr>)
          else None)"

definition scope_pop :: "scope_t \<Rightarrow> scope_t" where
  "scope_pop s =
     (let s1 = s\<lparr>len := base s\<rparr>
      in s1\<lparr>base := of_nat (ptr s1 ! unat (len s1))\<rparr>)"

definition scope_def :: "memalloc_t \<Rightarrow> nat \<Rightarrow> nat \<Rightarrow> scope_t \<Rightarrow> scope_t option" where
  "scope_def ma key val s =
     (case (if cap s - len s < 2 then scope_grow ma s else Some s) of
        None \<Rightarrow> None
      | Some s1 \<Rightarrow>
          if unat (len s1) < length (ptr s1) \<and> unat (len s1 + 1) < length (ptr s1)
          then Some (s1\<lparr>ptr := (ptr s1)[unat (len s1) := val, unat (len s1 + 1) := key],
                        len := len s1 + 2\<rparr>)
          else None)"

text \<open>
  The loop of \<^verbatim>\<open>scope_lookup\<close>: \<^verbatim>\<open>while (i-- > 1)\<close> tests, then decrements; the key
  comparison \<^verbatim>\<open>s->ptr[i--] == key\<close> decrements once more. \<open>0\<close> is \<^verbatim>\<open>NULL\<close>.
\<close>

function lookup_loop :: "nat list \<Rightarrow> nat \<Rightarrow> u32 \<Rightarrow> u32 \<Rightarrow> u32 \<Rightarrow> nat" where
  "lookup_loop p key i b maxdepth =
     (if 1 < i then
        (let i1 = i - 1 in
         if i1 = b then
           (if maxdepth = 0 then 0
            else lookup_loop p key i1 (of_nat (p ! unat i1)) (maxdepth - 1))
         else if p ! unat i1 = key then p ! unat (i1 - 1)
         else lookup_loop p key (i1 - 1) b maxdepth)
      else 0)"
  by pat_completeness auto
termination
  apply (relation "measure (\<lambda>(p, key, i, b, m). unat i)")
    apply simp
   apply (simp add: unat_sub word_less_nat_alt word_le_nat_alt)
  apply (simp add: word_less_nat_alt)
  apply unat_arith
  done

declare lookup_loop.simps [simp del]

definition scope_lookup :: "scope_t \<Rightarrow> nat \<Rightarrow> u32 \<Rightarrow> nat" where
  "scope_lookup s key maxdepth = lookup_loop (ptr s) key (len s) (base s) maxdepth"

text \<open>A run of \<^verbatim>\<open>scope_def\<close> calls, stopping at the first one that returns \<^verbatim>\<open>false\<close>.\<close>

fun scope_defs :: "memalloc_t \<Rightarrow> (nat \<times> nat) list \<Rightarrow> scope_t \<Rightarrow> scope_t option" where
  "scope_defs ma [] s = Some s"
| "scope_defs ma ((key, val) # kvs) s =
     (case scope_def ma key val s of None \<Rightarrow> None | Some s1 \<Rightarrow> scope_defs ma kvs s1)"

text \<open>
  \<^verbatim>\<open>ptr\<close> points to an array of \<^verbatim>\<open>cap\<close> slots of which \<^verbatim>\<open>len\<close> are in use.
\<close>

definition scope_ok :: "scope_t \<Rightarrow> bool" where
  "scope_ok s \<longleftrightarrow> length (ptr s) = unat (cap s) \<and> len s \<le> cap s"

text \<open>
  What holds of a scope \<open>s\<close> inside the region opened by a push on \<open>s0\<close>: the slots
  below the push are those of \<open>s0\<close>, and the marker holds the base of \<open>s0\<close>.
\<close>

definition scope_inner :: "scope_t \<Rightarrow> scope_t \<Rightarrow> bool" where
  "scope_inner s0 s \<longleftrightarrow>
     scope_ok s \<and> base s = len s0 \<and> len s0 < len s \<and>
     take (unat (len s0)) (ptr s) = take (unat (len s0)) (ptr s0) \<and>
     ptr s ! unat (len s0) = unat (base s0)"

text \<open>An allocator that grants every request.\<close>

definition ma_any :: memalloc_t where
  "ma_any n = True"


section \<open>Tokens, node kinds, diagnostics, symbols\<close>

text \<open>
  The headers \<^verbatim>\<open>compiler.h\<close> and \<^verbatim>\<open>tokens.h\<close> are not among the sources. The token and
  node-kind enumerations below list the constants that scanner.c, parser.c, typeid.c and
  universe.c name.
\<close>

datatype tok_t = TEOF | TSEMI | TLPAREN | TRPAREN | TLBRACE | TRBRACE | TLBRACK | TRBRACK
  | TCOMMA | TDOT | TDOTDOT | TDOTDOTDOT | THASH | TQUESTION | TCOLON
  | TPLUS | TMINUS | TSTAR | TSLASH | TPERCENT | TAND | TOR | TXOR | TTILDE | TNOT
  | TLT | TGT | TLTEQ | TGTEQ | TEQ | TNEQ
  | TASSIGN | TMULASSIGN | TDIVASSIGN | TMODASSIGN | TADDASSIGN | TSUBASSIGN
  | TSHLASSIGN | TSHRASSIGN | TANDASSIGN | TXORASSIGN | TORASSIGN
  | TOROR | TANDAND | TSHL | TSHR | TPLUSPLUS | TMINUSMINUS
  | TID | TINTLIT | TFLOATLIT
  | TFUN | TLET | TVAR | TTYPE | TIF | TELSE | TFOR | TRETURN | TMUT

datatype nodekind_t = NODE_BAD | NODE_UNIT | STMT_TYPEDEF
  | EXPR_FUN | EXPR_BLOCK | EXPR_CALL | EXPR_ID | EXPR_FIELD | EXPR_PARAM | EXPR_VAR | EXPR_LET
  | EXPR_MEMBER | EXPR_PREFIXOP | EXPR_POSTFIXOP | EXPR_BINOP | EXPR_DEREF
  | EXPR_IF | EXPR_FOR | EXPR_RETURN | EXPR_BOOLLIT | EXPR_INTLIT | EXPR_FLOATLIT
  | TYPE_VOID | TYPE_BOOL | TYPE_INT | TYPE_I8 | TYPE_I16 | TYPE_I32 | TYPE_I64
  | TYPE_F32 | TYPE_F64 | TYPE_ARRAY | TYPE_FUN | TYPE_PTR | TYPE_REF | TYPE_MUTREF
  | TYPE_SLICE | TYPE_MUTSLICE | TYPE_OPTIONAL | TYPE_STRUCT | TYPE_ALIAS | TYPE_UNKNOWN

text \<open>
  Modelled from the spec: the kind predicates of \<^verbatim>\<open>compiler.h\<close> are missing; spec section 3
  partitions the kinds into types, expressions and statements, and calls the built-in
  scalar types primitive.
\<close>

definition nodekind_isexpr :: "nodekind_t \<Rightarrow> bool" where
  "nodekind_isexpr k \<longleftrightarrow> k \<in> {EXPR_FUN, EXPR_BLOCK, EXPR_CALL, EXPR_ID, EXPR_FIELD, EXPR_PARAM,
     EXPR_VAR, EXPR_LET, EXPR_MEMBER, EXPR_PREFIXOP, EXPR_POSTFIXOP, EXPR_BINOP, EXPR_DEREF,
     EXPR_IF, EXPR_FOR, EXPR_RETURN, EXPR_BOOLLIT, EXPR_INTLIT, EXPR_FLOATLIT}"

definition nodekind_isprimtype :: "nodekind_t \<Rightarrow> bool" where
  "nodekind_isprimtype k \<longleftrightarrow> k \<in> {TYPE_VOID, TYPE_BOOL, TYPE_INT, TYPE_I8, TYPE_I16, TYPE_I32,
     TYPE_I64, TYPE_F32, TYPE_F64}"

definition nodekind_isusertype :: "nodekind_t \<Rightarrow> bool" where
  "nodekind_isusertype k \<longleftrightarrow> k \<in> {TYPE_ARRAY, TYPE_FUN, TYPE_PTR, TYPE_REF, TYPE_MUTREF,
     TYPE_SLICE, TYPE_MUTSLICE, TYPE_OPTIONAL, TYPE_STRUCT, TYPE_ALIAS}"

definition nodekind_istype :: "nodekind_t \<Rightarrow> bool" where
  "nodekind_istype k \<longleftrightarrow> nodekind_isprimtype k \<or> nodekind_isusertype k \<or> k = TYPE_UNKNOWN"

text \<open>
  Modelled from the spec: \<^verbatim>\<open>sym_intern\<close> is missing; spec section 4.2 makes it a table from
  byte strings to stable pointers, equal pointers for equal bytes. A symbol is the
  position of its bytes in the table plus one, so that \<open>0\<close> is \<^verbatim>\<open>NULL\<close>. The symbols
  \<^verbatim>\<open>_\<close> and \<^verbatim>\<open>this\<close> are interned first.
\<close>

type_synonym sym_t = nat

fun index_of :: "'a \<Rightarrow> 'a list \<Rightarrow> nat" where
  "index_of x [] = 0"
| "index_of x (y # ys) = (if x = y then 0 else Suc (index_of x ys))"

definition sym_intern :: "string \<Rightarrow> string list \<Rightarrow> sym_t \<times> string list" where
  "sym_intern str tab =
     (if str \<in> set tab then (Suc (index_of str tab), tab)
      else (Suc (length tab), tab @ [str]))"

definition sym_str :: "string list \<Rightarrow> sym_t \<Rightarrow> string" where
  "sym_str tab y = (if 0 < y \<and> y \<le> length tab then tab ! (y - 1) else [])"

definition symtab0 :: "string list" where
  "symtab0 = [''_'', ''this'']"

definition sym_underscore :: sym_t where "sym_underscore = 1"
definition sym_this :: sym_t where "sym_this = 2"

text \<open>
  A diagnostic as handed to \<^verbatim>\<open>report_diagv\<close>: severity, the node it is about (\<open>0\<close> when
  none), line and column of the focus, the format string, and the symbol names among the
  format arguments. Token and node descriptions (\<^verbatim>\<open>fmttok\<close>, \<^verbatim>\<open>fmtnode\<close>) are not kept,
  and the quote characters of a format string are left out.
\<close>

datatype diagkind_t = DIAG_ERR | DIAG_WARN

record diag_t =
  d_kind :: diagkind_t
  d_node :: nat
  d_line :: nat
  d_col :: nat
  d_fmt :: string
  d_args :: "string list"

text \<open>
  The compiler context the scanner and parser report to and read from. The interner
  table is process-wide in C; it is kept here.
\<close>

record compiler_t =
  ptrsize :: nat
  typeidmap :: "(sym_t \<times> nat) list"
  diags :: "diag_t list"
  symtab :: "string list"

text \<open>
  How a function of the model fails: with \<^verbatim>\<open>Panic\<close> where the C code calls \<^verbatim>\<open>panic\<close>
  or an assertion does not hold, with \<^verbatim>\<open>OutOfFuel\<close> where the model's bound on loop
  iterations and recursion depth is used up.
\<close>

datatype err_t = Panic | OutOfFuel


section \<open>Scanner (scanner.c)\<close>

text \<open>
  Pointers into the input are offsets; \<^verbatim>\<open>inend\<close> is the length of the input. The byte
  read at an offset past the input is taken to be \<open>0\<close>.
\<close>

record scanner_t =
  compiler :: compiler_t
  input :: string
  inp :: nat
  inend :: nat
  linestart :: nat
  tokstart :: nat
  tokend :: nat
  tok :: tok_t
  tok_line :: nat
  tok_col :: nat
  insertsemi :: bool
  lineno :: nat
  litlenoffs :: nat
  litint :: u64
  litbuf :: string
  sym' :: sym_t

definition byte_at :: "scanner_t \<Rightarrow> nat \<Rightarrow> nat" where
  "byte_at s i = (if i < length (input s) then of_char (input s ! i) else 0)"

definition isdigit :: "nat \<Rightarrow> bool" where
  "isdigit c \<longleftrightarrow> 48 \<le> c \<and> c \<le> 57"

definition isalpha :: "nat \<Rightarrow> bool" where
  "isalpha c \<longleftrightarrow> (65 \<le> c \<and> c \<le> 90) \<or> (97 \<le> c \<and> c \<le> 122)"

definition isalnum :: "nat \<Rightarrow> bool" where
  "isalnum c \<longleftrightarrow> isalpha c \<or> isdigit c"

definition isspace :: "nat \<Rightarrow> bool" where
  "isspace c \<longleftrightarrow> c = 32 \<or> (9 \<le> c \<and> c \<le> 13)"

definition UTF8_SELF :: nat where
  "UTF8_SELF = 128"

text \<open>
  Modelled from the spec: \<^verbatim>\<open>tokens.h\<close> is missing; spec section 4.1 lists the keywords.
  The table is sorted, as \<^verbatim>\<open>scanner_init\<close> asserts. \<^verbatim>\<open>this\<close> is left out: parser.c
  recognises it as an identifier token whose symbol is \<^verbatim>\<open>sym_this\<close>.
\<close>

definition keywordtab :: "(string \<times> tok_t) list" where
  "keywordtab = [(''else'', TELSE), (''for'', TFOR), (''fun'', TFUN), (''if'', TIF),
     (''let'', TLET), (''mut'', TMUT), (''return'', TRETURN), (''type'', TTYPE),
     (''var'', TVAR)]"

definition scanner_set_input :: "string \<Rightarrow> scanner_t \<Rightarrow> scanner_t" where
  "scanner_set_input src s =
     s\<lparr>input := src, inp := 0, inend := length src, linestart := 0,
       tok_line := 1, tok_col := 1, lineno := 1\<rparr>"

definition stop_scanning :: "scanner_t \<Rightarrow> scanner_t" where
  "stop_scanning s = s\<lparr>inp := inend s, tok := TEOF\<rparr>"

definition scanner_lit :: "scanner_t \<Rightarrow> string" where
  "scanner_lit s = take (inp s - tokstart s - litlenoffs s) (drop (tokstart s) (input s))"

definition report_diag :: "diag_t \<Rightarrow> compiler_t \<Rightarrow> compiler_t" where
  "report_diag d c = c\<lparr>diags := diags c @ [d]\<rparr>"

definition s_error :: "string \<Rightarrow> scanner_t \<Rightarrow> scanner_t" where
  "s_error fmt s =
     stop_scanning (s\<lparr>compiler := report_diag
       \<lparr>d_kind = DIAG_ERR, d_node = 0, d_line = tok_line s, d_col = tok_col s,
        d_fmt = fmt, d_args = []\<rparr> (compiler s)\<rparr>)"

text \<open>
  A column is the difference of two pointers plus one, stored in the \<^verbatim>\<open>u32\<close> field
  \<^verbatim>\<open>loc.col\<close>: where the first pointer is the smaller one the difference wraps around.
  \<^verbatim>\<open>lineno\<close> is a \<^verbatim>\<open>u32\<close> too.
\<close>

definition ptr_col :: "nat \<Rightarrow> nat \<Rightarrow> nat" where
  "ptr_col a b = nat ((int a - int b + 1) mod 2 ^ 32)"

definition newline :: "scanner_t \<Rightarrow> scanner_t" where
  "newline s = s\<lparr>lineno := nat ((int (lineno s) + 1) mod 2 ^ 32), linestart := inp s + 1\<rparr>"

text \<open>
  \<^verbatim>\<open>floatnumber\<close>: the loop copies the literal's bytes to \<^verbatim>\<open>litbuf\<close>, skipping
  underscores. The buffer operations are taken to succeed. \<^verbatim>\<open>float_case\<close> is the
  \<^verbatim>\<open>switch\<close> on the byte \<open>c\<close> apart from its \<^verbatim>\<open>'_'\<close> case: \<open>None\<close> for \<^verbatim>\<open>goto end\<close>,
  otherwise the value of \<^verbatim>\<open>allowsign\<close> with which the byte is copied.
\<close>

definition float_case :: "nat \<Rightarrow> bool \<Rightarrow> nat \<Rightarrow> bool option" where
  "float_case fbase allowsign c =
     (if c = 69 \<or> c = 101 then Some True
      else if c = 80 \<or> c = 112 then (if fbase < 16 then None else Some True)
      else if c = 43 \<or> c = 45 then (if \<not> allowsign then None else Some allowsign)
      else if c = 46 then Some False
      else if \<not> isalnum c then None
      else Some False)"

function floatnumber_loop :: "nat \<Rightarrow> bool \<Rightarrow> scanner_t \<Rightarrow> scanner_t" where
  "floatnumber_loop fbase allowsign s =
     (if inp s < inend s then
        (if byte_at s (inp s) = 95 then
           floatnumber_loop fbase allowsign (s\<lparr>inp := inp s + 1\<rparr>)
         else
           (case float_case fbase allowsign (byte_at s (inp s)) of
              None \<Rightarrow> s
            | Some a \<Rightarrow>
                floatnumber_loop fbase a
                  (s\<lparr>litbuf := litbuf s @ [input s ! inp s], inp := inp s + 1\<rparr>)))
      else s)"
  by pat_completeness auto
termination
  by (relation "measure (\<lambda>(fbase, allowsign, s). inend s - inp s)") auto

declare floatnumber_loop.simps [simp del]

definition floatnumber :: "nat \<Rightarrow> scanner_t \<Rightarrow> scanner_t" where
  "floatnumber fbase s =
     floatnumber_loop fbase False
       (s\<lparr>tok := TFLOATLIT, litbuf := (if fbase = 16 then ''0x'' else [])\<rparr>)"

text \<open>
  \<^verbatim>\<open>number\<close>: \<open>c\<close> is the byte the \<^verbatim>\<open>for\<close> header loaded last. The C loop tests
  \<^verbatim>\<open>inp != inend\<close>; \<^verbatim>\<open>inp\<close> never exceeds \<^verbatim>\<open>inend\<close> there.
\<close>

definition number_end :: "u64 \<Rightarrow> int \<Rightarrow> nat \<Rightarrow> scanner_t \<Rightarrow> scanner_t" where
  "number_end acc any c s =
     (let s1 = s\<lparr>litint := acc\<rparr>;
          s2 = (if any < 0 then s_error ''integer literal too large'' s1 else s1)
      in if c = 95 then s_error ''trailing _ after integer literal'' s2 else s2)"

text \<open>
  The \<^verbatim>\<open>switch\<close> of \<^verbatim>\<open>number\<close> on the byte \<open>c\<close>, apart from its \<^verbatim>\<open>'_'\<close> case
  and the rewind to \<^verbatim>\<open>floatnumber\<close>: the digit value \<open>c\<close> becomes (the base itself for
  a dot, which triggers the error branch), or \<open>None\<close> for \<^verbatim>\<open>goto end\<close>.
\<close>

definition number_digit :: "nat \<Rightarrow> nat \<Rightarrow> nat option" where
  "number_digit nbase c =
     (if 48 \<le> c \<and> c \<le> 57 then Some (c - 48)
      else if 65 \<le> c \<and> c \<le> 90 then Some (c - 55)
      else if 97 \<le> c \<and> c \<le> 122 then Some (c - 87)
      else if c = 46 then Some nbase
      else None)"

function number_loop :: "nat \<Rightarrow> nat \<Rightarrow> u64 \<Rightarrow> u64 \<Rightarrow> u64 \<Rightarrow> int \<Rightarrow> nat \<Rightarrow> scanner_t \<Rightarrow> scanner_t" where
  "number_loop nbase start_inp cutoff cutlim acc any c s =
     (if inp s < inend s then
        (if c = 95 then
           number_loop nbase start_inp cutoff cutlim acc any
             (byte_at s (inp s + 1)) (s\<lparr>inp := inp s + 1\<rparr>)
         else if c = 46 \<and> (nbase = 10 \<or> nbase = 16) then
           floatnumber nbase (s\<lparr>inp := start_inp\<rparr>)
         else
           (case number_digit nbase c of
              None \<Rightarrow> number_end acc any c s
            | Some d \<Rightarrow>
                if nbase \<le> d then s_error ''invalid base-%d integer literal'' s
                else if any < 0 \<or> cutoff < acc \<or> (acc = cutoff \<and> cutlim < of_nat d) then
                  number_loop nbase start_inp cutoff cutlim acc (- 1)
                    (byte_at s (inp s + 1)) (s\<lparr>inp := inp s + 1\<rparr>)
                else
                  number_loop nbase start_inp cutoff cutlim (acc * of_nat nbase + of_nat d) 1
                    (byte_at s (inp s + 1)) (s\<lparr>inp := inp s + 1\<rparr>)))
      else number_end acc any c s)"
  by pat_completeness auto
termination
  by (relation "measure (\<lambda>(nbase, start_inp, cutoff, cutlim, acc, any, c, s). inend s - inp s)")
     auto

declare number_loop.simps [simp del]

definition number :: "nat \<Rightarrow> scanner_t \<Rightarrow> scanner_t" where
  "number nbase s =
     (let s1 = s\<lparr>tok := TINTLIT, insertsemi := True, litint := 0\<rparr>;
          cutoff = (0xFFFFFFFFFFFFFFFF :: u64)
      in number_loop nbase (inp s1) (cutoff div of_nat nbase) (cutoff mod of_nat nbase)
           0 0 (byte_at s1 (inp s1)) s1)"

definition zeronumber :: "scanner_t \<Rightarrow> scanner_t" where
  "zeronumber s =
     (let c = byte_at s (inp s) in
      if inp s < inend s \<and> (c = 88 \<or> c = 120) then number 16 (s\<lparr>inp := inp s + 1\<rparr>)
      else if inp s < inend s \<and> (c = 66 \<or> c = 98) then number 2 (s\<lparr>inp := inp s + 1\<rparr>)
      else if inp s < inend s \<and> (c = 79 \<or> c = 111) then number 8 (s\<lparr>inp := inp s + 1\<rparr>)
      else number 10 s)"

text \<open>\<^verbatim>\<open>utf8seq\<close> returns its verdict and the scanner with \<^verbatim>\<open>inp\<close> advanced.\<close>

definition utf8seq :: "scanner_t \<Rightarrow> bool \<times> scanner_t" where
  "utf8seq s =
     (let a = byte_at s (inp s);
          s1 = s\<lparr>inp := inp s + 1\<rparr>
      in if (a AND 192) \<noteq> 192 \<or> (byte_at s1 (inp s1) AND 192) \<noteq> 128 then (False, s1)
         else
           (let s2 = s1\<lparr>inp := inp s1 + 1\<rparr> in
            if byte_at s1 (inp s1) = 0 then (False, s2)
            else if drop_bit 5 a = 6 then (True, s2)
            else
              (let s3 = s2\<lparr>inp := inp s2 + 1\<rparr> in
               if byte_at s2 (inp s2) = 0 then (False, s3)
               else if drop_bit 4 a = 14 then (True, s3)
               else
                 (let s4 = s3\<lparr>inp := inp s3 + 1\<rparr> in
                  if byte_at s3 (inp s3) = 0 then (False, s4)
                  else if drop_bit 3 a = 30 then (True, s4)
                  else (False, s4)))))"

definition intern_identifier :: "scanner_t \<Rightarrow> scanner_t" where
  "intern_identifier s =
     (let (y, tab) = sym_intern (scanner_lit s) (symtab (compiler s))
      in s\<lparr>sym' := y, compiler := (compiler s)\<lparr>symtab := tab\<rparr>\<rparr>)"

function identifier_utf8_loop :: "scanner_t \<Rightarrow> bool \<times> scanner_t" where
  "identifier_utf8_loop s =
     (if inp s < inend s then
        (if UTF8_SELF \<le> byte_at s (inp s) then
           (let (ok, s1) = utf8seq s in
            if \<not> ok then (False, s_error ''invalid UTF8 sequence'' s1)
            else identifier_utf8_loop s1)
         else if isalnum (byte_at s (inp s)) \<or> byte_at s (inp s) = 95 then
           identifier_utf8_loop (s\<lparr>inp := inp s + 1\<rparr>)
         else (True, s))
      else (True, s))"
  by pat_completeness auto
termination
  by (relation "measure (\<lambda>s. inend s - inp s)")
     (auto simp: utf8seq_def Let_def split: if_splits)

declare identifier_utf8_loop.simps [simp del]

definition identifier_utf8 :: "scanner_t \<Rightarrow> scanner_t" where
  "identifier_utf8 s =
     (let (ok, s1) = identifier_utf8_loop s in
      if \<not> ok then s1 else intern_identifier (s1\<lparr>tok := TID\<rparr>))"

text \<open>
  \<^verbatim>\<open>strncmp\<close> on a literal of the input and a NUL-terminated keyword: at most \<open>n\<close> bytes
  are compared, and the end of a string reads as the byte \<open>0\<close>.
\<close>

fun strncmp :: "string \<Rightarrow> string \<Rightarrow> nat \<Rightarrow> int" where
  "strncmp a b 0 = 0"
| "strncmp a b (Suc n) =
     (let x = (case a of [] \<Rightarrow> 0 | c # _ \<Rightarrow> of_char c);
          y = (case b of [] \<Rightarrow> 0 | c # _ \<Rightarrow> of_char c)
      in if x \<noteq> y then int x - int y
         else if x = 0 then 0
         else strncmp (tl a) (tl b) n)"

function maybe_keyword_loop :: "string \<Rightarrow> nat \<Rightarrow> nat \<Rightarrow> scanner_t \<Rightarrow> scanner_t" where
  "maybe_keyword_loop lit low high s =
     (if low < high then
        (let mid = (low + high) div 2;
             cmp = strncmp lit (fst (keywordtab ! mid)) (length lit)
         in if cmp = 0 then s\<lparr>tok := snd (keywordtab ! mid)\<rparr>
            else if cmp < 0 then maybe_keyword_loop lit low mid s
            else maybe_keyword_loop lit (mid + 1) high s)
      else s)"
  by pat_completeness auto
termination
  by (relation "measure (\<lambda>(lit, low, high, s). high - low)") auto

declare maybe_keyword_loop.simps [simp del]

definition maybe_keyword :: "scanner_t \<Rightarrow> scanner_t" where
  "maybe_keyword s = maybe_keyword_loop (scanner_lit s) 0 (length keywordtab) s"

function identifier_loop :: "scanner_t \<Rightarrow> scanner_t" where
  "identifier_loop s =
     (if inp s < inend s \<and> (isalnum (byte_at s (inp s)) \<or> byte_at s (inp s) = 95)
      then identifier_loop (s\<lparr>inp := inp s + 1\<rparr>)
      else s)"
  by pat_completeness auto
termination
  by (relation "measure (\<lambda>s. inend s - inp s)") auto

declare identifier_loop.simps [simp del]

definition scan_identifier :: "scanner_t \<Rightarrow> scanner_t" where
  "scan_identifier s =
     (let s1 = identifier_loop s in
      if inp s1 < inend s1 \<and> UTF8_SELF \<le> byte_at s1 (inp s1) then identifier_utf8 s1
      else maybe_keyword (intern_identifier (s1\<lparr>tok := TID, insertsemi := True\<rparr>)))"

function line_comment_loop :: "scanner_t \<Rightarrow> scanner_t" where
  "line_comment_loop s =
     (if inp s < inend s \<and> byte_at s (inp s) \<noteq> 10
      then line_comment_loop (s\<lparr>inp := inp s + 1\<rparr>)
      else s)"
  by pat_completeness auto
termination
  by (relation "measure (\<lambda>s. inend s - inp s)") auto

declare line_comment_loop.simps [simp del]

function block_comment_loop :: "nat \<Rightarrow> scanner_t \<Rightarrow> scanner_t" where
  "block_comment_loop startstar s =
     (if inp s < inend s then
        (if byte_at s (inp s) = 10 then
           block_comment_loop startstar ((newline s)\<lparr>inp := inp s + 1\<rparr>)
         else if byte_at s (inp s) = 47 \<and> byte_at s (inp s - 1) = 42 \<and> inp s - 1 \<noteq> startstar
         then s\<lparr>inp := inp s + 1\<rparr>
         else block_comment_loop startstar (s\<lparr>inp := inp s + 1\<rparr>))
      else s)"
  by pat_completeness auto
termination
  by (relation "measure (\<lambda>(startstar, s). inend s - inp s)") (auto simp: newline_def)

declare block_comment_loop.simps [simp del]

definition skip_comment :: "scanner_t \<Rightarrow> scanner_t" where
  "skip_comment s =
     (if byte_at s (inp s + 1) = 47 then line_comment_loop (s\<lparr>inp := inp s + 2\<rparr>)
      else block_comment_loop (inp s + 1) (s\<lparr>inp := inp s + 2\<rparr>))"

text \<open>
  \<^verbatim>\<open>scan1\<close> ends either with a token or, after a comment, with a tail call of
  \<^verbatim>\<open>scan0\<close>; the flag returned here says which. \<^verbatim>\<open>scan1_switch\<close> is its
  \<^verbatim>\<open>switch\<close> statement on the byte \<open>c\<close> just loaded, \<open>saved\<close> the flag on entry.
\<close>

definition ch :: "char \<Rightarrow> nat" where
  "ch c = of_char c"

definition scan1_switch :: "bool \<Rightarrow> nat \<Rightarrow> scanner_t \<Rightarrow> bool \<times> scanner_t" where
  "scan1_switch saved c s =
     (if c = ch CHR ''('' then (False, s\<lparr>tok := TLPAREN\<rparr>)
         else if c = ch CHR '')'' then (False, s\<lparr>insertsemi := True, tok := TRPAREN\<rparr>)
         else if c = ch CHR ''{'' then (False, s\<lparr>tok := TLBRACE\<rparr>)
         else if c = ch CHR ''}'' then (False, s\<lparr>insertsemi := True, tok := TRBRACE\<rparr>)
         else if c = ch CHR ''['' then (False, s\<lparr>tok := TLBRACK\<rparr>)
         else if c = ch CHR '']'' then (False, s\<lparr>insertsemi := True, tok := TRBRACK\<rparr>)
         else if c = ch CHR '';'' then (False, s\<lparr>tok := TSEMI\<rparr>)
         else if c = ch CHR '','' then (False, s\<lparr>tok := TCOMMA\<rparr>)
         else if c = ch CHR ''+'' then (False, s\<lparr>tok := TPLUS\<rparr>)
         else if c = ch CHR ''*'' then (False, s\<lparr>tok := TSTAR\<rparr>)
         else if c = ch CHR ''%'' then (False, s\<lparr>tok := TPERCENT\<rparr>)
         else if c = ch CHR ''&'' then (False, s\<lparr>tok := TAND\<rparr>)
         else if c = ch CHR ''|'' then (False, s\<lparr>tok := TOR\<rparr>)
         else if c = ch CHR ''^'' then (False, s\<lparr>tok := TXOR\<rparr>)
         else if c = ch CHR ''~'' then (False, s\<lparr>tok := TTILDE\<rparr>)
         else if c = ch CHR ''#'' then (False, s\<lparr>tok := THASH\<rparr>)
         else if c = ch CHR ''<'' then (False, s\<lparr>tok := TLT\<rparr>)
         else if c = ch CHR ''>'' then (False, s\<lparr>tok := TGT\<rparr>)
         else if c = ch CHR ''='' then
           (if inp s < inend s \<and> byte_at s (inp s) = ch CHR ''=''
            then (False, s\<lparr>inp := inp s + 1, tok := TEQ\<rparr>)
            else (False, s\<lparr>tok := TASSIGN\<rparr>))
         else if c = ch CHR ''0'' then (False, zeronumber s)
         else if c = ch CHR ''.'' then
           (if inp s < inend s \<and> isdigit (byte_at s (inp s))
            then (False, floatnumber 10 (s\<lparr>inp := inp s - 1\<rparr>))
            else if inp s < inend s \<and> byte_at s (inp s) = ch CHR ''.'' then
              (let s1 = s\<lparr>tok := TDOTDOT, inp := inp s + 1\<rparr> in
               if inp s1 < inend s1 \<and> byte_at s1 (inp s1) = ch CHR ''.''
               then (False, s1\<lparr>inp := inp s1 + 1, tok := TDOTDOTDOT\<rparr>)
               else (False, s1))
            else (False, s\<lparr>tok := TDOT\<rparr>))
         else if c = ch CHR ''/'' then
           (if inp s < inend s \<and>
               (byte_at s (inp s) = ch CHR ''/'' \<or> byte_at s (inp s) = ch CHR ''*'')
            then (True, skip_comment (s\<lparr>inp := inp s - 1, insertsemi := saved\<rparr>))
            else (False, s\<lparr>tok := TSLASH\<rparr>))
         else if isdigit c then (False, number 10 (s\<lparr>inp := inp s - 1\<rparr>))
         else if UTF8_SELF \<le> c then (False, identifier_utf8 (s\<lparr>inp := inp s - 1\<rparr>))
         else if isalpha c \<or> c = ch CHR ''_'' then (False, scan_identifier s)
         else (False, stop_scanning (s_error ''unexpected input byte 0x%02X'' s)))"

definition scan1 :: "scanner_t \<Rightarrow> bool \<times> scanner_t" where
  "scan1 s0 =
     (let sa = s0\<lparr>tokstart := inp s0, tok_line := lineno s0,
                  tok_col := ptr_col (inp s0) (linestart s0)\<rparr>;
          saved = insertsemi sa;
          c = byte_at sa (inp sa)
      in scan1_switch saved c (sa\<lparr>insertsemi := False, inp := inp sa + 1\<rparr>))"

function skip_space :: "scanner_t \<Rightarrow> scanner_t" where
  "skip_space s =
     (if inp s < inend s \<and> isspace (byte_at s (inp s)) then
        skip_space ((if byte_at s (inp s) = 10 then newline s else s)\<lparr>inp := inp s + 1\<rparr>)
      else s)"
  by pat_completeness auto
termination
  by (relation "measure (\<lambda>s. inend s - inp s)") (auto simp: newline_def)

declare skip_space.simps [simp del]

lemma line_comment_loop_inp:
  "inend (line_comment_loop s) = inend s \<and> inp s \<le> inp (line_comment_loop s)"
proof (induction s rule: line_comment_loop.induct)
  case (1 s)
  then show ?case by (subst (1 2) line_comment_loop.simps) auto
qed

lemma block_comment_loop_inp:
  "inend (block_comment_loop st s) = inend s \<and> inp s \<le> inp (block_comment_loop st s)"
proof (induction st s rule: block_comment_loop.induct)
  case (1 st s)
  then show ?case
    by (subst (1 2) block_comment_loop.simps) (auto simp: newline_def)
qed

lemma skip_comment_inp:
  "inend (skip_comment s) = inend s \<and> inp s + 2 \<le> inp (skip_comment s)"
  using line_comment_loop_inp[of "s\<lparr>inp := inp s + 2\<rparr>"]
        block_comment_loop_inp[of "inp s + 1" "s\<lparr>inp := inp s + 2\<rparr>"]
  by (auto simp: skip_comment_def)

lemma skip_space_inp:
  "inend (skip_space s) = inend s \<and> inp s \<le> inp (skip_space s)"
proof (induction s rule: skip_space.induct)
  case (1 s)
  then show ?case
    by (subst (1 2) skip_space.simps) (auto simp: newline_def)
qed

lemma scan1_switch_again:
  assumes "scan1_switch saved c s = (True, s1)"
  shows "s1 = skip_comment (s\<lparr>inp := inp s - 1, insertsemi := saved\<rparr>)"
  using assms unfolding scan1_switch_def
  by (simp add: Let_def split: if_split_asm)

lemma scan1_again:
  assumes "scan1 s = (True, s1)"
  shows "inend s1 = inend s \<and> inp s < inp s1"
proof -
  define sa where "sa = s\<lparr>tokstart := inp s, tok_line := lineno s,
                             tok_col := ptr_col (inp s) (linestart s)\<rparr>"
  define sb where "sb = sa\<lparr>insertsemi := False, inp := inp sa + 1\<rparr>"
  have "scan1_switch (insertsemi sa) (byte_at sa (inp sa)) sb = (True, s1)"
    using assms by (simp add: scan1_def Let_def sa_def sb_def)
  then have s1: "s1 = skip_comment (sb\<lparr>inp := inp sb - 1, insertsemi := insertsemi sa\<rparr>)"
    by (rule scan1_switch_again)
  show ?thesis
    using skip_comment_inp[of "sb\<lparr>inp := inp sb - 1, insertsemi := insertsemi sa\<rparr>"]
    by (simp add: s1 sa_def sb_def)
qed

function scan0 :: "scanner_t \<Rightarrow> scanner_t" where
  "scan0 s0 =
     (let prev_lineno = lineno s0;
          prev_linestart = linestart s0;
          s = skip_space (s0\<lparr>litlenoffs := 0\<rparr>)
      in if prev_linestart \<noteq> linestart s \<and> insertsemi s then
           s\<lparr>insertsemi := False, tokstart := prev_linestart, tok := TSEMI,
             tok_line := prev_lineno, tok_col := ptr_col (tokend s) prev_linestart\<rparr>
         else if inend s \<le> inp s then
           (let s1 = s\<lparr>tokstart := inend s, tok := TEOF, tok_line := lineno s,
                       tok_col := ptr_col (inend s) (linestart s)\<rparr>
            in if insertsemi s1 then s1\<lparr>tok := TSEMI, insertsemi := False\<rparr> else s1)
         else (case scan1 s of (again, s1) \<Rightarrow> if again then scan0 s1 else s1))"
  by pat_completeness auto
termination
proof (relation "measure (\<lambda>s. inend s - inp s)", goal_cases)
  case 1
  show ?case by simp
next
  case (2 s0 prev_lineno prev_linestart s x y)
  have a: "scan1 s = (True, y)" using 2 by simp
  have b: "inend s = inend s0 \<and> inp s0 \<le> inp s"
    using skip_space_inp[of "s0\<lparr>litlenoffs := 0\<rparr>"] 2 by simp
  have c: "inp s < inend s" using 2 by simp
  have d: "inend y = inend s0" "inp s0 < inp y" "inp s0 < inend s0"
    using scan1_again[OF a] b c by auto
  show ?case using d by (simp add: diff_less_mono2)
qed

declare scan0.simps [simp del]

definition scanner_next :: "scanner_t \<Rightarrow> scanner_t" where
  "scanner_next s = scan0 (s\<lparr>tokend := inp s\<rparr>)"

text \<open>A scanner on the input \<open>src\<close>, before the first token is read.\<close>

definition compiler0 :: compiler_t where
  "compiler0 = \<lparr>ptrsize = 8, typeidmap = [], diags = [], symtab = symtab0\<rparr>"

definition scanner0 :: "string \<Rightarrow> scanner_t" where
  "scanner0 src = scanner_set_input src
     \<lparr>compiler = compiler0, input = [], inp = 0, inend = 0, linestart = 0, tokstart = 0,
      tokend = 0, tok = TEOF, tok_line = 0, tok_col = 0, insertsemi = False, lineno = 0,
      litlenoffs = 0, litint = 0, litbuf = [], sym' = 0\<rparr>"

text \<open>The tokens of an input, read until \<^verbatim>\<open>TEOF\<close> or for at most \<open>n\<close> calls.\<close>

fun scan_all :: "nat \<Rightarrow> scanner_t \<Rightarrow> tok_t list" where
  "scan_all 0 s = []"
| "scan_all (Suc n) s =
     (let s1 = scanner_next s in
      if tok s1 = TEOF then [TEOF] else tok s1 # scan_all n s1)"


text \<open>
  An identifier that starts at the offset \<open>i\<close> runs into a byte of a UTF-8 sequence: this
  is the test with which \<^verbatim>\<open>identifier\<close> hands over to \<^verbatim>\<open>identifier_utf8\<close>.
\<close>

definition utf8_tail :: "scanner_t \<Rightarrow> nat \<Rightarrow> bool" where
  "utf8_tail s i \<longleftrightarrow>
     (let s1 = identifier_loop (s\<lparr>inp := i + 1\<rparr>)
      in inp s1 < inend s1 \<and> UTF8_SELF \<le> byte_at s1 (inp s1))"

text \<open>
  The token that starts at the offset \<open>i\<close> of the input sets the flag: it starts with a
  closing bracket, with a digit (the literals \<^verbatim>\<open>number\<close> and \<^verbatim>\<open>zeronumber\<close> scan), or
  with an ASCII letter or an underscore and is scanned by \<^verbatim>\<open>identifier\<close> to its end.
\<close>

definition sets_flag :: "scanner_t \<Rightarrow> nat \<Rightarrow> bool" where
  "sets_flag s i \<longleftrightarrow>
     i < inend s \<and>
     (let c = byte_at s i in
      c = ch CHR '')'' \<or> c = ch CHR '']'' \<or> c = ch CHR ''}'' \<or> isdigit c \<or>
      ((isalpha c \<or> c = ch CHR ''_'') \<and> \<not> utf8_tail s i))"

text \<open>
  The tokens after which the flag is always set: the closing brackets, the integer
  literal and the keywords.
\<close>

definition flag_toks :: "tok_t set" where
  "flag_toks = {TRPAREN, TRBRACK, TRBRACE, TINTLIT,
                TELSE, TFOR, TFUN, TIF, TLET, TMUT, TRETURN, TTYPE, TVAR}"

section \<open>AST nodes and the built-in types (universe.c)\<close>

text \<open>
  The node structs of \<^verbatim>\<open>compiler.h\<close> are missing. All of them start with the fields of
  \<^verbatim>\<open>node_t\<close>; parser.c casts between them freely. A node is modelled as one record
  that has every field parser.c and typeid.c name; a field a struct lacks stays zero.
  Pointers to nodes are addresses into a store, \<open>0\<close> is \<^verbatim>\<open>NULL\<close>. A type id
  (\<^verbatim>\<open>tid\<close>) is kept as its bytes, the empty string for \<^verbatim>\<open>NULL\<close>: interned symbols
  are equal exactly when their bytes are.
\<close>

record node_t =
  n_kind :: nodekind_t
  n_flags :: int
  n_loc :: "nat \<times> nat"
  n_type :: nat
  n_nrefs :: nat
  n_name :: sym_t
  n_ref :: nat
  n_init :: nat
  n_isthis :: bool
  n_op :: tok_t
  n_expr :: nat
  n_left :: nat
  n_right :: nat
  n_recv :: nat
  n_args :: "nat list"
  n_target :: nat
  n_children :: "nat list"
  n_cond :: nat
  n_thenb :: nat
  n_elseb :: nat
  n_start :: nat
  n_body :: nat
  n_end :: nat
  n_value :: nat
  n_intval :: u64
  n_params :: "nat list"
  n_methodof :: nat
  n_size :: nat
  n_align :: nat
  n_isunsigned :: bool
  n_tid :: string
  n_elem :: nat
  n_len :: u64
  n_ismut :: bool
  n_result :: nat
  n_fields :: "nat list"
  n_methods :: "nat list"
  n_hasinit :: bool

text \<open>A node as \<^verbatim>\<open>mem_alloc_zeroed\<close> returns it.\<close>

definition node0 :: node_t where
  "node0 = \<lparr>n_kind = NODE_BAD, n_flags = 0, n_loc = (0, 0), n_type = 0, n_nrefs = 0,
     n_name = 0, n_ref = 0, n_init = 0, n_isthis = False, n_op = TEOF, n_expr = 0,
     n_left = 0, n_right = 0, n_recv = 0, n_args = [], n_target = 0, n_children = [],
     n_cond = 0, n_thenb = 0, n_elseb = 0, n_start = 0, n_body = 0, n_end = 0, n_value = 0,
     n_intval = 0, n_params = [], n_methodof = 0, n_size = 0, n_align = 0,
     n_isunsigned = False, n_tid = [], n_elem = 0, n_len = 0, n_ismut = False,
     n_result = 0, n_fields = [], n_methods = [], n_hasinit = False\<rparr>"

text \<open>
  Modelled from the spec: the macro \<^verbatim>\<open>TYPEID_PREFIX\<close> is missing. Spec section 4.5 gives
  the prefix bytes \<^verbatim>\<open>F\<close>, \<^verbatim>\<open>S\<close>, \<^verbatim>\<open>A\<close>, \<^verbatim>\<open>O\<close> and \<^verbatim>\<open>L\<close>; for the other kinds it
  only says that there is one byte per kind, and the bytes below are placeholders. The
  functions of typeid.c take the macro as a parameter \<open>pfx\<close>.
\<close>

definition TYPEID_PREFIX :: "nodekind_t \<Rightarrow> char" where
  "TYPEID_PREFIX k =
     (case k of
        TYPE_FUN \<Rightarrow> CHR ''F'' | TYPE_STRUCT \<Rightarrow> CHR ''S'' | TYPE_ARRAY \<Rightarrow> CHR ''A''
      | TYPE_OPTIONAL \<Rightarrow> CHR ''O'' | TYPE_ALIAS \<Rightarrow> CHR ''L''
      | TYPE_PTR \<Rightarrow> CHR ''P'' | TYPE_REF \<Rightarrow> CHR ''R'' | TYPE_MUTREF \<Rightarrow> CHR ''M''
      | TYPE_SLICE \<Rightarrow> CHR ''C'' | TYPE_MUTSLICE \<Rightarrow> CHR ''D''
      | TYPE_VOID \<Rightarrow> CHR ''v'' | TYPE_BOOL \<Rightarrow> CHR ''b'' | TYPE_INT \<Rightarrow> CHR ''i''
      | TYPE_I8 \<Rightarrow> CHR ''c'' | TYPE_I16 \<Rightarrow> CHR ''s'' | TYPE_I32 \<Rightarrow> CHR ''w''
      | TYPE_I64 \<Rightarrow> CHR ''d'' | TYPE_F32 \<Rightarrow> CHR ''f'' | TYPE_F64 \<Rightarrow> CHR ''g''
      | TYPE_UNKNOWN \<Rightarrow> CHR ''u''
      | _ \<Rightarrow> CHR ''?'')"

text \<open>\<^verbatim>\<open>DEFTYPE\<close> of universe.c (the node flags \<^verbatim>\<open>NF_CHECKED\<close>, \<^verbatim>\<open>NF_UNKNOWN\<close> are left out).\<close>

definition DEFTYPE :: "nodekind_t \<Rightarrow> nat \<Rightarrow> bool \<Rightarrow> node_t" where
  "DEFTYPE k sz u =
     node0\<lparr>n_kind := k, n_size := sz, n_align := sz, n_isunsigned := u,
           n_tid := [TYPEID_PREFIX k]\<rparr>"

text \<open>
  The static nodes and their addresses: cell \<open>0\<close> is the null cell, cell \<open>1\<close> is
  \<^verbatim>\<open>last_resort_node\<close> of parser.c, then the types of universe.c in the order of the
  file. Modelled from the spec: \<^verbatim>\<open>const_true\<close> and \<^verbatim>\<open>const_false\<close> are missing; they are
  the built-in constants, boolean literals of type \<^verbatim>\<open>bool\<close>.
\<close>

definition last_resort_node :: nat where "last_resort_node = 1"
definition type_void :: nat where "type_void = 2"
definition type_unknown :: nat where "type_unknown = 3"
definition type_bool :: nat where "type_bool = 4"
definition type_int :: nat where "type_int = 5"
definition type_uint :: nat where "type_uint = 6"
definition type_i8 :: nat where "type_i8 = 7"
definition type_i16 :: nat where "type_i16 = 8"
definition type_i32 :: nat where "type_i32 = 9"
definition type_i64 :: nat where "type_i64 = 10"
definition type_u8 :: nat where "type_u8 = 11"
definition type_u16 :: nat where "type_u16 = 12"
definition type_u32 :: nat where "type_u32 = 13"
definition type_u64 :: nat where "type_u64 = 14"
definition type_f32 :: nat where "type_f32 = 15"
definition type_f64 :: nat where "type_f64 = 16"
definition const_true :: nat where "const_true = 17"
definition const_false :: nat where "const_false = 18"

definition heap0 :: "node_t list" where
  "heap0 =
     [node0, node0,
      DEFTYPE TYPE_VOID 0 False, DEFTYPE TYPE_UNKNOWN 0 False, DEFTYPE TYPE_BOOL 1 True,
      DEFTYPE TYPE_INT 4 False, DEFTYPE TYPE_INT 4 True,
      DEFTYPE TYPE_I8 1 False, DEFTYPE TYPE_I16 2 False, DEFTYPE TYPE_I32 4 False,
      DEFTYPE TYPE_I64 8 False,
      DEFTYPE TYPE_I8 1 True, DEFTYPE TYPE_I16 2 True, DEFTYPE TYPE_I32 4 True,
      DEFTYPE TYPE_I64 8 True,
      DEFTYPE TYPE_F32 4 False, DEFTYPE TYPE_F64 8 False,
      node0\<lparr>n_kind := EXPR_BOOLLIT, n_type := 4, n_intval := 1\<rparr>,
      node0\<lparr>n_kind := EXPR_BOOLLIT, n_type := 4\<rparr>]"

text \<open>The map \<^verbatim>\<open>universe()\<close> of parser.c, keyed by the bytes of the name.\<close>

definition universe :: "(string \<times> nat) list" where
  "universe =
     [(''void'', type_void), (''bool'', type_bool), (''int'', type_int), (''uint'', type_uint),
      (''i8'', type_i8), (''i16'', type_i16), (''i32'', type_i32), (''i64'', type_i64),
      (''u8'', type_u8), (''u16'', type_u16), (''u32'', type_u32), (''u64'', type_u64),
      (''f32'', type_f32), (''f64'', type_f64),
      (''true'', const_true), (''false'', const_false)]"


section \<open>Type ids (typeid.c, string.c)\<close>

text \<open>
  \<^verbatim>\<open>sfmtu64\<close> of string.c: the digits of \<open>v\<close> in the given base, most significant
  first. The digits are produced least significant first and then reversed.
\<close>

definition sfmt_chars :: string where
  "sfmt_chars = ''0123456789ABCDEFGHIJKLMNOPQRSTUVWXYZabcdefghijklmnopqrstuvwxyz''"

function sfmt_digits :: "nat \<Rightarrow> nat \<Rightarrow> string" where
  "sfmt_digits v b =
     (sfmt_chars ! (v mod b)) #
       (if v div b \<noteq> 0 \<and> 2 \<le> b then sfmt_digits (v div b) b else [])"
  by pat_completeness auto
termination
proof (relation "measure (\<lambda>(v, b). v)", goal_cases)
  case 1
  show ?case by simp
next
  case (2 v b)
  then have "1 < b" and "0 < v" by (cases "v = 0"; simp)+
  then show ?case by (simp add: div_less_dividend)
qed

declare sfmt_digits.simps [simp del]

definition sfmtu64 :: "u64 \<Rightarrow> nat \<Rightarrow> string" where
  "sfmtu64 v b = rev (sfmt_digits (unat v) (min (max b 2) 62))"

text \<open>
  Modelled from the spec: \<^verbatim>\<open>buf_print_u32\<close> and \<^verbatim>\<open>buf_print_u64\<close> are missing; spec
  section 4.5 says integers are encoded in hex; the digits are those of \<^verbatim>\<open>sfmtu64\<close>.
\<close>

definition write_u32 :: "u32 \<Rightarrow> string \<Rightarrow> string" where
  "write_u32 v buf = buf @ sfmtu64 (ucast v) 16 @ '';''"

definition write_u64 :: "u64 \<Rightarrow> string \<Rightarrow> string" where
  "write_u64 v buf = buf @ sfmtu64 v 16 @ '';''"

definition type_isprim :: "node_t \<Rightarrow> bool" where
  "type_isprim n \<longleftrightarrow> nodekind_isprimtype (n_kind n)"

text \<open>
  \<^verbatim>\<open>aliastype\<close>: the length of the name as \<^verbatim>\<open>u32\<close>, then the name's bytes. The store
  \<open>names\<close> is the interner table that holds the name.
\<close>

definition aliastype :: "string list \<Rightarrow> node_t \<Rightarrow> string \<Rightarrow> string" where
  "aliastype names t buf =
     (let nm = sym_str names (n_name t)
      in write_u32 (of_nat (length nm)) buf @ nm)"

text \<open>
  \<^verbatim>\<open>append\<close> walks the type through the store and caches the id it computes in
  \<^verbatim>\<open>t->tid\<close>. The walk is bounded by a fuel argument. The \<^verbatim>\<open>default\<close> case of its
  \<^verbatim>\<open>switch\<close> is \<^verbatim>\<open>assertf(0, ...)\<close>. \<^verbatim>\<open>append_all\<close> is the loop of \<^verbatim>\<open>funtype\<close> and
  \<^verbatim>\<open>structtype\<close> over the types of the parameters or fields, which must not be
  \<^verbatim>\<open>NULL\<close>.
\<close>

type_synonym tidbuf = "string \<times> node_t list"

fun append :: "(nodekind_t \<Rightarrow> char) \<Rightarrow> string list \<Rightarrow> nat \<Rightarrow> nat \<Rightarrow> tidbuf \<Rightarrow>
    err_t + tidbuf" where
  "append pfx names 0 t bh = Inl OutOfFuel"
| "append pfx names (Suc k) t (buf, h) =
     (let n = h ! t in
      if type_isprim n then Inr (buf @ [case n_tid n of [] \<Rightarrow> CHR 0x00 | c # _ \<Rightarrow> c], h)
      else if n_tid n \<noteq> [] then Inr (buf @ n_tid n, h)
      else
        (let bufstart = length buf;
             buf1 = buf @ [pfx (n_kind n)];
             append_all = (\<lambda>ts bh0.
                foldl (\<lambda>acc e. case acc of
                                   Inl err \<Rightarrow> Inl err
                                 | Inr (b1, h1) \<Rightarrow>
                                     if n_type (h1 ! e) = 0 then Inl Panic
                                     else append pfx names k (n_type (h1 ! e)) (b1, h1))
                      (Inr bh0) ts);
             r = (case n_kind n of
                    TYPE_ARRAY \<Rightarrow> append pfx names k (n_elem n) (write_u64 (n_len n) buf1, h)
                  | TYPE_FUN \<Rightarrow>
                      (case append_all (n_params n)
                              (write_u32 (of_nat (length (n_params n))) buf1, h) of
                         Inl err \<Rightarrow> Inl err
                       | Inr bh1 \<Rightarrow> append pfx names k (n_result n) bh1)
                  | TYPE_OPTIONAL \<Rightarrow> append pfx names k (n_elem n) (buf1, h)
                  | TYPE_STRUCT \<Rightarrow>
                      append_all (n_fields n)
                        (write_u32 (of_nat (length (n_fields n))) buf1, h)
                  | TYPE_ALIAS \<Rightarrow> Inr (aliastype names n buf1, h)
                  | TYPE_PTR \<Rightarrow> append pfx names k (n_elem n) (buf1, h)
                  | TYPE_REF \<Rightarrow> append pfx names k (n_elem n) (buf1, h)
                  | TYPE_MUTREF \<Rightarrow> append pfx names k (n_elem n) (buf1, h)
                  | TYPE_SLICE \<Rightarrow> append pfx names k (n_elem n) (buf1, h)
                  | TYPE_MUTSLICE \<Rightarrow> append pfx names k (n_elem n) (buf1, h)
                  | _ \<Rightarrow> Inl Panic)
         in case r of
              Inl err \<Rightarrow> Inl err
            | Inr (buf2, h2) \<Rightarrow>
                if n_tid (h2 ! t) \<noteq> [] then Inr (buf2, h2)
                else Inr (buf2, h2[t := (h2 ! t)\<lparr>n_tid := drop bufstart buf2\<rparr>])))"

text \<open>\<^verbatim>\<open>_typeid\<close>: the type id of \<open>t\<close> and the store with the ids the walk cached.\<close>

definition typeid :: "(nodekind_t \<Rightarrow> char) \<Rightarrow> string list \<Rightarrow> nat \<Rightarrow> nat \<Rightarrow> node_t list \<Rightarrow>
    err_t + tidbuf" where
  "typeid pfx names fuel t h =
     (if n_tid (h ! t) \<noteq> [] then Inr (n_tid (h ! t), h)
      else (case append pfx names fuel t ([], h) of
              Inl err \<Rightarrow> Inl err
            | Inr (buf, h1) \<Rightarrow> Inr (n_tid (h1 ! t), h1)))"


text \<open>
  What \<^verbatim>\<open>append\<close> writes for an alias named \<open>nm\<close>: the prefix byte, the length of
  the name in hex with its \<^verbatim>\<open>;\<close>, the name.
\<close>

definition alias_sig :: "(nodekind_t \<Rightarrow> char) \<Rightarrow> string \<Rightarrow> string" where
  "alias_sig pfx nm =
     pfx TYPE_ALIAS # sfmtu64 (ucast (of_nat (length nm) :: u32)) 16 @ '';'' @ nm"

text \<open>
  A store with two alias types of the same name (symbol \<open>3\<close>), one of \<^verbatim>\<open>i32\<close> at
  address \<open>19\<close> and one of \<^verbatim>\<open>i64\<close> at address \<open>20\<close>.
\<close>

definition alias_heap :: "node_t list" where
  "alias_heap = heap0 @
     [node0\<lparr>n_kind := TYPE_ALIAS, n_name := 3, n_elem := type_i32\<rparr>,
      node0\<lparr>n_kind := TYPE_ALIAS, n_name := 3, n_elem := type_i64\<rparr>]"


section \<open>Parser (parser.c)\<close>

text \<open>
  The parser state. \<^verbatim>\<open>heap\<close> is the memory the nodes live in: the static nodes first,
  then the nodes of the AST arena in the order \<^verbatim>\<open>mknode\<close> allocated them; the arena
  allocations are taken to succeed. \<^verbatim>\<open>pkgdefs\<close>, \<^verbatim>\<open>methodmap\<close> and the compiler's
  \<^verbatim>\<open>typeidmap\<close> are association lists (map.c is not among the sources).
\<close>

datatype prec_t = PREC_COMMA | PREC_ASSIGN | PREC_LOGICAL_OR | PREC_LOGICAL_AND
  | PREC_BITWISE_OR | PREC_BITWISE_XOR | PREC_BITWISE_AND | PREC_EQUAL | PREC_COMPARE
  | PREC_SHIFT | PREC_ADD | PREC_MUL | PREC_UNARY_PREFIX | PREC_UNARY_POSTFIX | PREC_MEMBER

definition PREC_LOWEST :: prec_t where
  "PREC_LOWEST = PREC_COMMA"

text \<open>The rank of a precedence: its position in the enumeration.\<close>

fun prec_rank :: "prec_t \<Rightarrow> nat" where
  "prec_rank PREC_COMMA = 0"
| "prec_rank PREC_ASSIGN = 1"
| "prec_rank PREC_LOGICAL_OR = 2"
| "prec_rank PREC_LOGICAL_AND = 3"
| "prec_rank PREC_BITWISE_OR = 4"
| "prec_rank PREC_BITWISE_XOR = 5"
| "prec_rank PREC_BITWISE_AND = 6"
| "prec_rank PREC_EQUAL = 7"
| "prec_rank PREC_COMPARE = 8"
| "prec_rank PREC_SHIFT = 9"
| "prec_rank PREC_ADD = 10"
| "prec_rank PREC_MUL = 11"
| "prec_rank PREC_UNARY_PREFIX = 12"
| "prec_rank PREC_UNARY_POSTFIX = 13"
| "prec_rank PREC_MEMBER = 14"

text \<open>
  Modelled from the spec: the expression flags of \<^verbatim>\<open>compiler.h\<close> are missing; spec section
  4.4 calls them a bitset. Each flag is one bit of its own; \<^verbatim>\<open>exprflag_t\<close> values are
  integers as C promotes them.
\<close>

definition EX_RVALUE :: int where "EX_RVALUE = 1"
definition EX_OPTIONAL :: int where "EX_OPTIONAL = 2"
definition EX_SHADOWS_OPTIONAL :: int where "EX_SHADOWS_OPTIONAL = 4"
definition EX_EXITS :: int where "EX_EXITS = 8"
definition EX_RVALUE_CHECKED :: int where "EX_RVALUE_CHECKED = 16"
definition EX_ANALYZED :: int where "EX_ANALYZED = 32"

record parser_t =
  scanner :: scanner_t
  heap :: "node_t list"
  scope :: scope_t
  p_ma :: memalloc_t
  pkgdefs :: "(sym_t \<times> nat) list"
  methodmap :: "(nat \<times> (sym_t \<times> nat) list) list"
  typectx :: nat
  typectxstack :: "nat list"
  dotctx :: nat
  dotctxstack :: "nat list"
  curfun :: nat

text \<open>
  A parse function returns a value and the new state, or fails with an \<^verbatim>\<open>err_t\<close>.
\<close>

datatype 'a res = Ok 'a parser_t | Fail err_t

definition bnd :: "'a res \<Rightarrow> ('a \<Rightarrow> parser_t \<Rightarrow> 'b res) \<Rightarrow> 'b res" where
  "bnd r f = (case r of Ok a p \<Rightarrow> f a p | Fail e \<Rightarrow> Fail e)"

text \<open>The two recursive entry points of the parselets: \<^verbatim>\<open>expr\<close> and \<^verbatim>\<open>type\<close>.\<close>

datatype call_t = CExpr prec_t int | CType prec_t

type_synonym rec_t = "call_t \<Rightarrow> parser_t \<Rightarrow> nat res"

definition nd :: "parser_t \<Rightarrow> nat \<Rightarrow> node_t" where
  "nd p a = heap p ! a"

definition upd :: "nat \<Rightarrow> (node_t \<Rightarrow> node_t) \<Rightarrow> parser_t \<Rightarrow> parser_t" where
  "upd a f p = p\<lparr>heap := (heap p)[a := f (heap p ! a)]\<rparr>"

definition currtok :: "parser_t \<Rightarrow> tok_t" where
  "currtok p = tok (scanner p)"

definition currloc :: "parser_t \<Rightarrow> nat \<times> nat" where
  "currloc p = (tok_line (scanner p), tok_col (scanner p))"

definition p_next :: "parser_t \<Rightarrow> parser_t" where
  "p_next p = p\<lparr>scanner := scanner_next (scanner p)\<rparr>"

definition name_of :: "parser_t \<Rightarrow> sym_t \<Rightarrow> string" where
  "name_of p y = sym_str (symtab (compiler (scanner p))) y"

text \<open>
  \<^verbatim>\<open>lookahead_issym\<close> scans one token and restores the scanner's state; what the scan
  did to the compiler the scanner points to (the symbol table, the diagnostics) stays.
\<close>

definition lookahead_issym :: "sym_t \<Rightarrow> parser_t \<Rightarrow> bool \<times> parser_t" where
  "lookahead_issym y p =
     (let p1 = p_next p
      in (currtok p1 = TID \<and> sym' (scanner p1) = y,
          p\<lparr>scanner := (scanner p)\<lparr>compiler := compiler (scanner p1)\<rparr>\<rparr>))"

text \<open>
  \<^verbatim>\<open>fastforward\<close>; the stop list is the list of tokens before its terminating zero.
\<close>

fun fastforward :: "nat \<Rightarrow> tok_t list \<Rightarrow> parser_t \<Rightarrow> unit res" where
  "fastforward 0 stoplist p = Fail OutOfFuel"
| "fastforward (Suc k) stoplist p =
     (if currtok p \<noteq> TEOF then
        (if currtok p \<in> set stoplist then Ok () p
         else fastforward k stoplist (p_next p))
      else Ok () p)"

definition fastforward_semi :: "nat \<Rightarrow> parser_t \<Rightarrow> unit res" where
  "fastforward_semi k p = fastforward k [TSEMI] p"

definition report :: "diagkind_t \<Rightarrow> nat \<Rightarrow> string \<Rightarrow> string list \<Rightarrow> parser_t \<Rightarrow> parser_t" where
  "report kind n fmt args p =
     (let loc = (if n \<noteq> 0 then n_loc (nd p n) else currloc p);
          d = \<lparr>d_kind = kind, d_node = n, d_line = fst loc, d_col = snd loc,
               d_fmt = fmt, d_args = args\<rparr>
      in p\<lparr>scanner := (scanner p)\<lparr>compiler := report_diag d (compiler (scanner p))\<rparr>\<rparr>)"

text \<open>
  \<^verbatim>\<open>error\<close> and \<^verbatim>\<open>error1\<close> are silent once the scanner has reached the end of the
  input; \<^verbatim>\<open>error1\<close> is given the location it reports. The format strings are those of
  parser.c without their quote characters.
\<close>

definition p_error1 :: "nat \<times> nat \<Rightarrow> string \<Rightarrow> string list \<Rightarrow> parser_t \<Rightarrow> parser_t" where
  "p_error1 loc fmt args p =
     (if inp (scanner p) = inend (scanner p) \<and> tok (scanner p) = TEOF then p
      else p\<lparr>scanner := (scanner p)\<lparr>compiler := report_diag
             \<lparr>d_kind = DIAG_ERR, d_node = 0, d_line = fst loc, d_col = snd loc,
              d_fmt = fmt, d_args = args\<rparr> (compiler (scanner p))\<rparr>\<rparr>)"

definition p_error :: "nat \<Rightarrow> string \<Rightarrow> string list \<Rightarrow> parser_t \<Rightarrow> parser_t" where
  "p_error n fmt args p =
     (if inp (scanner p) = inend (scanner p) \<and> tok (scanner p) = TEOF then p
      else report DIAG_ERR n fmt args p)"

definition p_warning :: "nat \<Rightarrow> string \<Rightarrow> string list \<Rightarrow> parser_t \<Rightarrow> parser_t" where
  "p_warning n fmt args p = report DIAG_WARN n fmt args p"

definition out_of_mem :: "parser_t \<Rightarrow> parser_t" where
  "out_of_mem p =
     (let p1 = p_error 0 ''out of memory'' [] p
      in p1\<lparr>scanner := (scanner p1)\<lparr>inp := inend (scanner p1)\<rparr>\<rparr>)"

definition unexpected :: "string \<Rightarrow> parser_t \<Rightarrow> parser_t" where
  "unexpected errmsg p = p_error 0 ''unexpected %s%*s'' [errmsg] p"

definition expect_fail :: "tok_t \<Rightarrow> string \<Rightarrow> parser_t \<Rightarrow> parser_t" where
  "expect_fail expecttok errmsg p = p_error 0 ''expected %s%*s, got %s'' [errmsg] p"

definition expect_token :: "tok_t \<Rightarrow> string \<Rightarrow> parser_t \<Rightarrow> bool \<times> parser_t" where
  "expect_token expecttok errmsg p =
     (let ok = (currtok p = expecttok)
      in (ok, if \<not> ok then expect_fail expecttok errmsg p else p))"

definition expect :: "tok_t \<Rightarrow> string \<Rightarrow> parser_t \<Rightarrow> bool \<times> parser_t" where
  "expect expecttok errmsg p =
     (let (ok, p1) = expect_token expecttok errmsg p in (ok, p_next p1))"

definition expect2 :: "nat \<Rightarrow> tok_t \<Rightarrow> string \<Rightarrow> parser_t \<Rightarrow> bool res" where
  "expect2 k t errmsg p =
     (if currtok p = t then Ok True (p_next p)
      else bnd (fastforward k [t, TSEMI] (unexpected errmsg p))
             (\<lambda>_ p1. Ok False (if currtok p1 = t then p_next p1 else p1)))"

text \<open>\<^verbatim>\<open>_mknode\<close>, \<^verbatim>\<open>_mkexpr\<close>, \<^verbatim>\<open>mkbad\<close>, \<^verbatim>\<open>mkreftype\<close>, \<^verbatim>\<open>CLONE_NODE\<close>.\<close>

definition mknode :: "nodekind_t \<Rightarrow> parser_t \<Rightarrow> nat \<times> parser_t" where
  "mknode kind p =
     (length (heap p), p\<lparr>heap := heap p @ [node0\<lparr>n_kind := kind, n_loc := currloc p\<rparr>]\<rparr>)"

definition mkexpr :: "nodekind_t \<Rightarrow> int \<Rightarrow> parser_t \<Rightarrow> nat \<times> parser_t" where
  "mkexpr kind fl p =
     (let (n, p1) = mknode kind p
      in (n, upd n (\<lambda>x. x\<lparr>n_flags := fl, n_type := type_void\<rparr>) p1))"

definition mkbad :: "parser_t \<Rightarrow> nat \<times> parser_t" where
  "mkbad p =
     (let (n, p1) = mknode NODE_BAD p
      in (n, upd n (\<lambda>x. x\<lparr>n_type := type_void\<rparr>) p1))"

definition mkreftype :: "bool \<Rightarrow> parser_t \<Rightarrow> nat \<times> parser_t" where
  "mkreftype ismut p =
     (let (t, p1) = mknode TYPE_REF p;
          sz = ptrsize (compiler (scanner p1))
      in (t, upd t (\<lambda>x. x\<lparr>n_size := sz, n_align := sz, n_ismut := ismut\<rparr>) p1))"

definition CLONE_NODE :: "nat \<Rightarrow> parser_t \<Rightarrow> nat \<times> parser_t" where
  "CLONE_NODE n p = (length (heap p), p\<lparr>heap := heap p @ [nd p n]\<rparr>)"

definition clone_node :: "nat \<Rightarrow> parser_t \<Rightarrow> nat res" where
  "clone_node n p =
     (if n_kind (nd p n) \<in> {EXPR_FIELD, EXPR_PARAM, EXPR_LET, EXPR_VAR}
      then (let (c, p1) = CLONE_NODE n p in Ok c p1)
      else Fail Panic)"

text \<open>
  Scopes. parser.c calls \<^verbatim>\<open>scope_define\<close> what scope.c defines as \<^verbatim>\<open>scope_def\<close>.
  Modelled from the spec: \<^verbatim>\<open>scope_istoplevel\<close> is missing; by spec section 4.3 it is true
  iff \<^verbatim>\<open>base == 0\<close>.
\<close>

definition U32_MAX :: u32 where
  "U32_MAX = 0xFFFFFFFF"

definition scope_istoplevel :: "scope_t \<Rightarrow> bool" where
  "scope_istoplevel s \<longleftrightarrow> base s = 0"

definition enter_scope :: "parser_t \<Rightarrow> parser_t" where
  "enter_scope p =
     (case scope_push (p_ma p) (scope p) of
        None \<Rightarrow> out_of_mem p
      | Some s \<Rightarrow> p\<lparr>scope := s\<rparr>)"

definition leave_scope :: "parser_t \<Rightarrow> parser_t" where
  "leave_scope p = p\<lparr>scope := scope_pop (scope p)\<rparr>"

definition scope_define :: "sym_t \<Rightarrow> nat \<Rightarrow> parser_t \<Rightarrow> parser_t" where
  "scope_define name n p =
     (case scope_def (p_ma p) name n (scope p) of
        None \<Rightarrow> out_of_mem p
      | Some s \<Rightarrow> p\<lparr>scope := s\<rparr>)"

text \<open>
  \<^verbatim>\<open>map_lookup\<close> on \<^verbatim>\<open>pkgdefs\<close> falls back to the parent map, the universe, which is
  keyed by the bytes of the name.
\<close>

definition pkgdefs_lookup :: "sym_t \<Rightarrow> parser_t \<Rightarrow> nat option" where
  "pkgdefs_lookup name p =
     (case map_of (pkgdefs p) name of
        Some n \<Rightarrow> Some n
      | None \<Rightarrow> map_of universe (name_of p name))"

definition lookup :: "sym_t \<Rightarrow> parser_t \<Rightarrow> nat \<times> parser_t" where
  "lookup name p =
     (let n0 = scope_lookup (scope p) name U32_MAX;
          r = (if n0 \<noteq> 0 then Some n0 else pkgdefs_lookup name p)
      in case r of
           None \<Rightarrow> (0, p)
         | Some n \<Rightarrow>
             (n, if nodekind_isexpr (n_kind (nd p n)) \<or> nodekind_isusertype (n_kind (nd p n))
                 then upd n (\<lambda>x. x\<lparr>n_nrefs := n_nrefs x + 1\<rparr>) p
                 else p))"

definition pkgdefs_assign :: "sym_t \<Rightarrow> nat \<Rightarrow> parser_t \<Rightarrow> parser_t" where
  "pkgdefs_assign name n p = p\<lparr>pkgdefs := (name, n) # pkgdefs p\<rparr>"

definition define_replace :: "sym_t \<Rightarrow> nat \<Rightarrow> parser_t \<Rightarrow> unit res" where
  "define_replace name n p =
     (if n_kind (nd p n) = EXPR_ID \<or> name = sym_underscore then Fail Panic
      else
        (let p1 = scope_define name n p
         in Ok () (if scope_istoplevel (scope p1) then pkgdefs_assign name n p1 else p1)))"

definition p_define :: "sym_t \<Rightarrow> nat \<Rightarrow> parser_t \<Rightarrow> parser_t" where
  "p_define name n p =
     (if name = sym_underscore then p
      else if scope_lookup (scope p) name 0 \<noteq> 0
      then p_error n ''redefinition of %s'' [name_of p name] p
      else
        (let p1 = scope_define name n p in
         if scope_istoplevel (scope p1) then
           (if map_of (pkgdefs p1) name \<noteq> None
            then p_error n ''redefinition of %s'' [name_of p1 name] p1
            else pkgdefs_assign name n p1)
         else p1))"

text \<open>The stacks of type contexts and dot contexts; the top is the last element.\<close>

definition typectx_push :: "nat \<Rightarrow> parser_t \<Rightarrow> parser_t" where
  "typectx_push t p = p\<lparr>typectxstack := typectxstack p @ [typectx p], typectx := t\<rparr>"

definition typectx_pop :: "parser_t \<Rightarrow> unit res" where
  "typectx_pop p =
     (if typectxstack p = [] then Fail Panic
      else Ok () (p\<lparr>typectx := last (typectxstack p), typectxstack := butlast (typectxstack p)\<rparr>))"

definition dotctx_push :: "nat \<Rightarrow> parser_t \<Rightarrow> parser_t" where
  "dotctx_push n p = p\<lparr>dotctxstack := dotctxstack p @ [dotctx p], dotctx := n\<rparr>"

definition dotctx_pop :: "parser_t \<Rightarrow> unit res" where
  "dotctx_pop p =
     (if dotctxstack p = [] then Fail Panic
      else Ok () (p\<lparr>dotctx := last (dotctxstack p), dotctxstack := butlast (dotctxstack p)\<rparr>))"

text \<open>
  Modelled from the spec: \<^verbatim>\<open>types_iscompat\<close> is missing; by spec section 3 equality of
  types is pointer equality.
\<close>

definition types_iscompat :: "nat \<Rightarrow> nat \<Rightarrow> bool" where
  "types_iscompat x y \<longleftrightarrow> x = y"

definition check_types_compat :: "nat \<Rightarrow> nat \<Rightarrow> nat \<Rightarrow> parser_t \<Rightarrow> bool \<times> parser_t" where
  "check_types_compat x y origin p =
     (if x \<noteq> 0 \<and> y \<noteq> 0 \<and> \<not> types_iscompat x y
      then (False, p_error origin ''incompatible types, %s and %s'' [] p)
      else (True, p))"

definition named_type :: "sym_t \<Rightarrow> nat \<Rightarrow> parser_t \<Rightarrow> nat \<times> parser_t" where
  "named_type name origin p =
     (let (r, p1) = lookup name p in
      if r = 0 then (type_void, p_error origin ''unknown type %s'' [name_of p1 name] p1)
      else if \<not> nodekind_istype (n_kind (nd p1 r))
      then (type_void, p_error origin ''%s is not a type'' [name_of p1 name] p1)
      else (r, p1))"

definition type_id :: "parser_t \<Rightarrow> nat \<times> parser_t" where
  "type_id p = (let (t, p1) = named_type (sym' (scanner p)) 0 p in (t, p_next p1))"

text \<open>
  \<^verbatim>\<open>lookup_method\<close>; an entry of a method map whose value is \<^verbatim>\<open>NULL\<close> fails the
  \<^verbatim>\<open>assertnotnull\<close>.
\<close>

definition lookup_method :: "nat \<Rightarrow> sym_t \<Rightarrow> parser_t \<Rightarrow> nat res" where
  "lookup_method recv name p =
     (case map_of (methodmap p) recv of
        None \<Rightarrow> Ok 0 p
      | Some mm \<Rightarrow>
          (case map_of mm name of
             None \<Rightarrow> Ok 0 p
           | Some m \<Rightarrow> if m = 0 then Fail Panic else Ok m p))"

definition lookup_struct_field :: "nat \<Rightarrow> sym_t \<Rightarrow> parser_t \<Rightarrow> nat" where
  "lookup_struct_field st name p =
     (case filter (\<lambda>f. n_name (nd p f) = name) (n_fields (nd p st)) of
        [] \<Rightarrow> 0
      | f # _ \<Rightarrow> f)"

text \<open>
  \<^verbatim>\<open>select_int_type\<close>; \<open>isneg\<close> is the \<^verbatim>\<open>u64\<close> parameter, \<open>0\<close> or \<open>1\<close>. The literal
  \<^verbatim>\<open>0x1000000000000000\<close> has a signed 64-bit type, so its complement is the 64-bit
  mask with bit 60 cleared.
\<close>

definition select_int_type :: "nat \<Rightarrow> u64 \<Rightarrow> parser_t \<Rightarrow> nat \<times> parser_t" where
  "select_int_type n isneg p =
     (let ty = typectx p;
          intval = n_intval (nd p n);
          uintval = (if isneg \<noteq> 0 then intval AND NOT 0x1000000000000000 else intval);
          u = n_isunsigned (nd p ty);
          check = (\<lambda>ty1 maxval.
             (ty1, if maxval < uintval
                   then p_error n ''integer constant %s%.*s overflows %s'' [] p else p))
      in case n_kind (nd p ty) of
           TYPE_I8 \<Rightarrow> check ty (if u then 0xff else 0x7f + isneg)
         | TYPE_I16 \<Rightarrow> check ty (if u then 0xffff else 0x7fff + isneg)
         | TYPE_I32 \<Rightarrow> check ty (if u then 0xffffffff else 0x7fffffff + isneg)
         | TYPE_I64 \<Rightarrow> check ty (if u then 0xffffffffffffffff else 0x7fffffffffffffff + isneg)
         | _ \<Rightarrow>
             if isneg \<noteq> 0 then
               (if uintval \<le> 0x80000000 then (type_int, p)
                else if uintval \<le> 0x8000000000000000 then (type_i64, p)
                else check type_i64 0x8000000000000000)
             else
               (if intval \<le> 0x7fffffff then (type_int, p)
                else if intval \<le> 0x7fffffffffffffff then (type_i64, p)
                else check type_u64 0xffffffffffffffff))"

definition intlit :: "int \<Rightarrow> bool \<Rightarrow> parser_t \<Rightarrow> nat \<times> parser_t" where
  "intlit fl isneg p =
     (let (n, p1) = mkexpr EXPR_INTLIT (fl OR EX_RVALUE_CHECKED OR EX_ANALYZED) p;
          p2 = upd n (\<lambda>x. x\<lparr>n_intval := litint (scanner p1)\<rparr>) p1;
          (t, p3) = select_int_type n (if isneg then 1 else 0) p2
      in (n, p_next (upd n (\<lambda>x. x\<lparr>n_type := t\<rparr>) p3)))"

text \<open>
  \<^verbatim>\<open>floatlit\<close>: the value that \<^verbatim>\<open>strtof\<close> or \<^verbatim>\<open>strtod\<close> computes is not modelled, nor
  are the two diagnostics that depend on it.
\<close>

definition floatlit :: "int \<Rightarrow> bool \<Rightarrow> parser_t \<Rightarrow> nat \<times> parser_t" where
  "floatlit fl isneg p =
     (let (n, p1) = mkexpr EXPR_FLOATLIT (fl OR EX_RVALUE_CHECKED OR EX_ANALYZED) p;
          p2 = (if isneg
                then p1\<lparr>scanner := (scanner p1)\<lparr>litbuf := CHR ''-'' # tl (litbuf (scanner p1))\<rparr>\<rparr>
                else p1);
          t = (if typectx p2 = type_f32 then type_f32 else type_f64)
      in (n, p_next (upd n (\<lambda>x. x\<lparr>n_type := t\<rparr>) p2)))"

definition expr_intlit :: "int \<Rightarrow> parser_t \<Rightarrow> nat \<times> parser_t" where
  "expr_intlit fl p = intlit fl False p"

definition expr_floatlit :: "int \<Rightarrow> parser_t \<Rightarrow> nat \<times> parser_t" where
  "expr_floatlit fl p = floatlit fl False p"

text \<open>
  From here on a parselet that parses a sub-expression or a type does so through the
  parameter \<open>rc\<close>, which stands for \<^verbatim>\<open>expr\<close> and \<^verbatim>\<open>type\<close>; the parameter \<open>k\<close> bounds
  the iterations of its loops.
\<close>

fun struct_fieldset_names :: "nat \<Rightarrow> nat \<Rightarrow> parser_t \<Rightarrow> unit res" where
  "struct_fieldset_names 0 st p = Fail OutOfFuel"
| "struct_fieldset_names (Suc k) st p =
     (let (f, p1) = mknode EXPR_FIELD p;
          p2 = upd f (\<lambda>x. x\<lparr>n_name := sym' (scanner p1)\<rparr>) p1;
          (ok, p3) = expect TID [] p2;
          fname = n_name (nd p3 f)
      in bnd (if lookup_struct_field st fname p3 \<noteq> 0
              then Ok () (p_error 0 ''duplicate field %s'' [name_of p3 fname] p3)
              else bnd (lookup_method st fname p3)
                     (\<lambda>m q. Ok () (if m \<noteq> 0
                                     then p_error 0 ''field %s conflicts with method of same name''
                                            [name_of q fname] q
                                     else q)))
           (\<lambda>u p4.
              let p5 = upd st (\<lambda>x. x\<lparr>n_fields := n_fields x @ [f]\<rparr>) p4
              in if currtok p5 \<noteq> TCOMMA then Ok () p5
                 else struct_fieldset_names k st (p_next p5)))"

fun struct_fieldset_inits :: "rec_t \<Rightarrow> nat \<Rightarrow> nat \<Rightarrow> nat \<Rightarrow> parser_t \<Rightarrow> nat res" where
  "struct_fieldset_inits rc 0 st i p = Fail OutOfFuel"
| "struct_fieldset_inits rc (Suc k) st i p =
     (if i = length (n_fields (nd p st)) then
        bnd (rc (CExpr PREC_COMMA EX_RVALUE) (p_error 0 ''excess field initializer'' [] p))
          (\<lambda>e p1. Ok i p1)
      else
        (let f = n_fields (nd p st) ! i in
         bnd (rc (CExpr PREC_COMMA EX_RVALUE) (typectx_push (n_type (nd p f)) p))
           (\<lambda>e p1.
              bnd (typectx_pop (upd f (\<lambda>x. x\<lparr>n_init := e\<rparr>) p1))
                (\<lambda>u p2.
                   if currtok p2 \<noteq> TCOMMA then Ok (i + 1) p2
                   else
                     (let p3 = p_next p2;
                          p4 = (if \<not> types_iscompat (n_type (nd p3 f))
                                     (n_type (nd p3 (n_init (nd p3 f))))
                                then p_error (n_init (nd p3 f))
                                  ''field initializer of type %s where type %s is expected'' [] p3
                                else p3)
                      in struct_fieldset_inits rc k st (i + 1) p4)))))"

definition struct_fieldset :: "rec_t \<Rightarrow> nat \<Rightarrow> nat \<Rightarrow> parser_t \<Rightarrow> bool res" where
  "struct_fieldset rc k st p =
     (let fields_start = length (n_fields (nd p st)) in
      bnd (struct_fieldset_names k st p)
        (\<lambda>u p1.
           bnd (rc (CType PREC_MEMBER) p1)
             (\<lambda>t p2.
                let p3 = foldl (\<lambda>q f. upd f (\<lambda>x. x\<lparr>n_type := t\<rparr>) q) p2
                           (drop fields_start (n_fields (nd p2 st)))
                in if currtok p3 \<noteq> TASSIGN then Ok False p3
                   else
                     bnd (struct_fieldset_inits rc k st fields_start (p_next p3))
                       (\<lambda>i p4.
                          Ok True
                            (if i < length (n_fields (nd p4 st))
                             then p_error 0 ''missing field initializer'' [] p4
                             else p4)))))"

definition type_ptr :: "rec_t \<Rightarrow> parser_t \<Rightarrow> nat res" where
  "type_ptr rc p =
     (let (t, p1) = mknode TYPE_PTR p;
          p2 = p_next p1;
          sz = ptrsize (compiler (scanner p2));
          p3 = upd t (\<lambda>x. x\<lparr>n_size := sz, n_align := sz\<rparr>) p2
      in bnd (rc (CType PREC_UNARY_PREFIX) p3)
           (\<lambda>e p4. Ok t (upd t (\<lambda>x. x\<lparr>n_elem := e\<rparr>) p4)))"

definition type_ref1 :: "rec_t \<Rightarrow> bool \<Rightarrow> parser_t \<Rightarrow> nat res" where
  "type_ref1 rc ismut p =
     (let (t, p1) = mkreftype ismut p
      in bnd (rc (CType PREC_UNARY_PREFIX) (p_next p1))
           (\<lambda>e p2. Ok t (upd t (\<lambda>x. x\<lparr>n_elem := e\<rparr>) p2)))"

definition type_ref :: "rec_t \<Rightarrow> parser_t \<Rightarrow> nat res" where
  "type_ref rc p = type_ref1 rc False p"

definition type_mut :: "rec_t \<Rightarrow> parser_t \<Rightarrow> nat res" where
  "type_mut rc p =
     (let p1 = p_next p in
      if currtok p1 \<noteq> TAND then
        (let (b, p2) = mkbad (unexpected ''expecting &'' p1) in Ok b p2)
      else type_ref1 rc True p1)"

definition type_optional :: "rec_t \<Rightarrow> parser_t \<Rightarrow> nat res" where
  "type_optional rc p =
     (let (t, p1) = mknode TYPE_OPTIONAL p
      in bnd (rc (CType PREC_UNARY_PREFIX) (p_next p1))
           (\<lambda>e p2. Ok t (upd t (\<lambda>x. x\<lparr>n_elem := e\<rparr>) p2)))"

definition stmt_typedef :: "rec_t \<Rightarrow> parser_t \<Rightarrow> nat res" where
  "stmt_typedef rc p =
     (let (n, p1) = mknode STMT_TYPEDEF p;
          p2 = p_next p1;
          p3 = upd n (\<lambda>x. x\<lparr>n_name := sym' (scanner p2)\<rparr>) p2;
          (nameok, p4) = expect TID [] p3;
          p5 = (if nameok then p_define (n_name (nd p4 n)) n p4 else p4)
      in bnd (rc (CType PREC_COMMA) p5)
           (\<lambda>t p6.
              let p7 = upd n (\<lambda>x. x\<lparr>n_type := t\<rparr>) p6;
                  p8 = (if nameok then scope_define (n_name (nd p7 n)) t p7 else p7);
                  p9 = (if n_kind (nd p8 t) = TYPE_STRUCT
                        then upd t (\<lambda>x. x\<lparr>n_name := n_name (nd p8 n)\<rparr>) p8 else p8)
              in Ok n p9))"

definition resolve_id :: "nat \<Rightarrow> parser_t \<Rightarrow> bool \<times> parser_t" where
  "resolve_id n p =
     (let (r, p1) = lookup (n_name (nd p n)) p;
          p2 = upd n (\<lambda>x. x\<lparr>n_ref := r\<rparr>) p1
      in if r = 0 then
           (False, p_error n ''undeclared identifier %s'' [name_of p2 (n_name (nd p2 n))] p2)
         else if nodekind_isexpr (n_kind (nd p2 r)) then
           (True, upd n (\<lambda>x. x\<lparr>n_type := n_type (nd p2 r)\<rparr>) p2)
         else if nodekind_istype (n_kind (nd p2 r)) then
           (True, upd n (\<lambda>x. x\<lparr>n_type := r\<rparr>) p2)
         else
           (False, p_error n ''cannot use %s %s as an expression''
                     [name_of p2 (n_name (nd p2 n))] p2))"

definition expr_id :: "int \<Rightarrow> parser_t \<Rightarrow> nat \<times> parser_t" where
  "expr_id fl p =
     (let (n, p1) = mkexpr EXPR_ID fl p;
          p2 = p_next (upd n (\<lambda>x. x\<lparr>n_name := sym' (scanner p1)\<rparr>) p1);
          (ok, p3) = resolve_id n p2
      in (n, p3))"

text \<open>
  The tail of \<^verbatim>\<open>expr_var\<close> after the initialiser: the definition of the name and the
  check for a required initial value.
\<close>

definition expr_var_finish :: "nat \<Rightarrow> bool \<Rightarrow> parser_t \<Rightarrow> parser_t" where
  "expr_var_finish n ok p =
     (let p1 = p_define (n_name (nd p n)) n p in
      if n_init (nd p1 n) = 0 \<and> ok then
        (if n_kind (nd p1 n) = EXPR_LET
         then p_error 0 ''missing value for let binding, expecting ='' [] p1
         else if n_kind (nd p1 (n_type (nd p1 n))) = TYPE_REF
         then p_error 0 ''missing initial value for reference variable, expecting ='' [] p1
         else p1)
      else p1)"

definition expr_var :: "rec_t \<Rightarrow> int \<Rightarrow> parser_t \<Rightarrow> nat res" where
  "expr_var rc fl p =
     (let (n, p1) = mkexpr (if currtok p = TLET then EXPR_LET else EXPR_VAR) fl p;
          p2 = p_next p1
      in if currtok p2 \<noteq> TID then
           (let (b, p3) = mkbad (unexpected ''expecting identifier'' p2) in Ok b p3)
         else
           (let p3 = p_next (upd n (\<lambda>x. x\<lparr>n_name := sym' (scanner p2)\<rparr>) p2) in
            if currtok p3 = TASSIGN then
              bnd (rc (CExpr PREC_ASSIGN (fl OR EX_RVALUE)) (typectx_push type_void (p_next p3)))
                (\<lambda>e p4.
                   bnd (typectx_pop (upd n (\<lambda>x. x\<lparr>n_init := e\<rparr>) p4))
                     (\<lambda>u p5.
                        Ok n (expr_var_finish n True
                                (upd n (\<lambda>x. x\<lparr>n_type := n_type (nd p5 e)\<rparr>) p5))))
            else
              bnd (rc (CType PREC_LOWEST) p3)
                (\<lambda>t p4.
                   let p5 = upd n (\<lambda>x. x\<lparr>n_type := t\<rparr>) p4 in
                   if currtok p5 = TASSIGN then
                     bnd (rc (CExpr PREC_ASSIGN (fl OR EX_RVALUE)) (typectx_push t (p_next p5)))
                       (\<lambda>e p6.
                          bnd (typectx_pop (upd n (\<lambda>x. x\<lparr>n_init := e\<rparr>) p6))
                            (\<lambda>u p7.
                               let (ok, p8) = check_types_compat (n_type (nd p7 n))
                                                (n_type (nd p7 e)) e p7
                               in Ok n (expr_var_finish n ok p8)))
                   else Ok n (expr_var_finish n True p5))))"

text \<open>
  \<^verbatim>\<open>clear_rvalue\<close> follows the pointers of \<^verbatim>\<open>if\<close> and block nodes; the fuel bounds the
  depth.
\<close>

fun clear_rvalue :: "nat \<Rightarrow> nat \<Rightarrow> parser_t \<Rightarrow> unit res" where
  "clear_rvalue 0 n p = Fail OutOfFuel"
| "clear_rvalue (Suc k) n p =
     (let p1 = upd n (\<lambda>x. x\<lparr>n_flags := n_flags x AND NOT EX_RVALUE\<rparr>) p in
      if n_kind (nd p1 n) = EXPR_IF then
        bnd (clear_rvalue k (n_thenb (nd p1 n)) p1)
          (\<lambda>u p2. if n_elseb (nd p2 n) \<noteq> 0 then clear_rvalue k (n_elseb (nd p2 n)) p2
                   else Ok () p2)
      else if n_kind (nd p1 n) = EXPR_BLOCK then
        foldl (\<lambda>r c. bnd r (\<lambda>u q. clear_rvalue k c q)) (Ok () p1) (n_children (nd p1 n))
      else Ok () p1)"

text \<open>
  The loop of \<^verbatim>\<open>block\<close>. Its locals are \<^verbatim>\<open>exit_expr_index\<close> and
  \<^verbatim>\<open>reported_unreachable\<close>; it returns the former.
\<close>

fun block_loop :: "rec_t \<Rightarrow> nat \<Rightarrow> nat \<Rightarrow> int \<Rightarrow> nat \<Rightarrow> bool \<Rightarrow> parser_t \<Rightarrow> nat res" where
  "block_loop rc 0 n fl exit_expr_index reported_unreachable p = Fail OutOfFuel"
| "block_loop rc (Suc k) n fl exit_expr_index reported_unreachable p =
     bnd (rc (CExpr PREC_LOWEST fl) p)
       (\<lambda>cn p1.
          let p2 = upd n (\<lambda>x. x\<lparr>n_children := n_children x @ [cn]\<rparr>) p1;
              exits = (n_flags (nd p2 n) AND EX_EXITS \<noteq> 0);
              isret = (n_kind (nd p2 cn) = EXPR_RETURN);
              p3 = (if exits then
                      (if \<not> reported_unreachable
                       then p_warning cn ''unreachable code'' [] p2 else p2)
                    else if isret
                    then upd n (\<lambda>x. x\<lparr>n_flags := n_flags x OR EX_EXITS\<rparr>) p2
                    else p2);
              exit1 = (if \<not> exits \<and> isret then length (n_children (nd p2 n)) - 1
                       else exit_expr_index);
              reported1 = (reported_unreachable \<or> exits)
          in if currtok p3 \<noteq> TSEMI then Ok exit1 p3
             else
               (let p4 = p_next p3 in
                if currtok p4 = TRBRACE \<or> currtok p4 = TEOF then Ok exit1 p4
                else bnd (clear_rvalue k cn p4)
                       (\<lambda>u p5. block_loop rc k n fl exit1 reported1 p5)))"

definition block :: "rec_t \<Rightarrow> nat \<Rightarrow> int \<Rightarrow> parser_t \<Rightarrow> nat res" where
  "block rc k fl p =
     (let (n, p1) = mkexpr EXPR_BLOCK fl p;
          p2 = p_next p1;
          isrvalue = (fl AND EX_RVALUE \<noteq> 0);
          fl1 = fl AND NOT EX_RVALUE
      in bnd (if currtok p2 \<noteq> TRBRACE \<and> currtok p2 \<noteq> TEOF
              then block_loop rc k n fl1 0 False p2 else Ok 0 p2)
           (\<lambda>exit_expr_index p3.
              bnd (expect2 k TRBRACE '', expected } or ;'' p3)
                (\<lambda>ok p4.
                   if \<not> isrvalue \<and> 0 < length (n_children (nd p4 n)) then
                     (let index = (if n_flags (nd p4 n) AND EX_EXITS \<noteq> 0
                                   then exit_expr_index
                                   else length (n_children (nd p4 n)) - 1)
                      in bnd (clear_rvalue k (n_children (nd p4 n) ! index) p4)
                           (\<lambda>u p5. Ok n p5))
                   else Ok n p4)))"

definition any_as_block :: "rec_t \<Rightarrow> nat \<Rightarrow> int \<Rightarrow> parser_t \<Rightarrow> nat res" where
  "any_as_block rc k fl p =
     (if currtok p = TLBRACE then block rc k fl p
      else
        (let (n, p1) = mkexpr EXPR_BLOCK fl p in
         bnd (rc (CExpr PREC_COMMA fl) p1)
           (\<lambda>cn p2. Ok n (upd n (\<lambda>x. x\<lparr>n_children := n_children x @ [cn]\<rparr>) p2))))"

definition expr_block :: "rec_t \<Rightarrow> nat \<Rightarrow> int \<Rightarrow> parser_t \<Rightarrow> nat res" where
  "expr_block rc k fl p =
     bnd (block rc k fl (enter_scope p)) (\<lambda>n p1. Ok n (leave_scope p1))"

text \<open>
  Modelled from the spec: \<^verbatim>\<open>type_isopt\<close> is missing; an optional type is a type of kind
  \<^verbatim>\<open>OPTIONAL\<close>.
\<close>

definition type_isopt :: "node_t \<Rightarrow> bool" where
  "type_isopt t \<longleftrightarrow> n_kind t = TYPE_OPTIONAL"

definition check_if_cond :: "nat \<Rightarrow> parser_t \<Rightarrow> nat res" where
  "check_if_cond cond p =
     (let ct = n_type (nd p cond) in
      if n_kind (nd p ct) = TYPE_BOOL then Ok 0 p
      else if \<not> type_isopt (nd p ct) then
        Ok 0 (p_error cond ''conditional is not a boolean'' [] p)
      else if n_kind (nd p cond) = EXPR_ID then
        (if \<not> nodekind_isexpr (n_kind (nd p (n_ref (nd p cond)))) then
           Ok 0 (p_error cond ''conditional is not an expression'' [] p)
         else
           (let (id2, p1) = CLONE_NODE cond p;
                p2 = upd id2 (\<lambda>x. x\<lparr>n_type := n_elem (nd p1 ct)\<rparr>) p1
            in bnd (clone_node (n_ref (nd p2 cond)) p2)
                 (\<lambda>ref2 p3.
                    let p4 = upd ref2 (\<lambda>x. x\<lparr>n_flags := n_flags x OR EX_SHADOWS_OPTIONAL,
                                               n_type := n_elem (nd p3 ct)\<rparr>) p3
                    in bnd (define_replace (n_name (nd p4 cond)) ref2 p4)
                         (\<lambda>u p5. Ok id2 p5))))
      else if n_kind (nd p cond) = EXPR_LET \<or> n_kind (nd p cond) = EXPR_VAR then
        Ok 0 (upd cond (\<lambda>x. x\<lparr>n_type := n_elem (nd p ct),
                                n_flags := n_flags x OR EX_OPTIONAL\<rparr>) p)
      else Ok 0 p)"

text \<open>
  The loop at the end of \<^verbatim>\<open>expr_if\<close> that follows the references of identifiers from
  the condition to the binding.
\<close>

fun if_narrowed_dst :: "nat \<Rightarrow> nat \<Rightarrow> parser_t \<Rightarrow> nat option" where
  "if_narrowed_dst 0 dst p = None"
| "if_narrowed_dst (Suc k) dst p =
     (if n_kind (nd p dst) = EXPR_ID \<and> nodekind_isexpr (n_kind (nd p (n_ref (nd p dst))))
      then if_narrowed_dst k (n_ref (nd p dst)) p
      else Some dst)"

definition expr_if :: "rec_t \<Rightarrow> nat \<Rightarrow> int \<Rightarrow> parser_t \<Rightarrow> nat res" where
  "expr_if rc k fl p =
     (let (n, p1) = mkexpr EXPR_IF fl p;
          p2 = enter_scope (p_next p1)
      in bnd (rc (CExpr PREC_COMMA (fl OR EX_RVALUE)) p2)
           (\<lambda>c p3.
              bnd (check_if_cond c (upd n (\<lambda>x. x\<lparr>n_cond := c\<rparr>) p3))
                (\<lambda>type_narrowed_binding p4.
                   bnd (any_as_block rc k fl (enter_scope p4))
                     (\<lambda>tb p5.
                        let p6 = leave_scope (upd n (\<lambda>x. x\<lparr>n_thenb := tb\<rparr>) p5) in
                        bnd (if currtok p6 = TELSE then
                               bnd (any_as_block rc k fl (enter_scope (p_next p6)))
                                 (\<lambda>eb p7. Ok () (leave_scope (upd n (\<lambda>x. x\<lparr>n_elseb := eb\<rparr>) p7)))
                             else Ok () p6)
                          (\<lambda>u p8.
                             let p9 = leave_scope p8 in
                             if type_narrowed_binding \<noteq> 0 then
                               (case if_narrowed_dst k (n_cond (nd p9 n)) p9 of
                                  None \<Rightarrow> Fail OutOfFuel
                                | Some dst \<Rightarrow>
                                    Ok n (upd dst (\<lambda>x. x\<lparr>n_nrefs := n_nrefs x +
                                            n_nrefs (nd p9 type_narrowed_binding)\<rparr>) p9))
                             else Ok n p9)))))"

definition expr_for :: "rec_t \<Rightarrow> int \<Rightarrow> parser_t \<Rightarrow> nat res" where
  "expr_for rc fl p =
     (let (n, p1) = mkexpr EXPR_FOR fl p;
          p2 = p_next p1;
          paren = (currtok p2 = TLPAREN);
          p3 = (if paren then p_next p2 else p2);
          finish = (\<lambda>q.
             let q1 = (if paren then snd (expect TRPAREN [] q) else q) in
             bnd (rc (CExpr PREC_COMMA fl) q1)
               (\<lambda>b q2. Ok n (upd n (\<lambda>x. x\<lparr>n_body := b\<rparr>) q2)))
      in if currtok p3 = TSEMI then
           bnd (rc (CExpr PREC_COMMA fl) (p_next p3))
             (\<lambda>c p4.
                let p5 = p_next (snd (expect TSEMI [] (upd n (\<lambda>x. x\<lparr>n_cond := c\<rparr>) p4))) in
                bnd (rc (CExpr PREC_COMMA fl) p5)
                  (\<lambda>e p6. finish (upd n (\<lambda>x. x\<lparr>n_end := e\<rparr>) p6)))
         else
           bnd (rc (CExpr PREC_COMMA fl) p3)
             (\<lambda>c p4.
                let p5 = upd n (\<lambda>x. x\<lparr>n_cond := c\<rparr>) p4 in
                if currtok p5 = TSEMI then
                  bnd (rc (CExpr PREC_COMMA fl)
                         (upd n (\<lambda>x. x\<lparr>n_start := n_cond x\<rparr>) (p_next p5)))
                    (\<lambda>c2 p6.
                       let p7 = snd (expect TSEMI [] (upd n (\<lambda>x. x\<lparr>n_cond := c2\<rparr>) p6)) in
                       bnd (rc (CExpr PREC_COMMA fl) p7)
                         (\<lambda>e p8. finish (upd n (\<lambda>x. x\<lparr>n_end := e\<rparr>) p8)))
                else finish p5))"

definition expr_return :: "rec_t \<Rightarrow> int \<Rightarrow> parser_t \<Rightarrow> nat res" where
  "expr_return rc fl p =
     (let (n, p1) = mkexpr EXPR_RETURN (fl OR EX_RVALUE_CHECKED) p;
          p2 = p_next p1
      in if currtok p2 = TSEMI then Ok n p2
         else bnd (rc (CExpr PREC_COMMA (fl OR EX_RVALUE)) p2)
                (\<lambda>v p3. Ok n (upd n (\<lambda>x. x\<lparr>n_value := v, n_type := n_type (nd p3 v)\<rparr>) p3)))"

text \<open>
  \<^verbatim>\<open>expr_prefix_op\<close> calls \<^verbatim>\<open>intlit(p, n->op == TMINUS, fl)\<close> and \<^verbatim>\<open>floatlit\<close>
  likewise: the comparison arrives as the flags parameter and the flags as the
  \<^verbatim>\<open>bool isneg\<close> parameter, which is true for any non-zero value.
\<close>

definition expr_prefix_op :: "rec_t \<Rightarrow> int \<Rightarrow> parser_t \<Rightarrow> nat res" where
  "expr_prefix_op rc fl p =
     (let (n, p1) = mkexpr EXPR_PREFIXOP fl p;
          p2 = p_next (upd n (\<lambda>x. x\<lparr>n_op := currtok p1\<rparr>) p1);
          fl1 = fl OR EX_RVALUE;
          op_is_minus = (if n_op (nd p2 n) = TMINUS then 1 else 0);
          finish = (\<lambda>e q. Ok n (upd n (\<lambda>x. x\<lparr>n_expr := e, n_type := n_type (nd q e)\<rparr>) q))
      in if currtok p2 = TINTLIT then
           (let (e, p3) = intlit op_is_minus (fl1 \<noteq> 0) p2 in finish e p3)
         else if currtok p2 = TFLOATLIT then
           (let (e, p3) = floatlit op_is_minus (fl1 \<noteq> 0) p2 in finish e p3)
         else bnd (rc (CExpr PREC_UNARY_PREFIX fl1) p2) finish)"

definition expr_infix_op :: "rec_t \<Rightarrow> prec_t \<Rightarrow> nat \<Rightarrow> int \<Rightarrow> parser_t \<Rightarrow> nat res" where
  "expr_infix_op rc prec left fl p =
     (let (n, p1) = mkexpr EXPR_BINOP fl p;
          p2 = p_next (upd n (\<lambda>x. x\<lparr>n_op := currtok p1\<rparr>) p1);
          p3 = upd left (\<lambda>x. x\<lparr>n_flags := n_flags x OR EX_RVALUE\<rparr>) p2;
          p4 = upd n (\<lambda>x. x\<lparr>n_left := left\<rparr>) p3
      in bnd (rc (CExpr prec (fl OR EX_RVALUE)) (typectx_push (n_type (nd p4 left)) p4))
           (\<lambda>r p5.
              bnd (typectx_pop (upd n (\<lambda>x. x\<lparr>n_right := r\<rparr>) p5))
                (\<lambda>u p6. Ok n (upd n (\<lambda>x. x\<lparr>n_type := n_type (nd p6 left)\<rparr>) p6))))"

definition expr_cmp_op :: "rec_t \<Rightarrow> prec_t \<Rightarrow> nat \<Rightarrow> int \<Rightarrow> parser_t \<Rightarrow> nat res" where
  "expr_cmp_op rc prec left fl p =
     bnd (expr_infix_op rc prec left fl p)
       (\<lambda>n p1. Ok n (upd n (\<lambda>x. x\<lparr>n_type := type_bool\<rparr>) p1))"

text \<open>
  \<^verbatim>\<open>expr_isstorage\<close> and \<^verbatim>\<open>expr_ismut\<close> follow the references of identifiers; they do
  not change the state. \<^verbatim>\<open>expr_ismut\<close> asserts that its argument is a storage
  expression.
\<close>

fun expr_isstorage :: "nat \<Rightarrow> nat \<Rightarrow> parser_t \<Rightarrow> bool res" where
  "expr_isstorage 0 n p = Fail OutOfFuel"
| "expr_isstorage (Suc k) n p =
     (if n_kind (nd p n) = EXPR_ID then
        (if n_ref (nd p n) \<noteq> 0 \<and> nodekind_isexpr (n_kind (nd p (n_ref (nd p n))))
         then expr_isstorage k (n_ref (nd p n)) p
         else Ok False p)
      else Ok (n_kind (nd p n) \<in> {EXPR_MEMBER, EXPR_PARAM, EXPR_LET, EXPR_VAR, EXPR_FUN,
                                    EXPR_DEREF}) p)"

fun expr_ismut :: "nat \<Rightarrow> nat \<Rightarrow> parser_t \<Rightarrow> bool res" where
  "expr_ismut 0 n p = Fail OutOfFuel"
| "expr_ismut (Suc k) n p =
     bnd (expr_isstorage k n p)
       (\<lambda>st p1.
          if \<not> st then Fail Panic
          else if n_kind (nd p n) = EXPR_ID then
            (if n_ref (nd p n) \<noteq> 0 \<and> nodekind_isexpr (n_kind (nd p (n_ref (nd p n))))
             then expr_ismut k (n_ref (nd p n)) p
             else Ok False p)
          else if n_kind (nd p n) = EXPR_MEMBER then
            bnd (expr_ismut k (n_target (nd p n)) p)
              (\<lambda>m p2. if m then expr_ismut k (n_recv (nd p n)) p else Ok False p)
          else Ok (n_kind (nd p n) \<in> {EXPR_PARAM, EXPR_VAR}) p)"

definition postfix_op :: "prec_t \<Rightarrow> nat \<Rightarrow> int \<Rightarrow> parser_t \<Rightarrow> nat \<times> parser_t" where
  "postfix_op prec left fl p =
     (let (n, p1) = mkexpr EXPR_POSTFIXOP fl p;
          p2 = p_next (upd n (\<lambda>x. x\<lparr>n_op := currtok p1\<rparr>) p1)
      in (n, upd n (\<lambda>x. x\<lparr>n_expr := left, n_type := n_type (nd p2 left)\<rparr>) p2))"

definition expr_deref :: "rec_t \<Rightarrow> int \<Rightarrow> parser_t \<Rightarrow> nat res" where
  "expr_deref rc fl p =
     (let (n, p1) = mkexpr EXPR_DEREF fl p;
          p2 = p_next (upd n (\<lambda>x. x\<lparr>n_op := currtok p1\<rparr>) p1)
      in bnd (rc (CExpr PREC_UNARY_PREFIX fl) p2)
           (\<lambda>e p3.
              let p4 = upd n (\<lambda>x. x\<lparr>n_expr := e\<rparr>) p3;
                  t = n_type (nd p4 e)
              in if n_kind (nd p4 t) \<noteq> TYPE_REF
                 then Ok n (p_error n ''dereferencing non-reference value of type %s'' [] p4)
                 else Ok n (upd n (\<lambda>x. x\<lparr>n_type := n_elem (nd p4 t)\<rparr>) p4)))"

definition expr_ref1 :: "rec_t \<Rightarrow> nat \<Rightarrow> bool \<Rightarrow> int \<Rightarrow> parser_t \<Rightarrow> nat res" where
  "expr_ref1 rc k ismut fl p =
     (let (n, p1) = mkexpr EXPR_PREFIXOP fl p;
          p2 = p_next (upd n (\<lambda>x. x\<lparr>n_op := currtok p1\<rparr>) p1);
          finish = (\<lambda>q.
             let e = n_expr (nd q n);
                 (t, q1) = mkreftype ismut q;
                 q2 = upd t (\<lambda>x. x\<lparr>n_elem := n_type (nd q1 e)\<rparr>) q1
             in Ok n (upd n (\<lambda>x. x\<lparr>n_type := t\<rparr>) q2))
      in bnd (rc (CExpr PREC_UNARY_PREFIX (fl OR EX_RVALUE)) p2)
           (\<lambda>e p3.
              let p4 = upd n (\<lambda>x. x\<lparr>n_expr := e\<rparr>) p3 in
              if n_kind (nd p4 (n_type (nd p4 e))) = TYPE_REF
              then finish (p_error n ''referencing reference type %s'' [] p4)
              else
                bnd (expr_isstorage k e p4)
                  (\<lambda>st p5.
                     if \<not> st
                     then finish (p_error n ''referencing ephemeral value of type %s'' [] p5)
                     else if ismut then
                       bnd (expr_ismut k e p5)
                         (\<lambda>m p6.
                            if \<not> m
                            then finish (p_error n ''mutable reference to immutable %s %s'' [] p6)
                            else finish p6)
                     else finish p5)))"

definition expr_ref :: "rec_t \<Rightarrow> nat \<Rightarrow> int \<Rightarrow> parser_t \<Rightarrow> nat res" where
  "expr_ref rc k fl p = expr_ref1 rc k False fl p"

definition expr_mut :: "rec_t \<Rightarrow> nat \<Rightarrow> int \<Rightarrow> parser_t \<Rightarrow> nat res" where
  "expr_mut rc k fl p =
     (let p1 = p_next p in
      if currtok p1 \<noteq> TAND then
        (let (b, p2) = mkbad (unexpected ''expecting &'' p1) in Ok b p2)
      else expr_ref1 rc k True fl p1)"

definition expr_group :: "rec_t \<Rightarrow> int \<Rightarrow> parser_t \<Rightarrow> nat res" where
  "expr_group rc fl p =
     bnd (rc (CExpr PREC_COMMA fl) (p_next p))
       (\<lambda>n p1. Ok n (snd (expect TRPAREN [] p1)))"

definition named_param_or_id :: "rec_t \<Rightarrow> int \<Rightarrow> parser_t \<Rightarrow> nat res" where
  "named_param_or_id rc fl p =
     (if currtok p \<noteq> TID then Fail Panic
      else
        (let (n, p1) = mkexpr EXPR_ID fl p;
             p2 = p_next (upd n (\<lambda>x. x\<lparr>n_name := sym' (scanner p1)\<rparr>) p1)
         in if currtok p2 = TCOLON then
              bnd (rc (CExpr PREC_COMMA fl) (upd n (\<lambda>x. x\<lparr>n_kind := EXPR_PARAM\<rparr>) (p_next p2)))
                (\<lambda>e p3. Ok n (upd n (\<lambda>x. x\<lparr>n_init := e, n_type := n_type (nd p3 e)\<rparr>) p3))
            else (let (ok, p3) = resolve_id n p2 in Ok n p3)))"

text \<open>
  The parameter types \<^verbatim>\<open>args\<close> uses as type contexts: those of the function's
  parameters without a leading \<^verbatim>\<open>this\<close>, those of the struct's fields, or the receiver
  type alone.
\<close>

definition args_param_types :: "nat \<Rightarrow> parser_t \<Rightarrow> nat list" where
  "args_param_types recvtype p =
     (if n_kind (nd p recvtype) = TYPE_FUN then
        (let ps = n_params (nd p recvtype) in
         map (\<lambda>a. n_type (nd p a))
           (if ps \<noteq> [] \<and> n_isthis (nd p (hd ps)) then tl ps else ps))
      else if n_kind (nd p recvtype) = TYPE_STRUCT then
        map (\<lambda>a. n_type (nd p a)) (n_fields (nd p recvtype))
      else [recvtype])"

fun args_loop :: "rec_t \<Rightarrow> nat \<Rightarrow> nat \<Rightarrow> nat list \<Rightarrow> int \<Rightarrow> nat \<Rightarrow> parser_t \<Rightarrow> unit res" where
  "args_loop rc 0 n ts fl paramidx p = Fail OutOfFuel"
| "args_loop rc (Suc k) n ts fl paramidx p =
     (let t = (if paramidx < length ts then ts ! paramidx else type_void);
          p1 = typectx_push t p
      in bnd (if currtok p1 = TID then named_param_or_id rc fl p1
              else rc (CExpr PREC_COMMA fl) p1)
           (\<lambda>arg p2.
              bnd (typectx_pop p2)
                (\<lambda>u p3.
                   let p4 = upd n (\<lambda>x. x\<lparr>n_args := n_args x @ [arg]\<rparr>) p3 in
                   if currtok p4 \<noteq> TSEMI \<and> currtok p4 \<noteq> TCOMMA then Ok () p4
                   else args_loop rc k n ts fl (paramidx + 1) (p_next p4))))"

text \<open>
  \<^verbatim>\<open>args\<close> returns from inside its loop; the \<^verbatim>\<open>typectx_pop\<close> after the loop is never
  reached.
\<close>

definition args :: "rec_t \<Rightarrow> nat \<Rightarrow> nat \<Rightarrow> nat \<Rightarrow> int \<Rightarrow> parser_t \<Rightarrow> unit res" where
  "args rc k n recvtype fl p =
     args_loop rc k n (args_param_types recvtype p) fl 0 (typectx_push type_void p)"

definition expr_postfix_call :: "rec_t \<Rightarrow> nat \<Rightarrow> prec_t \<Rightarrow> nat \<Rightarrow> int \<Rightarrow> parser_t \<Rightarrow> nat res" where
  "expr_postfix_call rc k prec left fl p =
     (let (n, p1) = mkexpr EXPR_CALL fl p;
          p2 = upd left (\<lambda>x. x\<lparr>n_flags := n_flags x OR EX_RVALUE\<rparr>) (p_next p1);
          lt = n_type (nd p2 left);
          recvtype = lt;
          p3 = (if lt \<noteq> 0 \<and> n_kind (nd p2 lt) = TYPE_FUN
                then upd n (\<lambda>x. x\<lparr>n_type := n_result (nd p2 lt)\<rparr>) p2
                else if lt \<noteq> 0 \<and> nodekind_istype (n_kind (nd p2 lt))
                then upd n (\<lambda>x. x\<lparr>n_type := lt\<rparr>) p2
                else p_error n ''calling %s; expected function or type'' [] p2);
          p4 = upd n (\<lambda>x. x\<lparr>n_recv := left\<rparr>) p3
      in bnd (if currtok p4 \<noteq> TRPAREN
              then args rc k n (if recvtype \<noteq> 0 then recvtype else type_void) fl p4
              else Ok () p4)
           (\<lambda>u p5.
              let p6 = snd (expect TRPAREN ''to end function call'' p5) in
              if n_kind (nd p6 recvtype) \<noteq> TYPE_FUN \<and> length (n_args (nd p6 n)) = 1 \<and>
                 types_iscompat (n_type (nd p6 (hd (n_args (nd p6 n))))) (n_type (nd p6 n))
              then Ok (hd (n_args (nd p6 n))) p6
              else Ok n p6))"

text \<open>\<^verbatim>\<open>expr_postfix_subscript\<close> is \<^verbatim>\<open>panic("TODO")\<close>.\<close>

definition expr_postfix_subscript :: "prec_t \<Rightarrow> nat \<Rightarrow> int \<Rightarrow> parser_t \<Rightarrow> nat res" where
  "expr_postfix_subscript prec left fl p =
     (let (n, p1) = mkexpr EXPR_POSTFIXOP fl p; p2 = p_next p1 in Fail Panic)"

definition expr_postfix_member :: "prec_t \<Rightarrow> nat \<Rightarrow> int \<Rightarrow> parser_t \<Rightarrow> nat \<times> parser_t" where
  "expr_postfix_member prec left fl p =
     (let (n, p1) = mkexpr EXPR_MEMBER fl p;
          p2 = upd left (\<lambda>x. x\<lparr>n_flags := n_flags x OR EX_RVALUE\<rparr>) (p_next p1);
          p3 = upd n (\<lambda>x. x\<lparr>n_recv := left, n_name := sym' (scanner p2)\<rparr>) p2
      in (n, snd (expect TID [] p3)))"

definition expr_dotmember :: "nat \<Rightarrow> int \<Rightarrow> parser_t \<Rightarrow> nat res" where
  "expr_dotmember k fl p =
     (if dotctx p = 0 then
        (let (n, p1) = mkbad (p_error 0 ''. shorthand outside of context'' [] p)
         in bnd (fastforward_semi k p1) (\<lambda>u p2. Ok n p2))
      else (let (n, p1) = expr_postfix_member PREC_MEMBER (dotctx p) fl p in Ok n p1))"


text \<open>
  \<^verbatim>\<open>this_param_type\<close> and \<^verbatim>\<open>this_param\<close>.
\<close>

definition this_param_type :: "nat \<Rightarrow> bool \<Rightarrow> parser_t \<Rightarrow> nat \<times> parser_t" where
  "this_param_type recvt ismut p =
     (let sz = ptrsize (compiler (scanner p)) in
      if \<not> ismut \<and> nodekind_isprimtype (n_kind (nd p recvt)) then (recvt, p)
      else if \<not> ismut \<and> n_kind (nd p recvt) = TYPE_STRUCT \<and>
              n_align (nd p recvt) \<le> sz \<and> n_size (nd p recvt) \<le> sz * 2
      then (recvt, p)
      else (let (t, p1) = mkreftype ismut p in (t, upd t (\<lambda>x. x\<lparr>n_elem := recvt\<rparr>) p1)))"

definition this_param :: "nat \<Rightarrow> nat \<Rightarrow> bool \<Rightarrow> parser_t \<Rightarrow> parser_t" where
  "this_param fn param ismut p =
     (if n_methodof (nd p fn) = 0 then
        p_error param ''this parameter of non-method function'' []
          (upd param (\<lambda>x. x\<lparr>n_type := type_void, n_nrefs := 1\<rparr>) p)
      else
        (let p1 = upd param (\<lambda>x. x\<lparr>n_isthis := True\<rparr>) p;
             (t, p2) = this_param_type (n_methodof (nd p1 fn)) ismut p1
         in upd param (\<lambda>x. x\<lparr>n_type := t\<rparr>) p2))"

text \<open>
  \<^verbatim>\<open>fun_params\<close>. \<^verbatim>\<open>fun_param\<close> is the body of its loop from the test for an identifier
  to the label \<^verbatim>\<open>loopend\<close>; the locals \<^verbatim>\<open>isnametype\<close> and \<^verbatim>\<open>typeq\<close> are passed
  through.
\<close>

definition fun_param :: "rec_t \<Rightarrow> nat \<Rightarrow> nat \<Rightarrow> bool \<Rightarrow> bool \<Rightarrow> bool \<Rightarrow> nat list \<Rightarrow> parser_t \<Rightarrow>
    (bool \<times> nat list) res" where
  "fun_param rc fn param first this_ismut isnametype typeq p =
     (if currtok p = TID then
        (let p1 = p_next (upd param (\<lambda>x. x\<lparr>n_name := sym' (scanner p), n_loc := currloc p\<rparr>) p)
         in if n_name (nd p1 param) = sym_this \<and> first then
              Ok (True, typeq) (this_param fn param this_ismut p1)
            else if currtok p1 = TRPAREN \<or> currtok p1 = TCOMMA \<or> currtok p1 = TSEMI then
              Ok (isnametype, typeq @ [param]) p1
            else
              bnd (rc (CType PREC_LOWEST) p1)
                (\<lambda>t p2. Ok (True, [])
                   (foldl (\<lambda>q a. upd a (\<lambda>x. x\<lparr>n_type := t\<rparr>) q)
                      (upd param (\<lambda>x. x\<lparr>n_type := t\<rparr>) p2) typeq)))
      else
        bnd (rc (CType PREC_LOWEST) (upd param (\<lambda>x. x\<lparr>n_name := sym_underscore\<rparr>) p))
          (\<lambda>t p1. Ok (isnametype, typeq) (upd param (\<lambda>x. x\<lparr>n_type := t\<rparr>) p1)))"

fun fun_params_loop :: "rec_t \<Rightarrow> nat \<Rightarrow> nat \<Rightarrow> bool \<Rightarrow> nat list \<Rightarrow> parser_t \<Rightarrow>
    (bool \<times> nat list) res" where
  "fun_params_loop rc 0 fn isnametype typeq p = Fail OutOfFuel"
| "fun_params_loop rc (Suc k) fn isnametype typeq p =
     (if currtok p = TEOF then Ok (isnametype, typeq) p
      else
        (let (param, p1) = mkexpr EXPR_PARAM 0 p;
             p2 = upd fn (\<lambda>x. x\<lparr>n_params := n_params x @ [param]\<rparr>)
                    (upd param (\<lambda>x. x\<lparr>n_type := 0\<rparr>) p1);
             first = (length (n_params (nd p2 fn)) = 1);
             (this_ismut, p3) = (if currtok p2 = TMUT \<and> first
                                 then lookahead_issym sym_this p2 else (False, p2));
             p4 = (if this_ismut then p_next p3 else p3)
         in bnd (fun_param rc fn param first this_ismut isnametype typeq p4)
              (\<lambda>r p5.
                 if currtok p5 = TCOMMA \<or> currtok p5 = TSEMI then
                   (let p6 = p_next p5 in
                    if currtok p6 = TRPAREN then Ok r p6
                    else fun_params_loop rc k fn (fst r) (snd r) p6)
                 else if currtok p5 = TRPAREN then Ok r p5
                 else bnd (fastforward k [TRPAREN, TSEMI]
                             (unexpected ''expecting , ; or )'' p5))
                        (\<lambda>u p6. Ok r p6))))"

definition fun_params :: "rec_t \<Rightarrow> nat \<Rightarrow> nat \<Rightarrow> parser_t \<Rightarrow> bool res" where
  "fun_params rc k fn p =
     bnd (fun_params_loop rc k fn False [] p)
       (\<lambda>r p1.
          if fst r then
            Ok True
              (if snd r \<noteq> [] then
                 foldl (\<lambda>q a. if n_type (nd q a) = 0
                                then upd a (\<lambda>x. x\<lparr>n_type := type_void\<rparr>) q else q)
                   (p_error 0 ''expecting type'' [] p1) (n_params (nd p1 fn))
               else p1)
          else
            Ok False
              (foldl (\<lambda>q a. if n_type (nd q a) \<noteq> 0 then q
                             else (let (t, q1) = named_type (n_name (nd q a)) a q
                                   in upd a (\<lambda>x. x\<lparr>n_type := t, n_name := sym_underscore\<rparr>) q1))
                 p1 (n_params (nd p1 fn))))"

text \<open>
  Modelled from the spec: \<^verbatim>\<open>buf_print_leb128_u32\<close> (buf.c) and \<^verbatim>\<open>typeid_append\<close> are
  missing. The former writes the unsigned LEB128 encoding of a number, seven bits a
  byte, low bits first; the latter is taken to be \<^verbatim>\<open>append\<close> of typeid.c.
\<close>

function leb128_u32 :: "nat \<Rightarrow> nat list" where
  "leb128_u32 v = (if v < 128 then [v] else (v mod 128 + 128) # leb128_u32 (v div 128))"
  by pat_completeness auto
termination
  by (relation "measure id") auto

declare leb128_u32.simps [simp del]

definition typeid_fun :: "nat \<Rightarrow> nat list \<Rightarrow> nat \<Rightarrow> parser_t \<Rightarrow> sym_t res" where
  "typeid_fun k params result p =
     (let names = symtab (compiler (scanner p));
          buf0 = TYPEID_PREFIX TYPE_FUN # map char_of (leb128_u32 (length params));
          r1 = foldl (\<lambda>acc a. case acc of
                        Inl e \<Rightarrow> Inl e
                      | Inr (b, h) \<Rightarrow>
                          if n_kind (h ! a) \<noteq> EXPR_PARAM \<or> n_type (h ! a) = 0 then Inl Panic
                          else append TYPEID_PREFIX names k (n_type (h ! a)) (b, h))
                 (Inr (buf0, heap p)) params;
          r2 = (case r1 of Inl e \<Rightarrow> Inl e
                | Inr bh \<Rightarrow> append TYPEID_PREFIX names k result bh)
      in case r2 of
           Inl e \<Rightarrow> Fail e
         | Inr (buf, h) \<Rightarrow>
             (let (y, tab) = sym_intern buf names
              in Ok y (p\<lparr>heap := h,
                         scanner := (scanner p)\<lparr>compiler :=
                           (compiler (scanner p))\<lparr>symtab := tab\<rparr>\<rparr>\<rparr>)))"

text \<open>
  \<^verbatim>\<open>funtype\<close> with \<^verbatim>\<open>typeidmap_assign\<close>: the function type registered under the type
  id, or a new one, which is then registered.
\<close>

definition funtype :: "nat \<Rightarrow> nat list \<Rightarrow> nat \<Rightarrow> parser_t \<Rightarrow> nat res" where
  "funtype k params result p =
     bnd (typeid_fun k params result p)
       (\<lambda>tid p1.
          case map_of (typeidmap (compiler (scanner p1))) tid of
            Some ft \<Rightarrow> if n_kind (nd p1 ft) \<noteq> TYPE_FUN then Fail Panic else Ok ft p1
          | None \<Rightarrow>
              (let (ft, p2) = mknode TYPE_FUN p1;
                   sz = ptrsize (compiler (scanner p2));
                   p3 = upd ft (\<lambda>x. x\<lparr>n_size := sz, n_align := sz, n_isunsigned := True,
                                      n_result := result, n_params := params\<rparr>) p2;
                   c = compiler (scanner p3)
               in if list_ex (\<lambda>a. n_kind (nd p3 a) \<noteq> EXPR_PARAM) params then Fail Panic
                  else Ok ft (p3\<lparr>scanner := (scanner p3)\<lparr>compiler :=
                                c\<lparr>typeidmap := (tid, ft) # typeidmap c\<rparr>\<rparr>\<rparr>)))"

text \<open>
  \<^verbatim>\<open>add_method\<close> with \<^verbatim>\<open>get_or_create_methodmap\<close>. \<^verbatim>\<open>map_assign_ptr\<close> makes the
  entry for the name, which keeps the value \<^verbatim>\<open>NULL\<close> when the method is rejected.
\<close>

definition add_method :: "nat \<Rightarrow> nat \<times> nat \<Rightarrow> parser_t \<Rightarrow> unit res" where
  "add_method fn name_loc p =
     (let mo = n_methodof (nd p fn); name = n_name (nd p fn) in
      if mo = 0 \<or> name = 0 \<or> name = sym_underscore then Fail Panic
      else
        (let mm = (case map_of (methodmap p) mo of None \<Rightarrow> [] | Some m \<Rightarrow> m);
             e0 = (case map_of mm name of None \<Rightarrow> 0 | Some e \<Rightarrow> e);
             existing = (if e0 = 0 \<and> n_kind (nd p mo) = TYPE_STRUCT
                         then lookup_struct_field mo name p else e0)
         in if existing \<noteq> 0 then
              (let p1 = p\<lparr>methodmap := (mo, (name, e0) # mm) # methodmap p\<rparr>;
                   p2 = (if n_kind (nd p1 existing) = EXPR_FUN
                         then p_error1 name_loc ''duplicate method %s for type %s''
                                [name_of p1 name] p1
                         else p_error1 name_loc
                                ''duplicate member %s for type %s, conflicts with %s''
                                [name_of p1 name] p1)
               in Ok () (if fst (n_loc (nd p2 existing)) \<noteq> 0
                         then p_warning existing ''previously defined here'' [] p2 else p2))
            else Ok () (p\<lparr>methodmap := (mo, (name, fn) # mm) # methodmap p\<rparr>)))"

definition fun_name :: "nat \<Rightarrow> nat \<Rightarrow> parser_t \<Rightarrow> unit res" where
  "fun_name fn recv p =
     (let p1 = upd fn (\<lambda>x. x\<lparr>n_name := sym' (scanner p)\<rparr>) p;
          name_loc = currloc p1;
          p2 = p_next p1
      in if recv \<noteq> 0 then add_method fn name_loc (upd fn (\<lambda>x. x\<lparr>n_methodof := recv\<rparr>) p2)
         else if currtok p2 \<noteq> TDOT then Ok () p2
         else
           (let (r, p3) = lookup (n_name (nd p2 fn)) (p_next p2) in
            if r = 0 then
              Ok () (p_error1 name_loc ''undeclared identifier %s''
                       [name_of p3 (n_name (nd p3 fn))] p3)
            else if \<not> nodekind_istype (n_kind (nd p3 r)) then
              Ok () (p_error1 name_loc ''%s is not a type'' [] p3)
            else
              (let p4 = upd fn (\<lambda>x. x\<lparr>n_methodof := r, n_name := sym' (scanner p3)\<rparr>) p3;
                   name_loc1 = currloc p4;
                   (ok, p5) = expect TID ''after .'' p4
               in if \<not> ok then Ok () p5 else add_method fn name_loc1 p5)))"

definition fun_prototype :: "rec_t \<Rightarrow> nat \<Rightarrow> nat \<Rightarrow> nat \<Rightarrow> bool \<Rightarrow> parser_t \<Rightarrow> bool res" where
  "fun_prototype rc k fn methodof requirename p =
     bnd (if currtok p = TID then fun_name fn methodof p
          else Ok () (if requirename then p_error 0 ''missing function name'' [] p else p))
       (\<lambda>u p1.
          let (ok, p2) = expect TLPAREN ''for parameters'' p1 in
          if \<not> ok then
            bnd (fastforward k [TLBRACE, TSEMI] p2)
              (\<lambda>u p3. let (b, p4) = mkbad p3 in Ok False (upd fn (\<lambda>x. x\<lparr>n_type := b\<rparr>) p4))
          else
            bnd (if currtok p2 \<noteq> TRPAREN then fun_params rc k fn p2 else Ok False p2)
              (\<lambda>has_named_params p3.
                 let p4 = snd (expect TRPAREN ''to end parameters'' p3) in
                 bnd (if currtok p4 \<noteq> TLBRACE then rc (CType PREC_MEMBER) p4
                      else Ok type_void p4)
                   (\<lambda>result p5.
                      bnd (funtype k (n_params (nd p5 fn)) result p5)
                        (\<lambda>ft p6. Ok has_named_params (upd fn (\<lambda>x. x\<lparr>n_type := ft\<rparr>) p6)))))"

text \<open>
  \<^verbatim>\<open>type_fun\<close> parses the prototype into a \<^verbatim>\<open>fun_t\<close> on its stack; here that node is a
  cell of the store like the others.
\<close>

definition type_fun :: "rec_t \<Rightarrow> nat \<Rightarrow> parser_t \<Rightarrow> nat res" where
  "type_fun rc k p =
     (let (f, p1) = mknode EXPR_FUN p in
      bnd (fun_prototype rc k f 0 False (p_next p1))
        (\<lambda>h p2. Ok (n_type (nd p2 f)) p2))"

definition fun_body :: "rec_t \<Rightarrow> nat \<Rightarrow> nat \<Rightarrow> int \<Rightarrow> parser_t \<Rightarrow> unit res" where
  "fun_body rc k fn fl p =
     (let ps = n_params (nd p fn);
          hasthis = (ps \<noteq> [] \<and> n_isthis (nd p (hd ps)))
      in if hasthis \<and> n_methodof (nd p fn) = 0 then Fail Panic
         else
           (let p1 = (if hasthis then dotctx_push (hd ps) p else p);
                outer_fun = curfun p1;
                p2 = p1\<lparr>curfun := fn\<rparr>;
                ft = n_type (nd p2 fn);
                fl1 = (if n_result (nd p2 ft) = type_void
                       then (fl OR EX_RVALUE) AND NOT EX_RVALUE else fl OR EX_RVALUE);
                p3 = enter_scope (typectx_push (n_result (nd p2 ft)) p2)
            in bnd (any_as_block rc k fl1 p3)
                 (\<lambda>b p4.
                    let p5 = upd b (\<lambda>x. x\<lparr>n_flags := n_flags x AND NOT EX_RVALUE\<rparr>)
                               (upd fn (\<lambda>x. x\<lparr>n_body := b\<rparr>) p4)
                    in bnd (typectx_pop (leave_scope p5))
                         (\<lambda>u p6.
                            let p7 = p6\<lparr>curfun := outer_fun\<rparr> in
                            if hasthis then dotctx_pop p7 else Ok () p7))))"

text \<open>\<^verbatim>\<open>fun\<close>, the parser of a function definition.\<close>

definition fun_p :: "rec_t \<Rightarrow> nat \<Rightarrow> int \<Rightarrow> nat \<Rightarrow> bool \<Rightarrow> parser_t \<Rightarrow> nat res" where
  "fun_p rc k fl methodof requirename p =
     (let (n, p1) = mkexpr EXPR_FUN fl p in
      bnd (fun_prototype rc k n methodof requirename (p_next p1))
        (\<lambda>has_named_params p2.
           let p3 = (if n_name (nd p2 n) \<noteq> 0 \<and> n_kind (nd p2 (n_type (nd p2 n))) \<noteq> NODE_BAD \<and>
                        n_methodof (nd p2 n) = 0
                     then p_define (n_name (nd p2 n)) n p2 else p2);
               p4 = (if has_named_params
                     then foldl (\<lambda>q a. p_define (n_name (nd q a)) a q) (enter_scope p3)
                            (n_params (nd p3 n))
                     else p3)
           in bnd (if currtok p4 \<noteq> TSEMI then
                     fun_body rc k n fl
                       (if \<not> has_named_params \<and> n_params (nd p4 n) \<noteq> []
                        then p_error 0 ''function without named arguments cant have a body'' [] p4
                        else p4)
                   else Ok () p4)
                (\<lambda>u p5. Ok n (if has_named_params then leave_scope p5 else p5))))"

definition expr_fun :: "rec_t \<Rightarrow> nat \<Rightarrow> int \<Rightarrow> parser_t \<Rightarrow> nat res" where
  "expr_fun rc k fl p = fun_p rc k fl 0 False p"

definition stmt_fun :: "rec_t \<Rightarrow> nat \<Rightarrow> parser_t \<Rightarrow> nat res" where
  "stmt_fun rc k p = fun_p rc k 0 0 True p"

text \<open>
  \<^verbatim>\<open>type_struct\<close>. Modelled from the spec: the macro \<^verbatim>\<open>ALIGN2\<close> is missing; it rounds a
  size up to a multiple of an alignment that is a power of two, and gives \<open>0\<close> for the
  alignment \<open>0\<close>. Sizes are natural numbers.
\<close>

definition ALIGN2 :: "nat \<Rightarrow> nat \<Rightarrow> nat" where
  "ALIGN2 x a = (if a = 0 then 0 else ((x + a - 1) div a) * a)"

fun type_struct_loop :: "rec_t \<Rightarrow> nat \<Rightarrow> nat \<Rightarrow> parser_t \<Rightarrow> unit res" where
  "type_struct_loop rc 0 st p = Fail OutOfFuel"
| "type_struct_loop rc (Suc k) st p =
     (if currtok p = TRBRACE then Ok () p
      else
        bnd (if currtok p = TFUN then
               bnd (fun_p rc k 0 st True p)
                 (\<lambda>f p1. Ok () (upd st (\<lambda>x. x\<lparr>n_methods := n_methods x @ [f]\<rparr>) p1))
             else
               bnd (struct_fieldset rc k st p)
                 (\<lambda>h p1. Ok () (upd st (\<lambda>x. x\<lparr>n_hasinit := (n_hasinit x \<or> h)\<rparr>) p1)))
          (\<lambda>u p2. if currtok p2 \<noteq> TSEMI then Ok () p2
                   else type_struct_loop rc k st (p_next p2)))"

definition type_struct :: "rec_t \<Rightarrow> nat \<Rightarrow> parser_t \<Rightarrow> nat res" where
  "type_struct rc k p =
     (let (st, p1) = mknode TYPE_STRUCT p in
      bnd (type_struct_loop rc k st (p_next p1))
        (\<lambda>u p2.
           let p3 = snd (expect TRBRACE ''to end struct'' p2);
               fs = n_fields (nd p3 st)
           in if list_ex (\<lambda>f. n_type (nd p3 f) = 0) fs then Fail Panic
              else
                (let al = foldl (\<lambda>a f. max a (n_align (nd p3 (n_type (nd p3 f)))))
                            (n_align (nd p3 st)) fs;
                     sz = foldl (\<lambda>z f. z + n_size (nd p3 (n_type (nd p3 f))))
                            (n_size (nd p3 st)) fs
                 in Ok st (upd st (\<lambda>x. x\<lparr>n_align := al, n_size := ALIGN2 sz al\<rparr>) p3))))"

text \<open>
  The parselet tables. An entry of \<^verbatim>\<open>expr_parsetab\<close> has a prefix parselet, an infix
  parselet and a precedence; a token without an entry has neither parselet and the
  precedence \<open>0\<close>, which is \<^verbatim>\<open>PREC_COMMA\<close>. The parselets are given the callback for
  \<^verbatim>\<open>expr\<close> and \<^verbatim>\<open>type\<close> and the bound on their loops.
\<close>

type_synonym prefix_expr_parselet_t = "rec_t \<Rightarrow> nat \<Rightarrow> int \<Rightarrow> parser_t \<Rightarrow> nat res"
type_synonym infix_expr_parselet_t = "rec_t \<Rightarrow> nat \<Rightarrow> prec_t \<Rightarrow> nat \<Rightarrow> int \<Rightarrow> parser_t \<Rightarrow> nat res"
type_synonym prefix_type_parselet_t = "rec_t \<Rightarrow> nat \<Rightarrow> parser_t \<Rightarrow> nat res"

definition ret :: "nat \<times> parser_t \<Rightarrow> nat res" where
  "ret x = Ok (fst x) (snd x)"

fun expr_parsetab_prefix :: "tok_t \<Rightarrow> prefix_expr_parselet_t option" where
  "expr_parsetab_prefix TAND = Some (\<lambda>rc k fl p. expr_ref rc k fl p)"
| "expr_parsetab_prefix TPLUS = Some (\<lambda>rc k fl p. expr_prefix_op rc fl p)"
| "expr_parsetab_prefix TMINUS = Some (\<lambda>rc k fl p. expr_prefix_op rc fl p)"
| "expr_parsetab_prefix TSTAR = Some (\<lambda>rc k fl p. expr_deref rc fl p)"
| "expr_parsetab_prefix TPLUSPLUS = Some (\<lambda>rc k fl p. expr_prefix_op rc fl p)"
| "expr_parsetab_prefix TMINUSMINUS = Some (\<lambda>rc k fl p. expr_prefix_op rc fl p)"
| "expr_parsetab_prefix TNOT = Some (\<lambda>rc k fl p. expr_prefix_op rc fl p)"
| "expr_parsetab_prefix TTILDE = Some (\<lambda>rc k fl p. expr_prefix_op rc fl p)"
| "expr_parsetab_prefix TMUT = Some (\<lambda>rc k fl p. expr_mut rc k fl p)"
| "expr_parsetab_prefix TLPAREN = Some (\<lambda>rc k fl p. expr_group rc fl p)"
| "expr_parsetab_prefix TDOT = Some (\<lambda>rc k fl p. expr_dotmember k fl p)"
| "expr_parsetab_prefix TID = Some (\<lambda>rc k fl p. ret (expr_id fl p))"
| "expr_parsetab_prefix TFUN = Some (\<lambda>rc k fl p. expr_fun rc k fl p)"
| "expr_parsetab_prefix TLET = Some (\<lambda>rc k fl p. expr_var rc fl p)"
| "expr_parsetab_prefix TVAR = Some (\<lambda>rc k fl p. expr_var rc fl p)"
| "expr_parsetab_prefix TIF = Some (\<lambda>rc k fl p. expr_if rc k fl p)"
| "expr_parsetab_prefix TFOR = Some (\<lambda>rc k fl p. expr_for rc fl p)"
| "expr_parsetab_prefix TRETURN = Some (\<lambda>rc k fl p. expr_return rc fl p)"
| "expr_parsetab_prefix TINTLIT = Some (\<lambda>rc k fl p. ret (expr_intlit fl p))"
| "expr_parsetab_prefix TFLOATLIT = Some (\<lambda>rc k fl p. ret (expr_floatlit fl p))"
| "expr_parsetab_prefix TLBRACE = Some (\<lambda>rc k fl p. expr_block rc k fl p)"
| "expr_parsetab_prefix _ = None"

definition infix_op :: infix_expr_parselet_t where
  "infix_op rc k prec left fl p = expr_infix_op rc prec left fl p"

definition cmp_op :: infix_expr_parselet_t where
  "cmp_op rc k prec left fl p = expr_cmp_op rc prec left fl p"

fun expr_parsetab_infix :: "tok_t \<Rightarrow> infix_expr_parselet_t option" where
  "expr_parsetab_infix TASSIGN = Some infix_op"
| "expr_parsetab_infix TMULASSIGN = Some infix_op"
| "expr_parsetab_infix TDIVASSIGN = Some infix_op"
| "expr_parsetab_infix TMODASSIGN = Some infix_op"
| "expr_parsetab_infix TADDASSIGN = Some infix_op"
| "expr_parsetab_infix TSUBASSIGN = Some infix_op"
| "expr_parsetab_infix TSHLASSIGN = Some infix_op"
| "expr_parsetab_infix TSHRASSIGN = Some infix_op"
| "expr_parsetab_infix TANDASSIGN = Some infix_op"
| "expr_parsetab_infix TXORASSIGN = Some infix_op"
| "expr_parsetab_infix TORASSIGN = Some infix_op"
| "expr_parsetab_infix TOROR = Some cmp_op"
| "expr_parsetab_infix TANDAND = Some cmp_op"
| "expr_parsetab_infix TOR = Some infix_op"
| "expr_parsetab_infix TXOR = Some infix_op"
| "expr_parsetab_infix TAND = Some infix_op"
| "expr_parsetab_infix TEQ = Some cmp_op"
| "expr_parsetab_infix TNEQ = Some cmp_op"
| "expr_parsetab_infix TLT = Some cmp_op"
| "expr_parsetab_infix TGT = Some cmp_op"
| "expr_parsetab_infix TLTEQ = Some cmp_op"
| "expr_parsetab_infix TGTEQ = Some cmp_op"
| "expr_parsetab_infix TSHL = Some infix_op"
| "expr_parsetab_infix TSHR = Some infix_op"
| "expr_parsetab_infix TPLUS = Some infix_op"
| "expr_parsetab_infix TMINUS = Some infix_op"
| "expr_parsetab_infix TSTAR = Some infix_op"
| "expr_parsetab_infix TSLASH = Some infix_op"
| "expr_parsetab_infix TPERCENT = Some infix_op"
| "expr_parsetab_infix TPLUSPLUS = Some (\<lambda>rc k prec left fl p. ret (postfix_op prec left fl p))"
| "expr_parsetab_infix TMINUSMINUS = Some (\<lambda>rc k prec left fl p. ret (postfix_op prec left fl p))"
| "expr_parsetab_infix TLPAREN = Some expr_postfix_call"
| "expr_parsetab_infix TLBRACK = Some (\<lambda>rc k prec left fl p. expr_postfix_subscript prec left fl p)"
| "expr_parsetab_infix TDOT = Some (\<lambda>rc k prec left fl p. ret (expr_postfix_member prec left fl p))"
| "expr_parsetab_infix _ = None"

fun expr_parsetab_prec :: "tok_t \<Rightarrow> prec_t" where
  "expr_parsetab_prec TASSIGN = PREC_ASSIGN"
| "expr_parsetab_prec TMULASSIGN = PREC_ASSIGN"
| "expr_parsetab_prec TDIVASSIGN = PREC_ASSIGN"
| "expr_parsetab_prec TMODASSIGN = PREC_ASSIGN"
| "expr_parsetab_prec TADDASSIGN = PREC_ASSIGN"
| "expr_parsetab_prec TSUBASSIGN = PREC_ASSIGN"
| "expr_parsetab_prec TSHLASSIGN = PREC_ASSIGN"
| "expr_parsetab_prec TSHRASSIGN = PREC_ASSIGN"
| "expr_parsetab_prec TANDASSIGN = PREC_ASSIGN"
| "expr_parsetab_prec TXORASSIGN = PREC_ASSIGN"
| "expr_parsetab_prec TORASSIGN = PREC_ASSIGN"
| "expr_parsetab_prec TOROR = PREC_LOGICAL_OR"
| "expr_parsetab_prec TANDAND = PREC_LOGICAL_AND"
| "expr_parsetab_prec TOR = PREC_BITWISE_OR"
| "expr_parsetab_prec TXOR = PREC_BITWISE_XOR"
| "expr_parsetab_prec TAND = PREC_BITWISE_AND"
| "expr_parsetab_prec TEQ = PREC_EQUAL"
| "expr_parsetab_prec TNEQ = PREC_EQUAL"
| "expr_parsetab_prec TLT = PREC_COMPARE"
| "expr_parsetab_prec TGT = PREC_COMPARE"
| "expr_parsetab_prec TLTEQ = PREC_COMPARE"
| "expr_parsetab_prec TGTEQ = PREC_COMPARE"
| "expr_parsetab_prec TSHL = PREC_SHIFT"
| "expr_parsetab_prec TSHR = PREC_SHIFT"
| "expr_parsetab_prec TPLUS = PREC_ADD"
| "expr_parsetab_prec TMINUS = PREC_ADD"
| "expr_parsetab_prec TSTAR = PREC_MUL"
| "expr_parsetab_prec TSLASH = PREC_MUL"
| "expr_parsetab_prec TPERCENT = PREC_MUL"
| "expr_parsetab_prec TPLUSPLUS = PREC_UNARY_PREFIX"
| "expr_parsetab_prec TMINUSMINUS = PREC_UNARY_PREFIX"
| "expr_parsetab_prec TNOT = PREC_UNARY_PREFIX"
| "expr_parsetab_prec TTILDE = PREC_UNARY_PREFIX"
| "expr_parsetab_prec TMUT = PREC_UNARY_PREFIX"
| "expr_parsetab_prec TLPAREN = PREC_UNARY_POSTFIX"
| "expr_parsetab_prec TLBRACK = PREC_UNARY_POSTFIX"
| "expr_parsetab_prec TDOT = PREC_MEMBER"
| "expr_parsetab_prec _ = PREC_COMMA"

fun type_parsetab_prefix :: "tok_t \<Rightarrow> prefix_type_parselet_t option" where
  "type_parsetab_prefix TID = Some (\<lambda>rc k p. ret (type_id p))"
| "type_parsetab_prefix TLBRACE = Some (\<lambda>rc k p. type_struct rc k p)"
| "type_parsetab_prefix TFUN = Some (\<lambda>rc k p. type_fun rc k p)"
| "type_parsetab_prefix TSTAR = Some (\<lambda>rc k p. type_ptr rc p)"
| "type_parsetab_prefix TAND = Some (\<lambda>rc k p. type_ref rc p)"
| "type_parsetab_prefix TMUT = Some (\<lambda>rc k p. type_mut rc p)"
| "type_parsetab_prefix TQUESTION = Some (\<lambda>rc k p. type_optional rc p)"
| "type_parsetab_prefix _ = None"

fun stmt_parsetab_prefix :: "tok_t \<Rightarrow> prefix_type_parselet_t option" where
  "stmt_parsetab_prefix TFUN = Some (\<lambda>rc k p. stmt_fun rc k p)"
| "stmt_parsetab_prefix TTYPE = Some (\<lambda>rc k p. stmt_typedef rc p)"
| "stmt_parsetab_prefix _ = None"

text \<open>
  \<^verbatim>\<open>expr\<close>, \<^verbatim>\<open>type\<close> and \<^verbatim>\<open>stmt\<close>. The infix parselet is called with \<^verbatim>\<open>PARGS\<close>, that
  is with the precedence \<^verbatim>\<open>expr\<close> was called with. No entry of \<^verbatim>\<open>type_parsetab\<close> or
  \<^verbatim>\<open>stmt_parsetab\<close> has an infix parselet, so the loops of \<^verbatim>\<open>type\<close> and \<^verbatim>\<open>stmt\<close>
  return at once.
\<close>

fun expr_loop :: "rec_t \<Rightarrow> nat \<Rightarrow> prec_t \<Rightarrow> int \<Rightarrow> nat \<Rightarrow> parser_t \<Rightarrow> nat res" where
  "expr_loop rc 0 prec fl n p = Fail OutOfFuel"
| "expr_loop rc (Suc k) prec fl n p =
     (case expr_parsetab_infix (currtok p) of
        None \<Rightarrow> Ok n p
      | Some infix \<Rightarrow>
          if prec_rank (expr_parsetab_prec (currtok p)) < prec_rank prec then Ok n p
          else bnd (infix rc k prec n fl p) (\<lambda>n1 p1. expr_loop rc k prec fl n1 p1))"

definition expr :: "rec_t \<Rightarrow> nat \<Rightarrow> prec_t \<Rightarrow> int \<Rightarrow> parser_t \<Rightarrow> nat res" where
  "expr rc k prec fl p =
     (case expr_parsetab_prefix (currtok p) of
        None \<Rightarrow>
          bnd (fastforward_semi k (unexpected ''where an expression is expected'' p))
            (\<lambda>u p1. ret (mkbad p1))
      | Some prefix \<Rightarrow> bnd (prefix rc k fl p) (\<lambda>n p1. expr_loop rc k prec fl n p1))"

definition type_p :: "rec_t \<Rightarrow> nat \<Rightarrow> prec_t \<Rightarrow> parser_t \<Rightarrow> nat res" where
  "type_p rc k prec p =
     (case type_parsetab_prefix (currtok p) of
        None \<Rightarrow>
          bnd (fastforward_semi k (unexpected ''where type is expected'' p))
            (\<lambda>u p1. Ok type_void p1)
      | Some prefix \<Rightarrow> prefix rc k p)"

definition stmt :: "rec_t \<Rightarrow> nat \<Rightarrow> prec_t \<Rightarrow> parser_t \<Rightarrow> nat res" where
  "stmt rc k prec p =
     (case stmt_parsetab_prefix (currtok p) of
        None \<Rightarrow>
          bnd (fastforward_semi k (unexpected ''where a statement is expected'' p))
            (\<lambda>u p1. ret (mkbad p1))
      | Some prefix \<Rightarrow> prefix rc k p)"

text \<open>
  The recursion of the parselets through \<^verbatim>\<open>expr\<close> and \<^verbatim>\<open>type\<close>, to the depth \<open>k\<close>.
\<close>

primrec run :: "nat \<Rightarrow> rec_t" where
  "run 0 = (\<lambda>c p. Fail OutOfFuel)"
| "run (Suc k) = (\<lambda>c p. case c of
                           CExpr prec fl \<Rightarrow> expr (run k) k prec fl p
                         | CType prec \<Rightarrow> type_p (run k) k prec p)"

text \<open>
  \<^verbatim>\<open>parser_init\<close> and \<^verbatim>\<open>parser_parse\<close>. The parser is given the store with the static
  nodes of universe.c; the allocator of its scope is \<open>ma\<close>.
\<close>

definition parser_init :: "memalloc_t \<Rightarrow> compiler_t \<Rightarrow> parser_t" where
  "parser_init ma c =
     \<lparr>scanner = (scanner0 [])\<lparr>compiler := c\<rparr>, heap = heap0,
      scope = \<lparr>ptr = [], cap = 0, len = 0, base = 0\<rparr>, p_ma = ma,
      pkgdefs = [], methodmap = [], typectx = type_void, typectxstack = [],
      dotctx = 0, dotctxstack = [], curfun = 0\<rparr>"

fun parse_loop :: "nat \<Rightarrow> nat \<Rightarrow> parser_t \<Rightarrow> unit res" where
  "parse_loop 0 unit p = Fail OutOfFuel"
| "parse_loop (Suc k) unit p =
     (if currtok p = TEOF then Ok () p
      else
        bnd (stmt (run k) k PREC_LOWEST p)
          (\<lambda>n p1.
             let p2 = upd unit (\<lambda>x. x\<lparr>n_children := n_children x @ [n]\<rparr>) p1;
                 (ok, p3) = expect_token TSEMI [] p2
             in if \<not> ok then bnd (fastforward_semi k p3) (\<lambda>u p4. parse_loop k unit p4)
                else parse_loop k unit (p_next p3)))"

definition parser_parse :: "nat \<Rightarrow> string \<Rightarrow> parser_t \<Rightarrow> nat res" where
  "parser_parse k src p =
     (let p0 = p\<lparr>scope := scope_clear (scope p),
                 scanner := scanner_set_input src (scanner p)\<rparr>;
          (unit, p1) = mknode NODE_UNIT p0;
          p2 = enter_scope (p_next p1)
      in bnd (parse_loop k unit p2) (\<lambda>u p3. Ok unit (leave_scope p3)))"

text \<open>A parser on the input \<open>src\<close> with an allocator that never fails.\<close>

definition parser0 :: parser_t where
  "parser0 = parser_init ma_any compiler0"


section \<open>Reading a parse result\<close>

text \<open>
  Functions that read off a parse result what the properties below speak about: the
  diagnostics by kind, format and arguments, the kinds of a list of nodes, the first
  expression of the body of the first function of a unit, and an expression as a tree
  of identifiers, integer literals and binary operations.
\<close>

definition diag_list :: "parser_t \<Rightarrow> (diagkind_t \<times> string \<times> string list) list" where
  "diag_list p = map (\<lambda>d. (d_kind d, d_fmt d, d_args d)) (diags (compiler (scanner p)))"

definition kinds :: "parser_t \<Rightarrow> nat list \<Rightarrow> nodekind_t list" where
  "kinds p ns = map (\<lambda>a. n_kind (nd p a)) ns"

definition fun_body_children :: "parser_t \<Rightarrow> nat \<Rightarrow> nat list" where
  "fun_body_children p unit = n_children (nd p (n_body (nd p (hd (n_children (nd p unit))))))"

datatype tree = Ident string | Lit u64 | Binop tok_t tree tree | Other nodekind_t

fun tree_of :: "nat \<Rightarrow> parser_t \<Rightarrow> nat \<Rightarrow> tree" where
  "tree_of 0 p n = Other (n_kind (nd p n))"
| "tree_of (Suc k) p n =
     (if n_kind (nd p n) = EXPR_ID then Ident (name_of p (n_name (nd p n)))
      else if n_kind (nd p n) = EXPR_INTLIT then Lit (n_intval (nd p n))
      else if n_kind (nd p n) = EXPR_BINOP
      then Binop (n_op (nd p n)) (tree_of k p (n_left (nd p n))) (tree_of k p (n_right (nd p n)))
      else Other (n_kind (nd p n)))"

text \<open>
  The parser with the scanner at the first token of the input \<open>src\<close>, as it is when a
  parselet is called.
\<close>

definition parser_at :: "string \<Rightarrow> parser_t" where
  "parser_at src = p_next (parser0\<lparr>scanner := scanner_set_input src (scanner parser0)\<rparr>)"


section \<open>Properties\<close>

subsection \<open>Scanner: the insert-semicolon flag\<close>


lemma s_error_frame:
  "insertsemi (s_error f s) = insertsemi s \<and> input (s_error f s) = input s \<and>
   tokstart (s_error f s) = tokstart s \<and> tok (s_error f s) = TEOF"
  by (simp add: s_error_def stop_scanning_def)

lemma floatnumber_loop_frame:
  "insertsemi (floatnumber_loop b a s) = insertsemi s \<and> input (floatnumber_loop b a s) = input s \<and>
   tokstart (floatnumber_loop b a s) = tokstart s \<and> tok (floatnumber_loop b a s) = tok s"
proof (induction b a s rule: floatnumber_loop.induct)
  case (1 fbase allowsign s)
  show ?case
    using 1 by (simp add: floatnumber_loop.simps[of fbase allowsign s] split: option.splits)
qed

lemma floatnumber_frame:
  "insertsemi (floatnumber b s) = insertsemi s \<and> input (floatnumber b s) = input s \<and>
   tokstart (floatnumber b s) = tokstart s \<and> tok (floatnumber b s) = TFLOATLIT"
  by (simp add: floatnumber_def floatnumber_loop_frame)

lemma number_end_frame:
  "insertsemi (number_end acc any c s) = insertsemi s \<and> input (number_end acc any c s) = input s \<and>
   tokstart (number_end acc any c s) = tokstart s \<and>
   tok (number_end acc any c s) \<in> {tok s, TEOF}"
  by (simp add: number_end_def Let_def s_error_frame)

lemma number_loop_frame:
  "insertsemi (number_loop nb st co cl acc any c s) = insertsemi s \<and>
   input (number_loop nb st co cl acc any c s) = input s \<and>
   tokstart (number_loop nb st co cl acc any c s) = tokstart s \<and>
   tok (number_loop nb st co cl acc any c s) \<in> {tok s, TFLOATLIT, TEOF}"
proof (induction nb st co cl acc any c s rule: number_loop.induct)
  case (1 nbase start_inp cutoff cutlim acc any c s)
  show ?case
    using 1 number_end_frame[of acc any c s]
    by (auto simp: number_loop.simps[of nbase start_inp cutoff cutlim acc any c s]
          s_error_frame floatnumber_frame split: option.splits)
qed

lemma number_frame:
  "insertsemi (number nb s) \<and> input (number nb s) = input s \<and>
   tokstart (number nb s) = tokstart s \<and> tok (number nb s) \<in> {TINTLIT, TFLOATLIT, TEOF}"
  using number_loop_frame[of nb "inp s" "0xFFFFFFFFFFFFFFFF div of_nat nb" "0xFFFFFFFFFFFFFFFF mod of_nat nb"
          0 0 "byte_at (s\<lparr>tok := TINTLIT, insertsemi := True, litint := 0\<rparr>) (inp s)"
          "s\<lparr>tok := TINTLIT, insertsemi := True, litint := 0\<rparr>"]
  by (simp add: number_def Let_def)

lemma zeronumber_frame:
  "insertsemi (zeronumber s) \<and> input (zeronumber s) = input s \<and>
   tokstart (zeronumber s) = tokstart s \<and> tok (zeronumber s) \<in> {TINTLIT, TFLOATLIT, TEOF}"
  using number_frame[of 16 "s\<lparr>inp := inp s + 1\<rparr>"] number_frame[of 2 "s\<lparr>inp := inp s + 1\<rparr>"]
        number_frame[of 8 "s\<lparr>inp := inp s + 1\<rparr>"] number_frame[of 10 s]
  by (simp add: zeronumber_def Let_def)


lemma identifier_loop_frame:
  "insertsemi (identifier_loop s) = insertsemi s \<and> input (identifier_loop s) = input s \<and>
   tokstart (identifier_loop s) = tokstart s \<and> tok (identifier_loop s) = tok s \<and>
   inend (identifier_loop s) = inend s"
proof (induction s rule: identifier_loop.induct)
  case (1 s)
  show ?case using 1 by (simp add: identifier_loop.simps[of s])
qed

lemma identifier_loop_inp:
  "input s = input t \<Longrightarrow> inp s = inp t \<Longrightarrow> inend s = inend t \<Longrightarrow>
   inp (identifier_loop s) = inp (identifier_loop t)"
proof (induction s arbitrary: t rule: identifier_loop.induct)
  case (1 s)
  have bt: "byte_at t (inp t) = byte_at s (inp s)"
    using "1.prems" by (simp add: byte_at_def)
  show ?case
  proof (cases "inp s < inend s \<and> (isalnum (byte_at s (inp s)) \<or> byte_at s (inp s) = 95)")
    case True
    then have t: "inp t < inend t \<and> (isalnum (byte_at t (inp t)) \<or> byte_at t (inp t) = 95)"
      using "1.prems" bt by simp
    have "inp (identifier_loop (s\<lparr>inp := inp s + 1\<rparr>)) = inp (identifier_loop (t\<lparr>inp := inp t + 1\<rparr>))"
      using "1.IH"[OF True, of "t\<lparr>inp := inp t + 1\<rparr>"] "1.prems" by simp
    then show ?thesis
      using True t by (simp add: identifier_loop.simps[of s] identifier_loop.simps[of t])
  next
    case False
    then have t: "\<not> (inp t < inend t \<and> (isalnum (byte_at t (inp t)) \<or> byte_at t (inp t) = 95))"
      using "1.prems" bt by simp
    show ?thesis
      using False t "1.prems" by (auto simp: identifier_loop.simps[of s] identifier_loop.simps[of t])
  qed
qed

lemma intern_identifier_frame:
  "insertsemi (intern_identifier s) = insertsemi s \<and> input (intern_identifier s) = input s \<and>
   tokstart (intern_identifier s) = tokstart s \<and> tok (intern_identifier s) = tok s"
  by (simp add: intern_identifier_def split: prod.splits)

lemma maybe_keyword_loop_frame:
  "high \<le> length keywordtab \<Longrightarrow>
   insertsemi (maybe_keyword_loop lit low high s) = insertsemi s \<and>
   input (maybe_keyword_loop lit low high s) = input s \<and>
   tokstart (maybe_keyword_loop lit low high s) = tokstart s \<and>
   (tok (maybe_keyword_loop lit low high s) = tok s \<or>
    tok (maybe_keyword_loop lit low high s) \<in> snd ` set keywordtab)"
proof (induction lit low high s rule: maybe_keyword_loop.induct)
  case (1 lit low high s)
  show ?case
  proof (cases "low < high")
    case False
    then show ?thesis by (simp add: maybe_keyword_loop.simps[of lit low high s])
  next
    case True
    define mid where "mid = (low + high) div 2"
    have mid: "mid < length keywordtab" "mid \<le> length keywordtab" "mid < high"
      using True "1.prems" by (auto simp: mid_def)
    have kw: "snd (keywordtab ! mid) \<in> snd ` set keywordtab"
      using mid(1) by (metis image_eqI nth_mem)
    show ?thesis
      using True kw "1.IH"(1)[OF True mid_def refl _ _ mid(2)] "1.IH"(2)[OF True mid_def refl _ _ "1.prems"]
      by (auto simp: maybe_keyword_loop.simps[of lit low high s] Let_def mid_def)
  qed
qed

lemma utf8seq_frame:
  "utf8seq s = (ok, s1) \<Longrightarrow>
   insertsemi s1 = insertsemi s \<and> input s1 = input s \<and> tokstart s1 = tokstart s \<and> tok s1 = tok s"
  by (auto simp: utf8seq_def Let_def split: if_splits)

lemma identifier_utf8_loop_frame:
  "insertsemi (snd (identifier_utf8_loop s)) = insertsemi s \<and>
   input (snd (identifier_utf8_loop s)) = input s \<and>
   tokstart (snd (identifier_utf8_loop s)) = tokstart s \<and>
   (tok (snd (identifier_utf8_loop s)) = tok s \<or> tok (snd (identifier_utf8_loop s)) = TEOF)"
proof (induction s rule: identifier_utf8_loop.induct)
  case (1 s)
  show ?case
  proof (cases "inp s < inend s")
    case False
    then show ?thesis by (simp add: identifier_utf8_loop.simps[of s])
  next
    case lt: True
    show ?thesis
    proof (cases "UTF8_SELF \<le> byte_at s (inp s)")
      case u: True
      obtain ok s1 where us: "utf8seq s = (ok, s1)" by (cases "utf8seq s")
      note fr = utf8seq_frame[OF us]
      show ?thesis
      proof (cases ok)
        case True
        then show ?thesis
          using lt u us fr "1.IH"(1)[OF lt u us[symmetric] refl]
          by (simp add: identifier_utf8_loop.simps[of s])
      next
        case False
        then show ?thesis
          using lt u us fr by (simp add: identifier_utf8_loop.simps[of s] s_error_frame)
      qed
    next
      case nu: False
      show ?thesis
      proof (cases "isalnum (byte_at s (inp s)) \<or> byte_at s (inp s) = 95")
        case True
        then show ?thesis
          using lt nu "1.IH"(2)[OF lt nu True]
          by (simp add: identifier_utf8_loop.simps[of s])
      next
        case False
        then show ?thesis
          using lt nu by (simp add: identifier_utf8_loop.simps[of s])
      qed
    qed
  qed
qed

lemma identifier_utf8_frame:
  "insertsemi (identifier_utf8 s) = insertsemi s \<and> input (identifier_utf8 s) = input s \<and>
   tokstart (identifier_utf8 s) = tokstart s \<and> tok (identifier_utf8 s) \<in> {tok s, TID, TEOF}"
  using identifier_utf8_loop_frame[of s]
  by (cases "identifier_utf8_loop s")
     (auto simp: identifier_utf8_def intern_identifier_frame)


lemma maybe_keyword_frame:
  "insertsemi (maybe_keyword s) = insertsemi s \<and> input (maybe_keyword s) = input s \<and>
   tokstart (maybe_keyword s) = tokstart s \<and>
   (tok (maybe_keyword s) = tok s \<or> tok (maybe_keyword s) \<in> snd ` set keywordtab)"
  using maybe_keyword_loop_frame[of "length keywordtab" "scanner_lit s" 0 s]
  by (simp add: maybe_keyword_def)

lemma scan_identifier_frame:
  "input (scan_identifier s) = input s \<and> tokstart (scan_identifier s) = tokstart s \<and>
   (tok (scan_identifier s) \<in> {tok s, TID, TEOF} \<or> tok (scan_identifier s) \<in> snd ` set keywordtab) \<and>
   insertsemi (scan_identifier s) =
     (if inp (identifier_loop s) < inend s \<and>
         UTF8_SELF \<le> byte_at s (inp (identifier_loop s))
      then insertsemi s else True)"
proof -
  define s1 where "s1 = identifier_loop s"
  have fr: "insertsemi s1 = insertsemi s" "input s1 = input s" "tokstart s1 = tokstart s"
    "tok s1 = tok s" "inend s1 = inend s"
    using identifier_loop_frame[of s] by (simp_all add: s1_def)
  have b: "byte_at s1 i = byte_at s i" for i by (simp add: byte_at_def fr)
  define s2 where "s2 = intern_identifier (s1\<lparr>tok := TID, insertsemi := True\<rparr>)"
  have fr2: "insertsemi s2" "input s2 = input s" "tokstart s2 = tokstart s" "tok s2 = TID"
    using intern_identifier_frame[of "s1\<lparr>tok := TID, insertsemi := True\<rparr>"] fr
    by (simp_all add: s2_def)
  show ?thesis
    using fr b fr2 identifier_utf8_frame[of s1] maybe_keyword_frame[of s2]
    by (auto simp: scan_identifier_def Let_def s1_def[symmetric] s2_def[symmetric])
qed

lemma line_comment_loop_frame:
  "insertsemi (line_comment_loop s) = insertsemi s \<and> input (line_comment_loop s) = input s"
proof (induction s rule: line_comment_loop.induct)
  case (1 s)
  show ?case using 1 by (simp add: line_comment_loop.simps[of s])
qed

lemma block_comment_loop_frame:
  "insertsemi (block_comment_loop st s) = insertsemi s \<and> input (block_comment_loop st s) = input s"
proof (induction st s rule: block_comment_loop.induct)
  case (1 st s)
  show ?case using 1 by (simp add: block_comment_loop.simps[of st s] newline_def)
qed

lemma skip_comment_frame:
  "insertsemi (skip_comment s) = insertsemi s \<and> input (skip_comment s) = input s"
  by (simp add: skip_comment_def line_comment_loop_frame block_comment_loop_frame)

lemma skip_space_frame:
  "insertsemi (skip_space s) = insertsemi s \<and> input (skip_space s) = input s"
proof (induction s rule: skip_space.induct)
  case (1 s)
  show ?case using 1 by (simp add: skip_space.simps[of s] newline_def)
qed

lemma ch_codes:
  "ch CHR ''('' = 40" "ch CHR '')'' = 41" "ch CHR ''{'' = 123" "ch CHR ''}'' = 125"
  "ch CHR ''['' = 91" "ch CHR '']'' = 93" "ch CHR '';'' = 59" "ch CHR '','' = 44"
  "ch CHR ''+'' = 43" "ch CHR ''*'' = 42" "ch CHR ''%'' = 37" "ch CHR ''&'' = 38"
  "ch CHR ''|'' = 124" "ch CHR ''^'' = 94" "ch CHR ''~'' = 126" "ch CHR ''#'' = 35"
  "ch CHR ''<'' = 60" "ch CHR ''>'' = 62" "ch CHR ''='' = 61" "ch CHR ''0'' = 48"
  "ch CHR ''.'' = 46" "ch CHR ''/'' = 47" "ch CHR ''_'' = 95"
  by (simp_all add: ch_def)

lemma sw_ident:
  assumes "isalpha c \<or> c = 95"
  shows "scan1_switch saved c s = (False, scan_identifier s)"
proof -
  have ne: "c \<noteq> 40" "c \<noteq> 41" "c \<noteq> 123" "c \<noteq> 125" "c \<noteq> 91" "c \<noteq> 93" "c \<noteq> 59"
    "c \<noteq> 44" "c \<noteq> 43" "c \<noteq> 42" "c \<noteq> 37" "c \<noteq> 38" "c \<noteq> 124" "c \<noteq> 94"
    "c \<noteq> 126" "c \<noteq> 35" "c \<noteq> 60" "c \<noteq> 62" "c \<noteq> 61" "c \<noteq> 48" "c \<noteq> 46"
    "c \<noteq> 47" "\<not> isdigit c" "\<not> UTF8_SELF \<le> c"
    using assms by (auto simp: isalpha_def isdigit_def UTF8_SELF_def)
  show ?thesis
    unfolding scan1_switch_def ch_codes using assms by (simp add: ne)
qed

lemma sw_digit:
  assumes "isdigit c"
  shows "scan1_switch saved c s =
     (False, if c = 48 then zeronumber s else number 10 (s\<lparr>inp := inp s - 1\<rparr>))"
proof -
  have ne: "c \<noteq> 40" "c \<noteq> 41" "c \<noteq> 123" "c \<noteq> 125" "c \<noteq> 91" "c \<noteq> 93" "c \<noteq> 59"
    "c \<noteq> 44" "c \<noteq> 43" "c \<noteq> 42" "c \<noteq> 37" "c \<noteq> 38" "c \<noteq> 124" "c \<noteq> 94"
    "c \<noteq> 126" "c \<noteq> 35" "c \<noteq> 60" "c \<noteq> 62" "c \<noteq> 61" "c \<noteq> 46"
    "c \<noteq> 47"
    using assms by (auto simp: isdigit_def)
  show ?thesis
    unfolding scan1_switch_def ch_codes using assms by (simp add: ne)
qed

lemma sw_close:
  "c = 41 \<or> c = 93 \<or> c = 125 \<Longrightarrow> insertsemi (snd (scan1_switch saved c s))"
  unfolding scan1_switch_def ch_codes
  by (elim disjE) simp_all

lemma identifier_utf8_loop_fail:
  "\<not> fst (identifier_utf8_loop s) \<longrightarrow> tok (snd (identifier_utf8_loop s)) = TEOF"
proof (induction s rule: identifier_utf8_loop.induct)
  case (1 s)
  show ?case
  proof (cases "inp s < inend s")
    case False
    then show ?thesis by (simp add: identifier_utf8_loop.simps[of s])
  next
    case lt: True
    show ?thesis
    proof (cases "UTF8_SELF \<le> byte_at s (inp s)")
      case u: True
      obtain ok s1 where us: "utf8seq s = (ok, s1)" by (cases "utf8seq s")
      show ?thesis
      proof (cases ok)
        case True
        then show ?thesis
          using lt u us "1.IH"(1)[OF lt u us[symmetric] refl]
          by (simp add: identifier_utf8_loop.simps[of s])
      next
        case False
        then show ?thesis
          using lt u us by (simp add: identifier_utf8_loop.simps[of s] s_error_frame)
      qed
    next
      case nu: False
      show ?thesis
      proof (cases "isalnum (byte_at s (inp s)) \<or> byte_at s (inp s) = 95")
        case True
        then show ?thesis
          using lt nu "1.IH"(2)[OF lt nu True]
          by (simp add: identifier_utf8_loop.simps[of s])
      next
        case False
        then show ?thesis
          using lt nu by (simp add: identifier_utf8_loop.simps[of s])
      qed
    qed
  qed
qed

lemma identifier_utf8_tok: "tok (identifier_utf8 s) \<in> {TID, TEOF}"
  using identifier_utf8_loop_fail[of s]
  by (cases "identifier_utf8_loop s") (auto simp: identifier_utf8_def intern_identifier_frame)

lemma keywordtab_toks:
  "snd ` set keywordtab = {TELSE, TFOR, TFUN, TIF, TLET, TMUT, TRETURN, TTYPE, TVAR}"
  by (auto simp: keywordtab_def)

lemma scan_identifier_tok: "tok (scan_identifier s) \<noteq> TSEMI"
proof -
  define s1 where "s1 = identifier_loop s"
  define s2 where "s2 = intern_identifier (s1\<lparr>tok := TID, insertsemi := True\<rparr>)"
  have t2: "tok s2 = TID"
    using intern_identifier_frame[of "s1\<lparr>tok := TID, insertsemi := True\<rparr>"] by (simp add: s2_def)
  show ?thesis
    using identifier_utf8_tok[of s1] maybe_keyword_frame[of s2] t2
    by (auto simp: scan_identifier_def Let_def s1_def[symmetric] s2_def[symmetric] keywordtab_toks)
qed

lemma scan_identifier_flag:
  "(if inp (identifier_loop s) < inend s \<and> UTF8_SELF \<le> byte_at s (inp (identifier_loop s))
    then insertsemi (scan_identifier s) = insertsemi s \<and> tok (scan_identifier s) \<in> {TID, TEOF}
    else insertsemi (scan_identifier s) \<and>
         (tok (scan_identifier s) = TID \<or> tok (scan_identifier s) \<in> snd ` set keywordtab))"
proof -
  define s1 where "s1 = identifier_loop s"
  have fr: "insertsemi s1 = insertsemi s" "input s1 = input s" "inend s1 = inend s"
    using identifier_loop_frame[of s] by (simp_all add: s1_def)
  have b: "byte_at s1 i = byte_at s i" for i by (simp add: byte_at_def fr)
  define s2 where "s2 = intern_identifier (s1\<lparr>tok := TID, insertsemi := True\<rparr>)"
  have fr2: "insertsemi s2" "tok s2 = TID"
    using intern_identifier_frame[of "s1\<lparr>tok := TID, insertsemi := True\<rparr>"]
    by (simp_all add: s2_def)
  show ?thesis
    using fr b fr2 identifier_utf8_frame[of s1] identifier_utf8_tok[of s1]
          maybe_keyword_frame[of s2]
    by (auto simp: scan_identifier_def Let_def s1_def[symmetric] s2_def[symmetric])
qed

lemma flag_toks_kw: "snd ` set keywordtab \<subseteq> flag_toks"
  by (auto simp: keywordtab_def flag_toks_def)

lemma sw_other:
  assumes "scan1_switch saved c s = (False, s1)" and "\<not> insertsemi s"
    and "c \<noteq> 41" "c \<noteq> 93" "c \<noteq> 125" "\<not> isdigit c" "\<not> (isalpha c \<or> c = 95)"
  shows "\<not> insertsemi s1 \<and> tok s1 \<notin> flag_toks \<and> tokstart s1 = tokstart s \<and>
         (tok s1 = TSEMI \<longrightarrow> c = 59)"
proof -
  have d: "isdigit 48" by (simp add: isdigit_def)
  have f: "insertsemi (floatnumber 10 (s\<lparr>inp := inp s - 1\<rparr>)) = insertsemi s"
    "tok (floatnumber 10 (s\<lparr>inp := inp s - 1\<rparr>)) = TFLOATLIT"
    "tokstart (floatnumber 10 (s\<lparr>inp := inp s - 1\<rparr>)) = tokstart s"
    "insertsemi (identifier_utf8 (s\<lparr>inp := inp s - 1\<rparr>)) = insertsemi s"
    "tokstart (identifier_utf8 (s\<lparr>inp := inp s - 1\<rparr>)) = tokstart s"
    "tok (identifier_utf8 (s\<lparr>inp := inp s - 1\<rparr>)) = TID \<or>
     tok (identifier_utf8 (s\<lparr>inp := inp s - 1\<rparr>)) = TEOF"
    using floatnumber_frame[of 10 "s\<lparr>inp := inp s - 1\<rparr>"]
      identifier_utf8_frame[of "s\<lparr>inp := inp s - 1\<rparr>"]
      identifier_utf8_tok[of "s\<lparr>inp := inp s - 1\<rparr>"]
    by auto
  show ?thesis
    using assms d f unfolding scan1_switch_def ch_codes flag_toks_def
    by (auto simp: Let_def s_error_frame stop_scanning_def split: if_split_asm)
qed

lemma sw_flag:
  assumes sw: "scan1_switch saved c s = (False, s1)" and nf: "\<not> insertsemi s"
  shows "tokstart s1 = tokstart s \<and>
     (insertsemi s1 \<longleftrightarrow>
        c = 41 \<or> c = 93 \<or> c = 125 \<or> isdigit c \<or>
        ((isalpha c \<or> c = 95) \<and>
         \<not> (inp (identifier_loop s) < inend s \<and>
            UTF8_SELF \<le> byte_at s (inp (identifier_loop s))))) \<and>
     (tok s1 \<in> flag_toks \<longrightarrow> insertsemi s1) \<and>
     (insertsemi s1 \<longrightarrow> tok s1 \<in> flag_toks \<union> {TID, TFLOATLIT, TEOF}) \<and>
     (tok s1 = TSEMI \<longrightarrow> c = 59)"
proof -
  consider (cl) "c = 41 \<or> c = 93 \<or> c = 125" | (dg) "isdigit c" | (id) "isalpha c \<or> c = 95"
    | (ot) "c \<noteq> 41" "c \<noteq> 93" "c \<noteq> 125" "\<not> isdigit c" "\<not> (isalpha c \<or> c = 95)"
    by blast
  then show ?thesis
  proof cases
    case cl
    then show ?thesis
      using sw unfolding scan1_switch_def ch_codes flag_toks_def
      by (elim disjE) auto
  next
    case dg
    have ne: "c \<noteq> 41" "c \<noteq> 93" "c \<noteq> 125" "c \<noteq> 59" "\<not> (isalpha c \<or> c = 95)"
      using dg by (auto simp: isdigit_def isalpha_def)
    have "s1 = (if c = 48 then zeronumber s else number 10 (s\<lparr>inp := inp s - 1\<rparr>))"
      using sw_digit[OF dg, of saved s] sw by simp
    then have "insertsemi s1 \<and> tokstart s1 = tokstart s \<and> tok s1 \<in> {TINTLIT, TFLOATLIT, TEOF}"
      using zeronumber_frame[of s] number_frame[of 10 "s\<lparr>inp := inp s - 1\<rparr>"]
      by (simp split: if_split_asm)
    then show ?thesis using dg ne by (auto simp: flag_toks_def)
  next
    case id
    have ne: "c \<noteq> 41" "c \<noteq> 93" "c \<noteq> 125" "c \<noteq> 59" "\<not> isdigit c"
      using id by (auto simp: isdigit_def isalpha_def)
    have s1: "s1 = scan_identifier s"
      using sw_ident[OF id, of saved s] sw by simp
    show ?thesis
      using scan_identifier_flag[of s] scan_identifier_frame[of s] flag_toks_kw nf id ne
      unfolding s1
      by (auto simp: flag_toks_def split: if_split_asm)
  next
    case ot
    show ?thesis
      using sw_other[OF sw nf ot] ot by auto
  qed
qed

lemma sets_flag_cong:
  assumes "input t = input s" "inend t = inend s"
  shows "sets_flag t i = sets_flag s i"
proof -
  have b: "byte_at t j = byte_at s j" for j using assms by (simp add: byte_at_def)
  have il: "inp (identifier_loop (t\<lparr>inp := i + 1\<rparr>)) = inp (identifier_loop (s\<lparr>inp := i + 1\<rparr>))"
    by (rule identifier_loop_inp) (simp_all add: assms)
  have fr: "inend (identifier_loop (t\<lparr>inp := i + 1\<rparr>)) = inend s"
    "inend (identifier_loop (s\<lparr>inp := i + 1\<rparr>)) = inend s"
    "input (identifier_loop (t\<lparr>inp := i + 1\<rparr>)) = input s"
    "input (identifier_loop (s\<lparr>inp := i + 1\<rparr>)) = input s"
    using identifier_loop_frame[of "t\<lparr>inp := i + 1\<rparr>"] identifier_loop_frame[of "s\<lparr>inp := i + 1\<rparr>"]
      assms by simp_all
  define t1 where "t1 = identifier_loop (t\<lparr>inp := i + 1\<rparr>)"
  define u1 where "u1 = identifier_loop (s\<lparr>inp := i + 1\<rparr>)"
  have e: "inp t1 = inp u1" "inend t1 = inend u1" "byte_at t1 j = byte_at u1 j" for j
    using il fr by (simp_all add: t1_def u1_def byte_at_def)
  have "utf8_tail t i = utf8_tail s i"
    unfolding utf8_tail_def Let_def t1_def[symmetric] u1_def[symmetric] by (simp add: e)
  then show ?thesis
    by (simp add: sets_flag_def Let_def b assms)
qed

lemma scan1_flag:
  assumes sc: "scan1 s = (False, s1)" and lt: "inp s < inend s"
  shows "tokstart s1 = inp s \<and> (insertsemi s1 \<longleftrightarrow> sets_flag s (inp s)) \<and>
     (tok s1 \<in> flag_toks \<longrightarrow> insertsemi s1) \<and>
     (insertsemi s1 \<longrightarrow> tok s1 \<in> flag_toks \<union> {TID, TFLOATLIT, TEOF}) \<and>
     (tok s1 = TSEMI \<longrightarrow> byte_at s (inp s) = 59)"
proof -
  define sa where "sa = s\<lparr>tokstart := inp s, tok_line := lineno s,
                             tok_col := ptr_col (inp s) (linestart s)\<rparr>"
  define sb where "sb = sa\<lparr>insertsemi := False, inp := inp sa + 1\<rparr>"
  have b: "byte_at sa i = byte_at s i" "byte_at sb i = byte_at s i" for i
    by (simp_all add: byte_at_def sa_def sb_def)
  have c: "byte_at sa (inp sa) = byte_at s (inp s)"
    by (simp add: b) (simp add: sa_def)
  have sw: "scan1_switch (insertsemi sa) (byte_at s (inp s)) sb = (False, s1)"
    using sc c by (simp add: scan1_def Let_def sa_def sb_def)
  have il: "inp (identifier_loop sb) = inp (identifier_loop (s\<lparr>inp := inp s + 1\<rparr>))"
    by (rule identifier_loop_inp) (simp_all add: sa_def sb_def)
  have ie: "inend (identifier_loop (s\<lparr>inp := inp s + 1\<rparr>)) = inend s"
    using identifier_loop_frame[of "s\<lparr>inp := inp s + 1\<rparr>"] by simp
  have bi: "byte_at (identifier_loop (s\<lparr>inp := inp s + 1\<rparr>)) i = byte_at s i" for i
    using identifier_loop_frame[of "s\<lparr>inp := inp s + 1\<rparr>"] by (simp add: byte_at_def)
  have ut: "(inp (identifier_loop sb) < inend sb \<and>
              UTF8_SELF \<le> byte_at sb (inp (identifier_loop sb))) = utf8_tail s (inp s)"
    using il ie bi b by (simp add: utf8_tail_def Let_def sb_def sa_def)
  have nf: "\<not> insertsemi sb" by (simp add: sb_def)
  have ts: "tokstart sb = inp s" by (simp add: sb_def sa_def)
  show ?thesis
    using sw_flag[OF sw nf] lt unfolding ut ts
    by (auto simp: sets_flag_def Let_def ch_codes)
qed

lemma scan0_flag:
  "(insertsemi (scan0 s) \<longleftrightarrow> tok (scan0 s) \<noteq> TSEMI \<and> sets_flag s (tokstart (scan0 s))) \<and>
   (tok (scan0 s) \<in> flag_toks \<longrightarrow> insertsemi (scan0 s)) \<and>
   (insertsemi (scan0 s) \<longrightarrow> tok (scan0 s) \<in> flag_toks \<union> {TID, TFLOATLIT, TEOF})"
proof (induction s rule: scan0.induct)
  case (1 s0)
  define s where "s = skip_space (s0\<lparr>litlenoffs := 0\<rparr>)"
  have fr: "insertsemi s = insertsemi s0" "input s = input s0" "inend s = inend s0"
    using skip_space_frame[of "s0\<lparr>litlenoffs := 0\<rparr>"] skip_space_inp[of "s0\<lparr>litlenoffs := 0\<rparr>"]
    by (simp_all add: s_def)
  have sf: "sets_flag s i = sets_flag s0 i" for i
    by (rule sets_flag_cong) (simp_all add: fr)
  show ?case
  proof (cases "linestart s0 \<noteq> linestart s \<and> insertsemi s")
    case True
    then show ?thesis
      by (simp add: scan0.simps[of s0] Let_def s_def[symmetric] flag_toks_def)
  next
    case nl: False
    then have ns: "(linestart s0 \<noteq> linestart s \<and> insertsemi s) = False" by simp
    show ?thesis
    proof (cases "inend s \<le> inp s")
      case True
      then show ?thesis
        using fr
        by (simp add: scan0.simps[of s0] Let_def s_def[symmetric] ns flag_toks_def sets_flag_def)
    next
      case ne: False
      then have lt: "inp s < inend s" by simp
      obtain again s1 where sc: "scan1 s = (again, s1)" by (cases "scan1 s")
      have unf: "scan0 s0 = (if again then scan0 s1 else s1)"
        using lt sc by (simp add: scan0.simps[of s0] Let_def s_def[symmetric] ns)
      show ?thesis
      proof (cases again)
        case True
        define sa where "sa = s\<lparr>tokstart := inp s, tok_line := lineno s,
                             tok_col := ptr_col (inp s) (linestart s)\<rparr>"
        define sb where "sb = sa\<lparr>insertsemi := False, inp := inp sa + 1\<rparr>"
        have sw: "scan1_switch (insertsemi sa) (byte_at sa (inp sa)) sb = (True, s1)"
          using sc True by (simp add: scan1_def Let_def sa_def sb_def)
        have s1: "s1 = skip_comment (sb\<lparr>inp := inp sb - 1, insertsemi := insertsemi sa\<rparr>)"
          using sw scan1_switch_again by simp
        have fr1: "input s1 = input s0" "inend s1 = inend s0"
          using skip_comment_frame[of "sb\<lparr>inp := inp sb - 1, insertsemi := insertsemi sa\<rparr>"]
            skip_comment_inp[of "sb\<lparr>inp := inp sb - 1, insertsemi := insertsemi sa\<rparr>"] fr
          by (simp_all add: s1 sa_def sb_def)
        have sf1: "sets_flag s1 i = sets_flag s0 i" for i
          by (rule sets_flag_cong) (simp_all add: fr1)
        have ih: "(insertsemi (scan0 s1) \<longleftrightarrow> tok (scan0 s1) \<noteq> TSEMI \<and> sets_flag s1 (tokstart (scan0 s1))) \<and>
                  (tok (scan0 s1) \<in> flag_toks \<longrightarrow> insertsemi (scan0 s1)) \<and>
                  (insertsemi (scan0 s1) \<longrightarrow> tok (scan0 s1) \<in> flag_toks \<union> {TID, TFLOATLIT, TEOF})"
          by (rule "1.IH"[OF refl refl s_def nl ne sc[symmetric] True])
        show ?thesis using ih unfolding unf sf1 using True by auto
      next
        case False
        have "tokstart s1 = inp s \<and> (insertsemi s1 \<longleftrightarrow> sets_flag s (inp s)) \<and>
           (tok s1 \<in> flag_toks \<longrightarrow> insertsemi s1) \<and>
           (insertsemi s1 \<longrightarrow> tok s1 \<in> flag_toks \<union> {TID, TFLOATLIT, TEOF}) \<and>
           (tok s1 = TSEMI \<longrightarrow> byte_at s (inp s) = 59)"
        proof -
          have "scan1 s = (False, s1)" using sc False by simp
          then show ?thesis by (rule scan1_flag[OF _ lt])
        qed
        moreover have "byte_at s (inp s) = 59 \<Longrightarrow> \<not> sets_flag s (inp s)"
          by (simp add: sets_flag_def Let_def ch_codes isdigit_def isalpha_def)
        ultimately show ?thesis
          using unf False by (auto simp: sf)
      qed
    qed
  qed
qed

lemma scan0_semi:
  "\<not> insertsemi s \<Longrightarrow> tok (scan0 s) = TSEMI \<Longrightarrow> byte_at s (tokstart (scan0 s)) = 59"
proof (induction s rule: scan0.induct)
  case (1 s0)
  define s where "s = skip_space (s0\<lparr>litlenoffs := 0\<rparr>)"
  have fr: "insertsemi s = insertsemi s0" "input s = input s0"
    using skip_space_frame[of "s0\<lparr>litlenoffs := 0\<rparr>"] by (simp_all add: s_def)
  have nf: "\<not> insertsemi s" using fr "1.prems"(1) by simp
  have lt: "inp s < inend s"
  proof (rule ccontr)
    assume "\<not> inp s < inend s"
    then have "tok (scan0 s0) = TEOF"
      using nf by (simp add: scan0.simps[of s0] Let_def s_def[symmetric])
    then show False using "1.prems"(2) by simp
  qed
  obtain again s1 where sc: "scan1 s = (again, s1)" by (cases "scan1 s")
  have unf: "scan0 s0 = (if again then scan0 s1 else s1)"
    using nf lt sc by (simp add: scan0.simps[of s0] Let_def s_def[symmetric])
  show ?case
  proof (cases again)
    case True
    define sa where "sa = s\<lparr>tokstart := inp s, tok_line := lineno s,
                             tok_col := ptr_col (inp s) (linestart s)\<rparr>"
    define sb where "sb = sa\<lparr>insertsemi := False, inp := inp sa + 1\<rparr>"
    have sw: "scan1_switch (insertsemi sa) (byte_at sa (inp sa)) sb = (again, s1)"
      using sc by (simp add: scan1_def Let_def sa_def sb_def)
    have s1: "s1 = skip_comment (sb\<lparr>inp := inp sb - 1, insertsemi := insertsemi sa\<rparr>)"
      using sw scan1_switch_again True by simp
    have fr1: "insertsemi s1 = insertsemi s0" "input s1 = input s0"
      using skip_comment_frame[of "sb\<lparr>inp := inp sb - 1, insertsemi := insertsemi sa\<rparr>"] fr
      by (simp_all add: s1 sa_def sb_def)
    have ih: "byte_at s1 (tokstart (scan0 s1)) = 59"
      using "1.IH"[OF refl refl s_def _ _ sc[symmetric] True] nf lt fr1 "1.prems" unf True
      by simp
    have "byte_at s1 i = byte_at s0 i" for i by (simp add: byte_at_def fr1)
    then show ?thesis using ih unf True by simp
  next
    case False
    have "scan1 s = (False, s1)" using sc False by simp
    then have "tokstart s1 = inp s \<and> (tok s1 = TSEMI \<longrightarrow> byte_at s (inp s) = 59)"
      using scan1_flag[OF _ lt, of s1] by blast
    moreover have "byte_at s i = byte_at s0 i" for i by (simp add: byte_at_def fr)
    ultimately show ?thesis
      using unf False "1.prems"(2) by simp
  qed
qed


text \<open>
  C5, amended. After \<^verbatim>\<open>scanner_next\<close> the flag is set exactly when the token is not a
  semicolon and starts, inside the input, with a closing bracket, with a digit, or with
  an ASCII letter or underscore of an identifier that \<^verbatim>\<open>identifier\<close> scans to its end.
  In terms of tokens: the flag is set after \<^verbatim>\<open>) ] }\<close>, after an integer literal and
  after every keyword, and it is set after nothing but these, an identifier, a float
  literal and the \<^verbatim>\<open>TEOF\<close> of a malformed number; so no punctuation and no operator
  sets it. And the scanner yields \<^verbatim>\<open>TSEMI\<close> without the flag set only for a \<^verbatim>\<open>;\<close> of
  the input: a synthetic one needs the flag.
\<close>

theorem insertsemi_flag:
  "(insertsemi (scanner_next s) \<longleftrightarrow>
      tok (scanner_next s) \<noteq> TSEMI \<and> sets_flag s (tokstart (scanner_next s))) \<and>
   (tok (scanner_next s) \<in> flag_toks \<longrightarrow> insertsemi (scanner_next s)) \<and>
   (insertsemi (scanner_next s) \<longrightarrow>
      tok (scanner_next s) \<in> flag_toks \<union> {TID, TFLOATLIT, TEOF}) \<and>
   (\<not> insertsemi s \<and> tok (scanner_next s) = TSEMI \<longrightarrow>
      byte_at s (tokstart (scanner_next s)) = ch CHR '';'')"
proof -
  define t where "t = s\<lparr>tokend := inp s\<rparr>"
  have sf: "sets_flag t i = sets_flag s i" for i
    by (rule sets_flag_cong) (simp_all add: t_def)
  have b: "byte_at t i = byte_at s i" for i by (simp add: byte_at_def t_def)
  have n: "scanner_next s = scan0 t" by (simp add: scanner_next_def t_def)
  have semi: "\<not> insertsemi s \<Longrightarrow> tok (scan0 t) = TSEMI \<Longrightarrow>
              byte_at s (tokstart (scan0 t)) = 59"
    using scan0_semi[of t] b by (simp add: t_def)
  show ?thesis
    unfolding n ch_codes using scan0_flag[of t] semi unfolding sf by blast
qed

text \<open>
  C5 as the spec states it: among the keywords only \<^verbatim>\<open>return\<close> sets the flag. The
  keyword \<^verbatim>\<open>let\<close> sets it too, and a newline after it yields a \<^verbatim>\<open>TSEMI\<close>.
\<close>

theorem insertsemi_flag_counterexample:
  "tok (scanner_next (scanner0 ''let'')) = TLET \<and>
   insertsemi (scanner_next (scanner0 ''let'')) \<and>
   scan_all 9 (scanner0 (''let'' @ [CHR 0x0A] @ ''x'')) = [TLET, TSEMI, TID, TSEMI, TEOF]"
  by code_simp

theorem insertsemi_flag_witness:
  "tok (scanner_next (scanner0 ''let'')) \<in> flag_toks \<and>
   insertsemi (scanner_next (scanner0 ''let'')) \<and>
   tok (scanner_next (scanner0 ''let'')) \<noteq> TSEMI \<and>
   sets_flag (scanner0 ''let'') (tokstart (scanner_next (scanner0 ''let''))) \<and>
   \<not> insertsemi (scanner0 '';'') \<and>
   tok (scanner_next (scanner0 '';'')) = TSEMI \<and>
   byte_at (scanner0 '';'') (tokstart (scanner_next (scanner0 '';''))) = ch CHR '';''"
proof -
  have h1: "tok (scanner_next (scanner0 ''let'')) = TLET" by code_simp
  have h2: "\<not> insertsemi (scanner0 '';'')" by code_simp
  have h3: "tok (scanner_next (scanner0 '';'')) = TSEMI" by code_simp
  have h4: "TLET \<in> flag_toks" by (simp add: flag_toks_def)
  have h5: "tok (scanner_next (scanner0 ''let'')) \<in> flag_toks \<and>
            tok (scanner_next (scanner0 ''let'')) \<noteq> TSEMI"
    using h1 h4 by simp
  show ?thesis
    using insertsemi_flag[of "scanner0 ''let''"] insertsemi_flag[of "scanner0 '';''"]
          h2 h3 h5
    by blast
qed


subsection \<open>Type id of an alias\<close>

text \<open>
  C9 as the spec states it: the encoding of the underlying type is part of the type id
  of an alias. It is not: an alias of \<^verbatim>\<open>i32\<close> and an alias of \<^verbatim>\<open>i64\<close> with the same
  name \<^verbatim>\<open>A\<close> both get the type id \<^verbatim>\<open>L1;A\<close>, which holds neither the id of \<^verbatim>\<open>i32\<close> nor
  that of \<^verbatim>\<open>i64\<close>.
\<close>

theorem typeid_alias_counterexample:
  "map_sum id fst (typeid TYPEID_PREFIX [''_'', ''this'', ''A''] 10 19 alias_heap) = Inr ''L1;A'' \<and>
   map_sum id fst (typeid TYPEID_PREFIX [''_'', ''this'', ''A''] 10 20 alias_heap) = Inr ''L1;A'' \<and>
   n_tid (alias_heap ! n_elem (alias_heap ! 19)) = ''w'' \<and>
   n_tid (alias_heap ! n_elem (alias_heap ! 20)) = ''d''"
  by code_simp

text \<open>
  C9, amended: the type id of an alias that has none yet is the alias prefix byte, the
  \<^verbatim>\<open>u32\<close> length of the alias name in hex with a closing \<^verbatim>\<open>;\<close>, and the name bytes.
  \<^verbatim>\<open>_typeid\<close> stores it in the node. It is the same whatever the underlying type is.
\<close>

theorem typeid_alias:
  assumes "n_kind (h ! t) = TYPE_ALIAS" and "n_tid (h ! t) = []" and "t < length h"
  shows "typeid pfx names (Suc k) t h =
           Inr (alias_sig pfx (sym_str names (n_name (h ! t))),
                 h[t := (h ! t)\<lparr>n_tid := alias_sig pfx (sym_str names (n_name (h ! t)))\<rparr>]) \<and>
         map_sum id fst (typeid pfx names (Suc k) t (h[t := (h ! t)\<lparr>n_elem := e\<rparr>])) =
           Inr (alias_sig pfx (sym_str names (n_name (h ! t))))"
  using assms
  by (simp add: typeid_def type_isprim_def nodekind_isprimtype_def aliastype_def
        write_u32_def alias_sig_def Let_def)

theorem typeid_alias_witness:
  "n_kind (alias_heap ! 19) = TYPE_ALIAS \<and> n_tid (alias_heap ! 19) = [] \<and>
   19 < length alias_heap \<and>
   typeid TYPEID_PREFIX [''_'', ''this'', ''A''] (Suc 0) 19 alias_heap =
     Inr (''L1;A'', alias_heap[19 := (alias_heap ! 19)\<lparr>n_tid := ''L1;A''\<rparr>]) \<and>
   map_sum id fst (typeid TYPEID_PREFIX [''_'', ''this'', ''A''] (Suc 0) 19
      (alias_heap[19 := (alias_heap ! 19)\<lparr>n_elem := type_f64\<rparr>])) = Inr ''L1;A''"
proof -
  have h1: "n_kind (alias_heap ! 19) = TYPE_ALIAS" by code_simp
  have h2: "n_tid (alias_heap ! 19) = []" by code_simp
  have h3: "19 < length alias_heap" by code_simp
  have nm: "sym_str [''_'', ''this'', ''A''] (n_name (alias_heap ! 19)) = ''A''" by code_simp
  have sg: "alias_sig TYPEID_PREFIX ''A'' = ''L1;A''" by code_simp
  show ?thesis
    using typeid_alias[OF h1 h2 h3, of TYPEID_PREFIX "[''_'', ''this'', ''A'']" 0 type_f64] h1 h2 h3
    by (simp add: nm sg)
qed


subsection \<open>Scope stack: pop undoes push\<close>

lemma lookup_loop_take:
  "take (unat i) p = take (unat i) q \<Longrightarrow> lookup_loop p key i b m = lookup_loop q key i b m"
proof (induction p key i b m rule: lookup_loop.induct)
  case (1 p key i b maxdepth)
  show ?case
  proof (cases "1 < i")
    case False
    then show ?thesis
      by (simp add: lookup_loop.simps[of p key i] lookup_loop.simps[of q key i])
  next
    case True
    have nth_eq: "p ! j = q ! j" if "j < unat i" for j
    proof -
      have "p ! j = take (unat i) p ! j" using that by simp
      also have "\<dots> = take (unat i) q ! j" using "1.prems" by simp
      also have "\<dots> = q ! j" using that by simp
      finally show ?thesis .
    qed
    have l1: "unat (i - 1) < unat i" using True by unat_arith
    have l2: "unat (i - 1 - 1) < unat i" using True by unat_arith
    have tk: "take n p = take n q" if "n < unat i" for n
    proof -
      have "take n (take (unat i) p) = take n (take (unat i) q)"
        using "1.prems" by simp
      then show ?thesis using that by (simp add: min_def)
    qed
    note t1 = tk[OF l1] and t2 = tk[OF l2]
    note e1 = nth_eq[OF l1] and e2 = nth_eq[OF l2]
    have ih1: "lookup_loop p key (i - 1) (of_nat (p ! unat (i - 1))) (maxdepth - 1) =
               lookup_loop q key (i - 1) (of_nat (p ! unat (i - 1))) (maxdepth - 1)"
      if "i - 1 = b" "maxdepth \<noteq> 0"
      using "1.IH"(1)[OF True refl that t1] .
    have ih2: "lookup_loop p key (i - 1 - 1) b maxdepth = lookup_loop q key (i - 1 - 1) b maxdepth"
      if "i - 1 \<noteq> b" "p ! unat (i - 1) \<noteq> key"
      using "1.IH"(2)[OF True refl that t2] .
    have up: "lookup_loop p key i b maxdepth =
        (if i - 1 = b then
           (if maxdepth = 0 then 0
            else lookup_loop p key (i - 1) (of_nat (p ! unat (i - 1))) (maxdepth - 1))
         else if p ! unat (i - 1) = key then p ! unat (i - 1 - 1)
         else lookup_loop p key (i - 1 - 1) b maxdepth)"
      using True by (subst lookup_loop.simps) (simp add: Let_def)
    have uq: "lookup_loop q key i b maxdepth =
        (if i - 1 = b then
           (if maxdepth = 0 then 0
            else lookup_loop q key (i - 1) (of_nat (q ! unat (i - 1))) (maxdepth - 1))
         else if q ! unat (i - 1) = key then q ! unat (i - 1 - 1)
         else lookup_loop q key (i - 1 - 1) b maxdepth)"
      using True by (subst lookup_loop.simps) (simp add: Let_def)
    show ?thesis
      unfolding up uq e1[symmetric] e2[symmetric]
      using ih1 ih2 by auto
  qed
qed


lemma scope_grow_Some:
  assumes "scope_grow ma s = Some s1" and "length (ptr s) = unat (cap s)"
  shows "length (ptr s1) = unat (cap s1)" and "len s1 = len s" and "base s1 = base s"
    and "\<And>n. n \<le> length (ptr s1) \<Longrightarrow> n \<le> length (ptr s) \<Longrightarrow> take n (ptr s1) = take n (ptr s)"
    and "\<And>j. j < length (ptr s1) \<Longrightarrow> j < length (ptr s) \<Longrightarrow> ptr s1 ! j = ptr s ! j"
  using assms
  by (auto simp: scope_grow_def Let_def nth_append split: if_splits)

lemma unat_plus1: "unat (x::u32) < unat (c::u32) \<Longrightarrow> unat (x + 1) = unat x + 1"
  by unat_arith

lemma scope_push_inner:
  assumes ok: "scope_ok s0" and push: "scope_push ma s0 = Some s1"
  shows "scope_inner s0 s1"
proof -
  obtain sg where sg: "(if cap s0 \<le> len s0 then scope_grow ma s0 else Some s0) = Some sg"
    and g: "unat (len sg) < length (ptr sg)"
    and s1: "s1 = sg\<lparr>ptr := (ptr sg)[unat (len sg) := unat (base sg)], base := len sg, len := len sg + 1\<rparr>"
    using push by (auto simp: scope_push_def split: option.splits if_splits)
  have l0: "length (ptr s0) = unat (cap s0)" and le0: "unat (len s0) \<le> length (ptr s0)"
    using ok by (auto simp: scope_ok_def word_le_nat_alt)
  have props: "length (ptr sg) = unat (cap sg)" "len sg = len s0" "base sg = base s0"
     "take (unat (len s0)) (ptr sg) = take (unat (len s0)) (ptr s0)"
    using sg l0 le0 g scope_grow_Some[of ma s0 sg]
    by (auto split: if_splits)
  have lt: "unat (len s0) < unat (cap sg)" using g props by simp
  have u1: "unat (len s0 + 1) = unat (len s0) + 1" using lt by (rule unat_plus1)
  show ?thesis
    using props g lt u1
    by (simp add: scope_inner_def scope_ok_def s1 word_le_nat_alt word_less_nat_alt)
qed

lemma scope_def_inner:
  assumes inv: "scope_inner s0 s" and d: "scope_def ma key val s = Some s1"
  shows "scope_inner s0 s1"
proof -
  obtain sg where sg: "(if cap s - len s < 2 then scope_grow ma s else Some s) = Some sg"
    and g: "unat (len sg) < length (ptr sg)" "unat (len sg + 1) < length (ptr sg)"
    and s1: "s1 = sg\<lparr>ptr := (ptr sg)[unat (len sg) := val, unat (len sg + 1) := key], len := len sg + 2\<rparr>"
    using d by (auto simp: scope_def_def split: option.splits if_splits)
  have l0: "length (ptr s) = unat (cap s)" and le0: "unat (len s) \<le> length (ptr s)"
    and b: "base s = len s0" and lt0: "unat (len s0) < unat (len s)"
    and tk: "take (unat (len s0)) (ptr s) = take (unat (len s0)) (ptr s0)"
    and mk: "ptr s ! unat (len s0) = unat (base s0)"
    using inv by (auto simp: scope_inner_def scope_ok_def word_le_nat_alt word_less_nat_alt)
  have props: "length (ptr sg) = unat (cap sg)" "len sg = len s" "base sg = base s"
     "take (unat (len s0)) (ptr sg) = take (unat (len s0)) (ptr s)"
     "ptr sg ! unat (len s0) = ptr s ! unat (len s0)"
    using sg l0 le0 lt0 g scope_grow_Some[of ma s sg]
    by (auto split: if_splits)
  have lt: "unat (len s) < unat (cap sg)" using g props by simp
  have u1: "unat (len s + 1) = unat (len s) + 1" using lt by (rule unat_plus1)
  have lt2: "unat (len s + 1) < unat (cap sg)" using g props by simp
  have u2: "unat (len s + 2) = unat (len s) + 2"
    using unat_plus1[OF lt2] u1 by (simp add: add.assoc)
  show ?thesis
    using props g lt lt2 u1 u2 b lt0 tk mk
    by (simp add: scope_inner_def scope_ok_def s1 word_le_nat_alt word_less_nat_alt)
qed

lemma scope_defs_inner:
  "scope_inner s0 s \<Longrightarrow> scope_defs ma kvs s = Some s1 \<Longrightarrow> scope_inner s0 s1"
proof (induction kvs arbitrary: s)
  case Nil
  then show ?case by simp
next
  case (Cons kv kvs)
  obtain key val where kv: "kv = (key, val)" by (cases kv)
  from Cons.prems(2) obtain sm where a: "scope_def ma key val s = Some sm"
    and b: "scope_defs ma kvs sm = Some s1"
    by (auto simp: kv split: option.splits)
  show ?case using Cons.IH[OF scope_def_inner[OF Cons.prems(1) a] b] .
qed

text \<open>
  C10. Provided the allocations succeed, \<^verbatim>\<open>scope_pop\<close> undoes \<^verbatim>\<open>scope_push\<close>: after a
  push and any number of successful \<^verbatim>\<open>scope_def\<close> calls, one pop restores \<^verbatim>\<open>len\<close> and
  \<^verbatim>\<open>base\<close> to their values before the push, and every \<^verbatim>\<open>scope_lookup\<close> answers as it
  did before the push, so no binding defined since is visible.
\<close>

theorem scope_pop_undoes_push:
  assumes "scope_ok s0"
    and "scope_push ma s0 = Some s1"
    and "scope_defs ma kvs s1 = Some s2"
  shows "len (scope_pop s2) = len s0 \<and> base (scope_pop s2) = base s0 \<and>
         (\<forall>key maxdepth. scope_lookup (scope_pop s2) key maxdepth = scope_lookup s0 key maxdepth)"
proof -
  have inv: "scope_inner s0 s2"
    using scope_defs_inner[OF scope_push_inner[OF assms(1,2)] assms(3)] .
  then have b: "base s2 = len s0"
    and tk: "take (unat (len s0)) (ptr s2) = take (unat (len s0)) (ptr s0)"
    and mk: "ptr s2 ! unat (len s0) = unat (base s0)"
    by (auto simp: scope_inner_def)
  have l: "len (scope_pop s2) = len s0" and p: "ptr (scope_pop s2) = ptr s2"
    and bb: "base (scope_pop s2) = base s0"
    using b mk by (simp_all add: scope_pop_def Let_def)
  show ?thesis
    unfolding scope_lookup_def l p bb
    using lookup_loop_take[OF tk] by simp
qed

theorem scope_pop_undoes_push_witness:
  "scope_ok \<lparr>ptr = [], cap = 0, len = 0, base = 0\<rparr> \<and>
   scope_push ma_any \<lparr>ptr = [], cap = 0, len = 0, base = 0\<rparr> =
     Some \<lparr>ptr = [0, 0, 0, 0], cap = 4, len = 1, base = 0\<rparr> \<and>
   scope_defs ma_any [(7, 100), (8, 200), (9, 300)]
     \<lparr>ptr = [0, 0, 0, 0], cap = 4, len = 1, base = 0\<rparr> =
     Some \<lparr>ptr = [0, 100, 7, 200, 8, 300, 9, 0], cap = 8, len = 7, base = 0\<rparr> \<and>
   scope_lookup \<lparr>ptr = [0, 100, 7, 200, 8, 300, 9, 0], cap = 8, len = 7, base = 0\<rparr> 8 0 = 200 \<and>
   len (scope_pop \<lparr>ptr = [0, 100, 7, 200, 8, 300, 9, 0], cap = 8, len = 7, base = 0\<rparr>) = 0 \<and>
   base (scope_pop \<lparr>ptr = [0, 100, 7, 200, 8, 300, 9, 0], cap = 8, len = 7, base = 0\<rparr>) = 0 \<and>
   (\<forall>key maxdepth.
      scope_lookup (scope_pop \<lparr>ptr = [0, 100, 7, 200, 8, 300, 9, 0], cap = 8, len = 7, base = 0\<rparr>)
        key maxdepth =
      scope_lookup \<lparr>ptr = [], cap = 0, len = 0, base = 0\<rparr> key maxdepth)"
proof -
  have h1: "scope_ok \<lparr>ptr = [], cap = 0, len = 0, base = 0\<rparr>"
    by (simp add: scope_ok_def)
  have h2: "scope_push ma_any \<lparr>ptr = [], cap = 0, len = 0, base = 0\<rparr> =
     Some \<lparr>ptr = [0, 0, 0, 0], cap = 4, len = 1, base = 0\<rparr>"
    by code_simp
  have h3: "scope_defs ma_any [(7, 100), (8, 200), (9, 300)]
     \<lparr>ptr = [0, 0, 0, 0], cap = 4, len = 1, base = 0\<rparr> =
     Some \<lparr>ptr = [0, 100, 7, 200, 8, 300, 9, 0], cap = 8, len = 7, base = 0\<rparr>"
    by code_simp
  have h4: "scope_lookup \<lparr>ptr = [0, 100, 7, 200, 8, 300, 9, 0], cap = 8, len = 7, base = 0\<rparr> 8 0 = 200"
    by code_simp
  show ?thesis
    using scope_pop_undoes_push[OF h1 h2 h3] h1 h2 h3 h4 by simp
qed


end
